theory Spec2Isabelle
  imports Complex_Main "HOL-Library.Log_Nat"
begin

section \<open>Shared enumerations (backend/src/types/index.ts)\<close>

datatype ComplaintStatus =
  submitted | pending_review | approved | rejected | assigned
  | in_progress | resolved | closed | escalated

datatype UrgencyLevel = normal | high | critical

datatype EscalationLevel = level_1 | level_2 | level_3 | executive

text \<open>
  Identifiers are strings (UUIDs). A point in time is the number of milliseconds since the
  epoch, the value of \<^verbatim>\<open>Date.getTime()\<close>. The numbers of the priority scorer are
  doubles, with the rounding of each operation. Outside the scorer JavaScript numbers are
  modelled by exact real numbers: every quantity there is a small multiple of 1/100 or of a
  millisecond, and the multipliers 0.25, 0.5 and 1.0 are exact in binary floating point.
\<close>

type_synonym uuid = string
type_synonym timestamp = int

section \<open>JavaScript numbers (IEEE 754 binary64)\<close>

text \<open>
  The priority scorer computes with JavaScript numbers, and its result depends on how each
  operation rounds. A number is a finite double, an infinity or \<^verbatim>\<open>NaN\<close>; a finite double is
  given by its value. The two zeros are one value here: the scorer divides by non-zero
  literals only, and its result is serialised, where the sign of a zero is lost.
\<close>

datatype number = Finite real | PosInfinity | NegInfinity | NaN

text \<open>The nearest integer, a tie going to the even one.\<close>

definition roundTiesToEven :: "real \<Rightarrow> int" where
  "roundTiesToEven x =
     (let n = \<lfloor>x\<rfloor>; d = x - of_int n
      in if d < 1 / 2 then n else if 1 / 2 < d then n + 1 else if even n then n else n + 1)"

text \<open>
  The binary exponent of \<open>x\<close>: the \<open>e\<close> with \<open>2 ^ e \<le> \<bar>x\<bar> < 2 ^ (e + 1)\<close>, and -1022
  for every \<open>x\<close> below \<open>2 ^ -1022\<close> (the subnormal numbers). It is read off the number of
  bits of the integer part of \<open>\<bar>x\<bar> * 2 ^ 1074\<close>. The doubles around \<open>x\<close> are the
  multiples of \<open>ulp x\<close>, for the 53 bits of a significand.
\<close>

definition exponent :: "real \<Rightarrow> int" where
  "exponent x = max (bitlen \<lfloor>\<bar>x\<bar> * 2 ^ 1074\<rfloor> - 1075) (- 1022)"

definition ulp :: "real \<Rightarrow> real" where
  "ulp x = 2 powi (exponent x - 52)"

definition round64 :: "real \<Rightarrow> real" where
  "round64 x = of_int (roundTiesToEven (x / ulp x)) * ulp x"

text \<open>
  The number an exact result is rounded to: the nearest double, or an infinity when that
  rounding reaches \<open>2 ^ 1024\<close>. A decimal literal of the source denotes the number its
  value is rounded to.
\<close>

definition toNumber :: "real \<Rightarrow> number" where
  "toNumber x =
     (let r = round64 x
      in if 2 ^ 1024 \<le> \<bar>r\<bar> then (if 0 < r then PosInfinity else NegInfinity) else Finite r)"

definition js_negate :: "number \<Rightarrow> number" where
  "js_negate x =
     (case x of Finite a \<Rightarrow> Finite (- a) | PosInfinity \<Rightarrow> NegInfinity
      | NegInfinity \<Rightarrow> PosInfinity | NaN \<Rightarrow> NaN)"

fun js_plus :: "number \<Rightarrow> number \<Rightarrow> number" where
  "js_plus (Finite a) (Finite b) = toNumber (a + b)"
| "js_plus NaN y = NaN"
| "js_plus x NaN = NaN"
| "js_plus PosInfinity NegInfinity = NaN"
| "js_plus NegInfinity PosInfinity = NaN"
| "js_plus PosInfinity y = PosInfinity"
| "js_plus x PosInfinity = PosInfinity"
| "js_plus NegInfinity y = NegInfinity"
| "js_plus x NegInfinity = NegInfinity"

definition js_minus :: "number \<Rightarrow> number \<Rightarrow> number" where
  "js_minus x y = js_plus x (js_negate y)"

definition signed_infinity :: "bool \<Rightarrow> number" where
  "signed_infinity positive = (if positive then PosInfinity else NegInfinity)"

fun js_times :: "number \<Rightarrow> number \<Rightarrow> number" where
  "js_times (Finite a) (Finite b) = toNumber (a * b)"
| "js_times NaN y = NaN"
| "js_times x NaN = NaN"
| "js_times (Finite a) PosInfinity = (if a = 0 then NaN else signed_infinity (0 < a))"
| "js_times (Finite a) NegInfinity = (if a = 0 then NaN else signed_infinity (a < 0))"
| "js_times PosInfinity (Finite b) = (if b = 0 then NaN else signed_infinity (0 < b))"
| "js_times NegInfinity (Finite b) = (if b = 0 then NaN else signed_infinity (b < 0))"
| "js_times PosInfinity PosInfinity = PosInfinity"
| "js_times NegInfinity NegInfinity = PosInfinity"
| "js_times PosInfinity NegInfinity = NegInfinity"
| "js_times NegInfinity PosInfinity = NegInfinity"

text \<open>Division of a number by a literal \<open>c\<close> other than zero.\<close>

definition js_divide :: "number \<Rightarrow> real \<Rightarrow> number" where
  "js_divide x c =
     (case x of Finite a \<Rightarrow> toNumber (a / c) | PosInfinity \<Rightarrow> signed_infinity (0 < c)
      | NegInfinity \<Rightarrow> signed_infinity (c < 0) | NaN \<Rightarrow> NaN)"

fun js_Math_min :: "number \<Rightarrow> number \<Rightarrow> number" where
  "js_Math_min (Finite a) (Finite b) = Finite (min a b)"
| "js_Math_min NaN y = NaN"
| "js_Math_min x NaN = NaN"
| "js_Math_min NegInfinity y = NegInfinity"
| "js_Math_min x NegInfinity = NegInfinity"
| "js_Math_min PosInfinity y = y"
| "js_Math_min x PosInfinity = x"

text \<open>
  \<^verbatim>\<open>Math.round\<close>: the nearest integer, a tie going towards plus infinity. On a number it is
  exact: a double of magnitude \<open>2 ^ 52\<close> or more is an integer already.
\<close>

definition Math_round :: "real \<Rightarrow> int" where
  "Math_round x = \<lfloor>x + 1 / 2\<rfloor>"

definition js_Math_round :: "number \<Rightarrow> number" where
  "js_Math_round x = (case x of Finite a \<Rightarrow> Finite (of_int (Math_round a)) | _ \<Rightarrow> x)"

section \<open>Priority scorer (utils/helpers.ts, calculatePriorityScore)\<close>

record PriorityWeights =
  w_urgency :: number
  w_time :: number
  w_location :: number

definition DEFAULT_WEIGHTS :: PriorityWeights where
  "DEFAULT_WEIGHTS = \<lparr>w_urgency = Finite 40, w_time = Finite 35, w_location = Finite 25\<rparr>"

fun URGENCY_VALUES :: "UrgencyLevel \<Rightarrow> number" where
  "URGENCY_VALUES critical = Finite 1"
| "URGENCY_VALUES high = toNumber (7 / 10)"
| "URGENCY_VALUES normal = toNumber (3 / 10)"

text \<open>
  The source function has four parameters and reads the wall clock itself with
  \<^verbatim>\<open>Date.now()\<close>. The value that read returns is the first argument \<open>clock\<close> of the model.
  A time value is an integer of at most 8640000000000000 in magnitude, which a double holds
  exactly.
\<close>

definition calculatePriorityScore ::
  "timestamp \<Rightarrow> UrgencyLevel \<Rightarrow> timestamp \<Rightarrow> bool \<Rightarrow> PriorityWeights \<Rightarrow> number" where
  "calculatePriorityScore clock urgency createdAt isCriticalArea weights =
     (let urgencyValue = URGENCY_VALUES urgency;
          hoursOpen = js_divide (js_minus (Finite (of_int clock)) (Finite (of_int createdAt)))
                        (1000 * 60 * 60);
          timeValue = js_Math_min (js_divide hoursOpen 168) (Finite 1);
          locationValue = (if isCriticalArea then Finite 1 else Finite 0);
          score = js_plus (js_plus (js_times (w_urgency weights) urgencyValue)
                                   (js_times (w_time weights) timeValue))
                          (js_times (w_location weights) locationValue)
      in js_divide (js_Math_round (js_times score (Finite 100))) 100)"

text \<open>
  The weighted sum as the specification words it, in exact arithmetic, for the weights
  \<open>a\<close>, \<open>b\<close> and \<open>c\<close>: urgency value critical 1.0, high 0.7, normal 0.3; time value the
  hours since \<open>createdAt\<close> over 168, capped at 1.0; location value 1.0 in a critical area
  and 0.0 outside. The score of the code is compared with it below.
\<close>

definition spec_weighted_sum ::
  "real \<Rightarrow> real \<Rightarrow> real \<Rightarrow> UrgencyLevel \<Rightarrow> timestamp \<Rightarrow> timestamp \<Rightarrow> bool \<Rightarrow> real" where
  "spec_weighted_sum a b c urgency createdAt now isCriticalArea =
     a * (case urgency of critical \<Rightarrow> 1 | high \<Rightarrow> 7 / 10 | normal \<Rightarrow> 3 / 10)
     + b * min (of_int (now - createdAt) / 3600000 / 168) 1
     + c * (if isCriticalArea then 1 else 0)"

section \<open>SLA deadline calculator (utils/helpers.ts, calculateSLADeadline)\<close>

definition msPerHour :: int where
  "msPerHour = 3600000"

definition msPerDay :: int where
  "msPerDay = 86400000"

text \<open>
  \<^verbatim>\<open>Date.prototype.setHours(h)\<close> keeps the day, the minutes, the seconds and the
  milliseconds of the date and replaces the hour by \<^verbatim>\<open>ToIntegerOrInfinity(h)\<close>, which drops
  the fractional part of \<open>h\<close>. Local time is taken to be UTC (no daylight saving shift).
  The schema has a function \<^verbatim>\<open>calculate_sla_deadline\<close> of its own, with a default of 72
  hours for a missing department and exact interval arithmetic; nothing calls it, and it is
  not modelled.
\<close>

definition ToIntegerOrInfinity :: "real \<Rightarrow> int" where
  "ToIntegerOrInfinity x = (if 0 \<le> x then \<lfloor>x\<rfloor> else \<lceil>x\<rceil>)"

definition getHours :: "timestamp \<Rightarrow> int" where
  "getHours t = (t div msPerHour) mod 24"

definition setHours :: "timestamp \<Rightarrow> real \<Rightarrow> timestamp" where
  "setHours t hour =
     (t div msPerDay) * msPerDay + ToIntegerOrInfinity hour * msPerHour + t mod msPerHour"

fun urgencyMultipliers :: "UrgencyLevel \<Rightarrow> real" where
  "urgencyMultipliers critical = 1 / 4"
| "urgencyMultipliers high = 1 / 2"
| "urgencyMultipliers normal = 1"

definition calculateSLADeadline :: "real \<Rightarrow> UrgencyLevel \<Rightarrow> timestamp \<Rightarrow> timestamp" where
  "calculateSLADeadline baseSLAHours urgency createdAt =
     (let multiplier = urgencyMultipliers urgency;
          slaHours = baseSLAHours * multiplier
      in setHours createdAt (of_int (getHours createdAt) + slaHours))"

section \<open>Persistent state (database schema)\<close>

text \<open>
  The tables the services read and write, each as the list of its rows. Only the columns
  the modelled operations touch are kept; \<open>updated_at\<close>, descriptions, locations and the
  acknowledgement columns of an escalation are left out. Of the table \<^verbatim>\<open>users\<close> only the
  primary key is kept: the table is the list of the identifiers of its rows. The column
  \<open>priority_score\<close> holds the number the service stored.
\<close>

record Complaint =
  c_id :: uuid
  user_id :: uuid
  department_id :: "uuid option"
  urgency :: UrgencyLevel
  ai_confidence :: "real option"
  ai_reasoning :: "string option"
  ai_classified_at :: "timestamp option"
  ai_model_version :: "string option"
  is_auto_approved :: bool
  reviewed_by :: "uuid option"
  review_notes :: "string option"
  reviewed_at :: "timestamp option"
  assigned_to :: "uuid option"
  assigned_at :: "timestamp option"
  status :: ComplaintStatus
  priority_score :: number
  is_critical_area :: bool
  resolution_notes :: "string option"
  resolution_type :: "string option"
  sla_deadline :: "timestamp option"
  sla_breached :: bool
  sla_breach_notified :: bool
  created_at :: timestamp
  approved_at :: "timestamp option"
  resolved_at :: "timestamp option"
  closed_at :: "timestamp option"

record Department =
  d_id :: uuid
  code :: string
  sla_hours :: int
  is_active :: bool

record CriticalArea =
  lat_min :: real
  lat_max :: real
  lng_min :: real
  lng_max :: real
  area_is_active :: bool

record ComplaintStatusLog =
  log_complaint_id :: uuid
  old_status :: "ComplaintStatus option"
  new_status :: ComplaintStatus
  changed_by :: "uuid option"
  change_reason :: "string option"
  metadata_priority_score :: "number option"

record Escalation =
  esc_complaint_id :: uuid
  escalation_level :: EscalationLevel
  previous_level :: "EscalationLevel option"
  reason :: string
  is_system_escalation :: bool
  esc_created_at :: timestamp

text \<open>
  What leaves the process: the calls to the n8n workflows, the lines of the logger, and the
  number of requests made to the classifier model.
\<close>

datatype WebhookEvent =
  complaint_routing uuid uuid
  | notification uuid uuid string
  | sla_warning uuid
  | sla_breach uuid EscalationLevel

datatype LogLevel = log_info | log_warn | log_error

record Database =
  complaints :: "Complaint list"
  users :: "uuid list"
  departments :: "Department list"
  critical_areas :: "CriticalArea list"
  complaint_status_logs :: "ComplaintStatusLog list"
  escalations :: "Escalation list"
  webhooks_sent :: "WebhookEvent list"
  logger :: "(LogLevel \<times> string) list"
  gemini_calls :: nat

datatype AppError =
  ValidationError string
  | NotFoundError string uuid
  | AIServiceError string
  | DatabaseError

subsection \<open>Queries, writes and the status trigger\<close>

definition find_complaint :: "uuid \<Rightarrow> Database \<Rightarrow> Complaint option" where
  "find_complaint cid db = find (\<lambda>c. c_id c = cid) (complaints db)"

text \<open>
  The trigger \<^verbatim>\<open>log_complaint_status_change\<close> runs \<^verbatim>\<open>log_status_change()\<close> after every
  update of a row of \<^verbatim>\<open>complaints\<close>: when the status of the row changed, it inserts a log
  row with the old and the new status and the priority score as metadata, and neither an
  actor nor a reason.
\<close>

definition log_status_change :: "Complaint \<Rightarrow> Complaint \<Rightarrow> ComplaintStatusLog list" where
  "log_status_change OLD NEW =
     (if status OLD \<noteq> status NEW then
        [\<lparr>log_complaint_id = c_id NEW, old_status = Some (status OLD),
          new_status = status NEW, changed_by = None, change_reason = None,
          metadata_priority_score = Some (priority_score NEW)\<rparr>]
      else [])"

text \<open>\<^verbatim>\<open>from('complaints').update(data).eq('id', cid)\<close>, with the trigger fired for each row.\<close>

definition update_complaints :: "uuid \<Rightarrow> (Complaint \<Rightarrow> Complaint) \<Rightarrow> Database \<Rightarrow> Database" where
  "update_complaints cid updateData db =
     db\<lparr>complaints := map (\<lambda>c. if c_id c = cid then updateData c else c) (complaints db),
        complaint_status_logs := complaint_status_logs db
          @ concat (map (\<lambda>c. if c_id c = cid then log_status_change c (updateData c) else [])
                        (complaints db))\<rparr>"

text \<open>
  A property of the update object whose value is \<^verbatim>\<open>undefined\<close> is dropped when the object is
  serialised, so the column keeps its value.
\<close>

definition defined_or :: "'a option \<Rightarrow> 'a option \<Rightarrow> 'a option" where
  "defined_or v old = (case v of None \<Rightarrow> old | Some x \<Rightarrow> Some x)"

text \<open>
  A column that references \<^verbatim>\<open>users(id)\<close> or \<^verbatim>\<open>departments(id)\<close> holds \<^verbatim>\<open>NULL\<close> or the
  identifier of a row of that table; the database refuses a statement that would store any
  other value.
\<close>

definition dangling_user :: "uuid option \<Rightarrow> Database \<Rightarrow> bool" where
  "dangling_user v db = (case v of None \<Rightarrow> False | Some u \<Rightarrow> u \<notin> set (users db))"

definition dangling_department :: "uuid option \<Rightarrow> Database \<Rightarrow> bool" where
  "dangling_department v db =
     (case v of None \<Rightarrow> False | Some d \<Rightarrow> d \<notin> set (map d_id (departments db)))"

text \<open>
  Whether the database refuses \<^verbatim>\<open>update(data).eq('id', cid)\<close> on \<^verbatim>\<open>complaints\<close>: it does
  when the update gives \<open>reviewed_by\<close>, \<open>assigned_to\<close> or \<open>department_id\<close> of a row a
  new value that references no row. A reference the update leaves as it was is not checked
  again. The service that made the update then gets an error and no row. Only
  \<^verbatim>\<open>reviewComplaint\<close> and \<^verbatim>\<open>assignComplaint\<close> store a reference they were handed; the
  other updates below set no such column, but for the classification, which stores the
  identifier of a department row it has just read.
\<close>

definition update_refused :: "uuid \<Rightarrow> (Complaint \<Rightarrow> Complaint) \<Rightarrow> Database \<Rightarrow> bool" where
  "update_refused cid updateData db =
     list_ex (\<lambda>c. c_id c = cid
                \<and> ((reviewed_by (updateData c) \<noteq> reviewed_by c
                      \<and> dangling_user (reviewed_by (updateData c)) db)
                   \<or> (assigned_to (updateData c) \<noteq> assigned_to c
                      \<and> dangling_user (assigned_to (updateData c)) db)
                   \<or> (department_id (updateData c) \<noteq> department_id c
                      \<and> dangling_department (department_id (updateData c)) db)))
             (complaints db)"

text \<open>
  Inserts into the two append-only tables. Both reference \<^verbatim>\<open>complaints(id)\<close>, and
  \<^verbatim>\<open>complaint_status_logs.changed_by\<close> references \<^verbatim>\<open>users(id)\<close>: a row for a complaint
  that does not exist, or a log row whose actor is no user, is refused by the database, and
  the services do not look at the error of an insert. The services set no user column of an
  escalation.
\<close>

definition insert_status_log :: "ComplaintStatusLog \<Rightarrow> Database \<Rightarrow> Database" where
  "insert_status_log row db =
     (if find_complaint (log_complaint_id row) db = None \<or> dangling_user (changed_by row) db
      then db
      else db\<lparr>complaint_status_logs := complaint_status_logs db @ [row]\<rparr>)"

definition insert_escalation :: "Escalation \<Rightarrow> Database \<Rightarrow> Database" where
  "insert_escalation row db =
     (if find_complaint (esc_complaint_id row) db = None then db
      else db\<lparr>escalations := escalations db @ [row]\<rparr>)"

definition logger_write :: "LogLevel \<Rightarrow> string \<Rightarrow> Database \<Rightarrow> Database" where
  "logger_write level message db = db\<lparr>logger := logger db @ [(level, message)]\<rparr>"

section \<open>Outgoing webhooks (services/webhookService.ts)\<close>

text \<open>
  \<^verbatim>\<open>sendWebhook\<close> posts the event to n8n and catches every failure of the call, so it never
  throws; the model records the event that was handed to it.
\<close>

definition sendWebhook :: "WebhookEvent \<Rightarrow> Database \<Rightarrow> Database" where
  "sendWebhook event db = db\<lparr>webhooks_sent := webhooks_sent db @ [event]\<rparr>"

definition triggerComplaintRouting :: "uuid \<Rightarrow> uuid \<Rightarrow> Database \<Rightarrow> Database" where
  "triggerComplaintRouting complaintId departmentId db =
     (case find_complaint complaintId db of
        None \<Rightarrow> logger_write log_error ''Complaint not found for routing'' db
      | Some complaint \<Rightarrow> sendWebhook (complaint_routing complaintId departmentId) db)"

definition triggerNotification :: "uuid \<Rightarrow> uuid \<Rightarrow> string \<Rightarrow> Database \<Rightarrow> Database" where
  "triggerNotification userId complaintId notificationType db =
     (if find (\<lambda>u. u = userId) (users db) = None \<or> find_complaint complaintId db = None then
        logger_write log_error ''User or complaint not found for notification'' db
      else sendWebhook (notification userId complaintId notificationType) db)"

definition triggerSLAWarning :: "uuid \<Rightarrow> Database \<Rightarrow> Database" where
  "triggerSLAWarning complaintId db =
     (case find_complaint complaintId db of
        None \<Rightarrow> db
      | Some complaint \<Rightarrow> sendWebhook (sla_warning complaintId) db)"

definition triggerSLABreach :: "uuid \<Rightarrow> EscalationLevel \<Rightarrow> Database \<Rightarrow> Database" where
  "triggerSLABreach complaintId escalationLevel db =
     (case find_complaint complaintId db of
        None \<Rightarrow> db
      | Some complaint \<Rightarrow>
          triggerNotification (user_id complaint) complaintId ''escalation_created''
            (sendWebhook (sla_breach complaintId escalationLevel) db))"

section \<open>Complaint state machine (services/complaintService.ts)\<close>

definition getComplaintById :: "uuid \<Rightarrow> Database \<Rightarrow> AppError + Complaint" where
  "getComplaintById complaintId db =
     (case find_complaint complaintId db of
        None \<Rightarrow> Inl (NotFoundError ''Complaint'' complaintId)
      | Some data \<Rightarrow> Inr data)"

fun validTransitions :: "ComplaintStatus \<Rightarrow> ComplaintStatus list" where
  "validTransitions submitted = [pending_review, approved]"
| "validTransitions pending_review = [approved, rejected]"
| "validTransitions approved = [assigned]"
| "validTransitions rejected = []"
| "validTransitions assigned = [in_progress]"
| "validTransitions in_progress = [resolved, escalated]"
| "validTransitions resolved = [closed]"
| "validTransitions closed = []"
| "validTransitions escalated = [in_progress, resolved]"

fun status_name :: "ComplaintStatus \<Rightarrow> string" where
  "status_name submitted = ''submitted''"
| "status_name pending_review = ''pending_review''"
| "status_name approved = ''approved''"
| "status_name rejected = ''rejected''"
| "status_name assigned = ''assigned''"
| "status_name in_progress = ''in_progress''"
| "status_name resolved = ''resolved''"
| "status_name closed = ''closed''"
| "status_name escalated = ''escalated''"

text \<open>The object \<^verbatim>\<open>updateData\<close> that \<^verbatim>\<open>updateComplaintStatus\<close> builds, applied to a row.\<close>

definition status_updateData ::
  "timestamp \<Rightarrow> ComplaintStatus \<Rightarrow> string option \<Rightarrow> string option \<Rightarrow> Complaint \<Rightarrow> Complaint" where
  "status_updateData now newStatus notes resolutionType c =
     (let c1 = c\<lparr>status := newStatus\<rparr>;
          c2 = (if newStatus = resolved then
                  c1\<lparr>resolved_at := Some now,
                     resolution_notes := defined_or notes (resolution_notes c1),
                     resolution_type := defined_or resolutionType (resolution_type c1)\<rparr>
                else c1)
      in (if newStatus = closed then c2\<lparr>closed_at := Some now\<rparr> else c2))"

definition updateComplaintStatus ::
  "timestamp \<Rightarrow> uuid \<Rightarrow> uuid \<Rightarrow> ComplaintStatus \<Rightarrow> string option \<Rightarrow> string option
     \<Rightarrow> Database \<Rightarrow> (AppError + Complaint) \<times> Database" where
  "updateComplaintStatus now complaintId updaterId newStatus notes resolutionType db =
     (case getComplaintById complaintId db of
        Inl e \<Rightarrow> (Inl e, db)
      | Inr complaint \<Rightarrow>
          if newStatus \<notin> set (validTransitions (status complaint)) then
            (Inl (ValidationError (''Cannot transition from '' @ status_name (status complaint)
                                    @ '' to '' @ status_name newStatus)), db)
          else
            let db1 = update_complaints complaintId
                        (status_updateData now newStatus notes resolutionType) db
            in (case find_complaint complaintId db1 of
                  None \<Rightarrow> (Inl DatabaseError, db1)
                | Some data \<Rightarrow>
                    let db2 = insert_status_log
                                \<lparr>log_complaint_id = complaintId,
                                 old_status = Some (status complaint),
                                 new_status = newStatus,
                                 changed_by = Some updaterId,
                                 change_reason = notes,
                                 metadata_priority_score = None\<rparr> db1;
                        db3 = logger_write log_info ''Complaint status updated'' db2;
                        db4 = triggerNotification (user_id complaint) complaintId
                                ''status_updated'' db3
                    in (Inr data, db4)))"

definition review_updateData ::
  "timestamp \<Rightarrow> uuid \<Rightarrow> bool \<Rightarrow> string option \<Rightarrow> uuid option \<Rightarrow> UrgencyLevel option
     \<Rightarrow> Complaint \<Rightarrow> Complaint" where
  "review_updateData now reviewerId isApproved notes departmentId urgencyOverride c =
     (let c1 = c\<lparr>status := (if isApproved then approved else rejected),
                 reviewed_by := Some reviewerId,
                 reviewed_at := Some now,
                 review_notes := defined_or notes (review_notes c)\<rparr>
      in (if isApproved then
            c1\<lparr>approved_at := Some now,
               is_auto_approved := False,
               department_id := defined_or departmentId (department_id c1),
               urgency := (case urgencyOverride of None \<Rightarrow> urgency c1 | Some u \<Rightarrow> u)\<rparr>
          else c1))"


definition assign_updateData :: "timestamp \<Rightarrow> uuid option \<Rightarrow> Complaint \<Rightarrow> Complaint" where
  "assign_updateData now assignedTo c =
     c\<lparr>status := assigned,
       assigned_at := Some now,
       assigned_to := defined_or assignedTo (assigned_to c)\<rparr>"

definition assignComplaint ::
  "timestamp \<Rightarrow> uuid \<Rightarrow> uuid option \<Rightarrow> Database \<Rightarrow> (AppError + Complaint) \<times> Database" where
  "assignComplaint now complaintId assignedTo db =
     (if update_refused complaintId (assign_updateData now assignedTo) db then
        (Inl DatabaseError, db)
      else
        let db1 = update_complaints complaintId (assign_updateData now assignedTo) db
        in (case find_complaint complaintId db1 of
              None \<Rightarrow> (Inl DatabaseError, db1)
            | Some data \<Rightarrow> (Inr data, logger_write log_info ''Complaint assigned'' db1)))"

section \<open>Incoming n8n webhook (routes/webhooks.ts)\<close>

text \<open>
  The payload of \<^verbatim>\<open>POST /webhooks/n8n\<close>, with the properties the two status-writing cases
  of the \<^verbatim>\<open>switch\<close> read. The database accepts only a value of the status enumeration.
\<close>

record WebhookData =
  data_assigned_to :: "uuid option"
  data_status :: "ComplaintStatus option"
  data_updated_by :: "string option"
  data_notes :: "string option"

text \<open>\<^verbatim>\<open>x || fallback\<close> on an optional string: the fallback for a missing or an empty one.\<close>

definition or_else :: "string option \<Rightarrow> string \<Rightarrow> string" where
  "or_else v fallback = (case v of None \<Rightarrow> fallback | Some x \<Rightarrow> if x = [] then fallback else x)"

definition n8n_complaint_assigned ::
  "timestamp \<Rightarrow> uuid \<Rightarrow> WebhookData \<Rightarrow> Database \<Rightarrow> (AppError + unit) \<times> Database" where
  "n8n_complaint_assigned now complaint_id data' db =
     (case data_assigned_to data' of
        None \<Rightarrow> (Inr (), db)
      | Some a \<Rightarrow>
          (case assignComplaint now complaint_id (Some a) db of
             (Inl e, db') \<Rightarrow> (Inl e, db')
           | (Inr _, db') \<Rightarrow> (Inr (), db')))"

definition webhook_updateData :: "timestamp \<Rightarrow> ComplaintStatus \<Rightarrow> Complaint \<Rightarrow> Complaint" where
  "webhook_updateData now newStatus c =
     (let c1 = c\<lparr>status := newStatus\<rparr>
      in (if newStatus = assigned then c1\<lparr>assigned_at := Some now\<rparr> else c1))"


section \<open>SLA monitor and escalation ladder (services/slaService.ts)\<close>

record Config =
  confidenceThreshold :: real
  warningHoursBefore :: real

definition default_config :: Config where
  "default_config = \<lparr>confidenceThreshold = 75 / 100, warningHoursBefore = 6\<rparr>"

definition ESCALATION_ORDER :: "EscalationLevel list" where
  "ESCALATION_ORDER = [level_1, level_2, level_3, executive]"

fun indexOf :: "'a list \<Rightarrow> 'a \<Rightarrow> int" where
  "indexOf [] x = - 1"
| "indexOf (y # ys) x =
     (if y = x then 0 else (let i = indexOf ys x in if i < 0 then - 1 else i + 1))"

fun level_name :: "EscalationLevel \<Rightarrow> string" where
  "level_name level_1 = ''level_1''"
| "level_name level_2 = ''level_2''"
| "level_name level_3 = ''level_3''"
| "level_name executive = ''executive''"

text \<open>
  The row of a complaint with the greatest \<open>created_at\<close>
  (\<^verbatim>\<open>order('created_at', {ascending: false}).limit(1).single()\<close>). Among rows of equal
  time the one inserted last is taken.
\<close>

fun latestEscalation :: "uuid \<Rightarrow> Escalation list \<Rightarrow> Escalation option" where
  "latestEscalation cid [] = None"
| "latestEscalation cid (e # es) =
     (if esc_complaint_id e = cid then
        (case latestEscalation cid es of
           None \<Rightarrow> Some e
         | Some e' \<Rightarrow> if esc_created_at e \<le> esc_created_at e' then Some e' else Some e)
      else latestEscalation cid es)"

fun escalationThresholds :: "EscalationLevel \<Rightarrow> real option" where
  "escalationThresholds level_1 = Some 24"
| "escalationThresholds level_2 = Some 48"
| "escalationThresholds level_3 = Some 72"
| "escalationThresholds executive = None"

text \<open>
  Each operation of this service reads the clock when it runs, and the database stamps a new
  row with its own clock. One sweep is modelled at a single instant \<open>now\<close>.
\<close>

definition handleSLAWarning :: "uuid \<Rightarrow> Database \<Rightarrow> Database" where
  "handleSLAWarning complaintId db =
     (let db1 = update_complaints complaintId (\<lambda>c. c\<lparr>sla_breach_notified := True\<rparr>) db;
          db2 = triggerSLAWarning complaintId db1
      in logger_write log_info ''SLA warning sent'' db2)"

definition breach_updateData :: "Complaint \<Rightarrow> Complaint" where
  "breach_updateData c = c\<lparr>sla_breached := True, sla_breach_notified := True, status := escalated\<rparr>"

definition handleSLABreach :: "timestamp \<Rightarrow> uuid \<Rightarrow> Database \<Rightarrow> Database" where
  "handleSLABreach now complaintId db =
     (let db1 = update_complaints complaintId breach_updateData db;
          db2 = insert_escalation
                  \<lparr>esc_complaint_id = complaintId,
                   escalation_level = level_1,
                   previous_level = None,
                   reason = ''SLA deadline exceeded'',
                   is_system_escalation = True,
                   esc_created_at = now\<rparr> db1;
          db3 = triggerSLABreach complaintId level_1 db2
      in logger_write log_info ''SLA breach processed'' db3)"

definition escalateComplaint ::
  "timestamp \<Rightarrow> uuid \<Rightarrow> EscalationLevel \<Rightarrow> EscalationLevel \<Rightarrow> Database \<Rightarrow> Database" where
  "escalateComplaint now complaintId previousLevel newLevel db =
     (let db1 = insert_escalation
                  \<lparr>esc_complaint_id = complaintId,
                   escalation_level = newLevel,
                   previous_level = Some previousLevel,
                   reason = ''Automatic escalation due to continued SLA breach (''
                            @ level_name previousLevel @ '' -> '' @ level_name newLevel @ '')'',
                   is_system_escalation = True,
                   esc_created_at = now\<rparr> db;
          db2 = triggerSLABreach complaintId newLevel db1
      in logger_write log_info ''Complaint escalated'' db2)"

definition checkEscalation :: "timestamp \<Rightarrow> uuid \<Rightarrow> real \<Rightarrow> Database \<Rightarrow> bool \<times> Database" where
  "checkEscalation now complaintId hoursOverdue db =
     (case latestEscalation complaintId (escalations db) of
        None \<Rightarrow> (False, db)
      | Some latest \<Rightarrow>
          let currentLevel = escalation_level latest;
              currentIndex = indexOf ESCALATION_ORDER currentLevel
          in if currentIndex \<ge> int (length ESCALATION_ORDER) - 1 then (False, db)
             else if (case escalationThresholds currentLevel of
                        None \<Rightarrow> False
                      | Some threshold \<Rightarrow> hoursOverdue < threshold) then (False, db)
             else
               let hoursSinceEscalation =
                     of_int (now - esc_created_at latest) / (1000 * 60 * 60) :: real
               in if hoursSinceEscalation < 12 then (False, db)
                  else
                    let nextLevel = ESCALATION_ORDER ! nat (currentIndex + 1)
                    in (True, escalateComplaint now complaintId currentLevel nextLevel db))"

record SweepCounts =
  n_warnings :: nat
  n_breaches :: nat
  n_escalations :: nat

text \<open>The body of the loop of \<^verbatim>\<open>checkSLABreaches\<close>, for one row of the query.\<close>

definition sla_check_item ::
  "timestamp \<Rightarrow> real \<Rightarrow> Complaint \<Rightarrow> SweepCounts \<times> Database \<Rightarrow> SweepCounts \<times> Database" where
  "sla_check_item now warningThreshold complaint st =
     (let counts = fst st; db = snd st;
          deadline = (case sla_deadline complaint of None \<Rightarrow> 0 | Some d \<Rightarrow> d);
          timeUntilDeadline = deadline - now;
          st1 = (if timeUntilDeadline < 0 \<and> \<not> sla_breached complaint then
                   (counts\<lparr>n_breaches := n_breaches counts + 1\<rparr>,
                    handleSLABreach now (c_id complaint) db)
                 else if timeUntilDeadline > 0 \<and> of_int timeUntilDeadline < warningThreshold
                         \<and> \<not> sla_breach_notified complaint then
                   (counts\<lparr>n_warnings := n_warnings counts + 1\<rparr>,
                    handleSLAWarning (c_id complaint) db)
                 else (counts, db))
      in if sla_breached complaint \<and> status complaint \<noteq> escalated then
           (let hoursOverdue = \<bar>of_int timeUntilDeadline\<bar> / (1000 * 60 * 60) :: real;
                r = checkEscalation now (c_id complaint) hoursOverdue (snd st1)
            in if fst r then ((fst st1)\<lparr>n_escalations := n_escalations (fst st1) + 1\<rparr>, snd r)
               else (fst st1, snd r))
         else st1)"

record SweepResult =
  checked :: nat
  warnings :: nat
  breaches :: nat
  escalations_made :: nat

definition sla_candidates :: "Database \<Rightarrow> Complaint list" where
  "sla_candidates db =
     filter (\<lambda>c. status c \<notin> {resolved, closed, rejected} \<and> sla_deadline c \<noteq> None)
            (complaints db)"

definition checkSLABreaches :: "timestamp \<Rightarrow> Config \<Rightarrow> Database \<Rightarrow> SweepResult \<times> Database" where
  "checkSLABreaches now config db =
     (let complaints' = sla_candidates db;
          warningThreshold = warningHoursBefore config * 60 * 60 * 1000;
          st = fold (sla_check_item now warningThreshold) complaints'
                 (\<lparr>n_warnings = 0, n_breaches = 0, n_escalations = 0\<rparr>, db);
          db' = logger_write log_info ''SLA check completed'' (snd st)
      in (\<lparr>checked = length complaints',
           warnings = n_warnings (fst st),
           breaches = n_breaches (fst st),
           escalations_made = n_escalations (fst st)\<rparr>, db'))"

section \<open>Classification and the auto-approval gate (services/aiClassification.ts)\<close>

text \<open>
  The classifier is a remote model. One request either throws or answers with a text; the
  text is empty, or does not parse to a JSON object, or is a JSON object with string
  properties, of which those read by the parser are kept. The confidence of the object is \<open>None\<close> when the property is absent,
  \<open>Some None\<close> when \<^verbatim>\<open>parseFloat\<close> makes no number of it, and \<open>Some (Some x)\<close> otherwise.
\<close>

record ParsedResponse =
  p_department :: "string option"
  p_department_code :: "string option"
  p_urgency :: "string option"
  p_confidence :: "real option option"
  p_reasoning :: "string option"

datatype ResponseText = EmptyText | NotJSON | JSONObject ParsedResponse

datatype GeminiCall = Threw string | Responded ResponseText

text \<open>The fields of the result that later steps read (keywords and suggested priority are not).\<close>

record AIClassificationResult =
  r_department :: string
  r_department_code :: string
  r_urgency :: UrgencyLevel
  r_confidence :: real
  r_reasoning :: string

text \<open>Case conversion of the ASCII letters; every other character is kept.\<close>

definition lower_upper :: "(char \<times> char) list" where
  "lower_upper = zip ''abcdefghijklmnopqrstuvwxyz'' ''ABCDEFGHIJKLMNOPQRSTUVWXYZ''"

definition toUpperCase :: "string \<Rightarrow> string" where
  "toUpperCase s = map (\<lambda>c. case map_of lower_upper c of None \<Rightarrow> c | Some u \<Rightarrow> u) s"

definition toLowerCase :: "string \<Rightarrow> string" where
  "toLowerCase s =
     map (\<lambda>c. case map_of (map (\<lambda>(l, u). (u, l)) lower_upper) c of None \<Rightarrow> c | Some l \<Rightarrow> l) s"

definition DEPARTMENT_MAPPINGS :: "(string \<times> string) list" where
  "DEPARTMENT_MAPPINGS =
     [(''water'', ''WATER''), (''water supply'', ''WATER''), (''water leak'', ''WATER''),
      (''water contamination'', ''WATER''), (''electricity'', ''ELECTRICITY''),
      (''power'', ''ELECTRICITY''), (''power outage'', ''ELECTRICITY''),
      (''street light'', ''ELECTRICITY''), (''electrical'', ''ELECTRICITY''),
      (''sanitation'', ''SANITATION''), (''garbage'', ''SANITATION''),
      (''waste'', ''SANITATION''), (''sewage'', ''SANITATION''), (''cleaning'', ''SANITATION''),
      (''safety'', ''SAFETY''), (''public safety'', ''SAFETY''), (''accident'', ''SAFETY''),
      (''hazard'', ''SAFETY''), (''emergency'', ''SAFETY''), (''road'', ''ROADS''),
      (''roads'', ''ROADS''), (''pothole'', ''ROADS''), (''infrastructure'', ''ROADS''),
      (''traffic'', ''ROADS''), (''other'', ''OTHER''), (''general'', ''OTHER'')]"

definition parse_urgency :: "string \<Rightarrow> UrgencyLevel option" where
  "parse_urgency s =
     (if s = ''critical'' then Some critical
      else if s = ''high'' then Some high
      else if s = ''normal'' then Some normal
      else None)"

definition parse_failure :: AppError where
  "parse_failure = AIServiceError ''Failed to parse AI classification response''"

definition parseAIResponse :: "ResponseText \<Rightarrow> AppError + AIClassificationResult" where
  "parseAIResponse response =
     (case response of
        EmptyText \<Rightarrow> Inl parse_failure
      | NotJSON \<Rightarrow> Inl parse_failure
      | JSONObject parsed \<Rightarrow>
          (case (p_department_code parsed, p_urgency parsed, p_confidence parsed) of
             (Some department_code, Some urgency', Some confidence') \<Rightarrow>
               if department_code = [] \<or> urgency' = [] then Inl parse_failure
               else
                 let upper = toUpperCase department_code;
                     departmentCode =
                       (if upper \<in> set [''WATER'', ''ELECTRICITY'', ''SANITATION'', ''SAFETY'',
                                          ''ROADS'', ''OTHER''] then upper
                        else (case p_department parsed of
                                None \<Rightarrow> ''OTHER''
                              | Some d \<Rightarrow>
                                  (case map_of DEPARTMENT_MAPPINGS (toLowerCase d) of
                                     None \<Rightarrow> ''OTHER''
                                   | Some m \<Rightarrow> m)));
                     urgency'' = (case parse_urgency (toLowerCase urgency') of
                                    None \<Rightarrow> normal
                                  | Some u \<Rightarrow> u);
                     confidence = (case confidence' of
                                     None \<Rightarrow> 1 / 2
                                   | Some x \<Rightarrow> if x < 0 \<or> x > 1 then 1 / 2 else x)
                 in Inr \<lparr>r_department = or_else (p_department parsed) departmentCode,
                         r_department_code = departmentCode,
                         r_urgency = urgency'',
                         r_confidence = of_int (Math_round (confidence * 100)) / 100,
                         r_reasoning = take 500 (or_else (p_reasoning parsed)
                                                   ''Classification completed'')\<rparr>
           | _ \<Rightarrow> Inl parse_failure))"

definition classifyComplaint ::
  "GeminiCall \<Rightarrow> Database \<Rightarrow> (AppError + AIClassificationResult) \<times> Database" where
  "classifyComplaint gemini db =
     (let db0 = logger_write log_info ''Starting AI classification'' db;
          db1 = db0\<lparr>gemini_calls := gemini_calls db0 + 1\<rparr>
      in (case gemini of
            Threw message \<Rightarrow>
              (Inl (AIServiceError message), logger_write log_error ''AI classification failed'' db1)
          | Responded text' \<Rightarrow>
              if text' = EmptyText then
                (Inl (AIServiceError ''Empty response from AI model''),
                 logger_write log_error ''AI classification failed'' db1)
              else
                (case parseAIResponse text' of
                   Inl e \<Rightarrow>
                     (Inl e, logger_write log_error ''AI classification failed''
                               (logger_write log_error ''Failed to parse AI response:'' db1))
                 | Inr classification \<Rightarrow>
                     (Inr classification,
                      logger_write log_info ''AI classification completed'' db1))))"

text \<open>
  The outcomes of a request for which \<^verbatim>\<open>classifyComplaint\<close> throws: the call itself throws,
  the text is empty, the text is no JSON object, or the object lacks a non-empty department
  code, a non-empty urgency or a confidence.
\<close>

definition classifier_failed :: "GeminiCall \<Rightarrow> bool" where
  "classifier_failed gemini =
     (case gemini of
        Threw message \<Rightarrow> True
      | Responded EmptyText \<Rightarrow> True
      | Responded NotJSON \<Rightarrow> True
      | Responded (JSONObject parsed) \<Rightarrow>
          p_department_code parsed = None \<or> p_department_code parsed = Some []
          \<or> p_urgency parsed = None \<or> p_urgency parsed = Some []
          \<or> p_confidence parsed = None)"

definition getDepartmentByCode :: "string \<Rightarrow> Database \<Rightarrow> Department option \<times> Database" where
  "getDepartmentByCode code' db =
     (case filter (\<lambda>d. code d = code' \<and> is_active d) (departments db) of
        [d] \<Rightarrow> (Some d, db)
      | _ \<Rightarrow> (None, logger_write log_warn ''Department not found for code:'' db))"

definition checkCriticalArea :: "real \<Rightarrow> real \<Rightarrow> Database \<Rightarrow> bool" where
  "checkCriticalArea lat lng db =
     list_ex (\<lambda>a. area_is_active a \<and> lat_max a \<ge> lat \<and> lat_min a \<le> lat
                   \<and> lng_max a \<ge> lng \<and> lng_min a \<le> lng) (critical_areas db)"

record ProcessedComplaint =
  classification :: AIClassificationResult
  departmentId :: "uuid option"
  isCriticalArea :: bool
  isAutoApproved :: bool
  slaDeadline :: "timestamp option"

definition classifyAndProcessComplaint ::
  "timestamp \<Rightarrow> Config \<Rightarrow> uuid \<Rightarrow> real option \<Rightarrow> real option \<Rightarrow> GeminiCall \<Rightarrow> Database
     \<Rightarrow> (AppError + ProcessedComplaint) \<times> Database" where
  "classifyAndProcessComplaint now config complaintId locationLat locationLng gemini db =
     (case classifyComplaint gemini db of
        (Inl e, db1) \<Rightarrow> (Inl e, db1)
      | (Inr classification', db1) \<Rightarrow>
          let d = getDepartmentByCode (r_department_code classification') db1;
              department = fst d;
              db2 = snd d;
              isCriticalArea' =
                (case (locationLat, locationLng) of
                   (Some lat, Some lng) \<Rightarrow>
                     if lat \<noteq> 0 \<and> lng \<noteq> 0 then checkCriticalArea lat lng db2 else False
                 | _ \<Rightarrow> False);
              isAutoApproved' = (r_confidence classification' \<ge> confidenceThreshold config);
              slaDeadline' =
                (case department of
                   None \<Rightarrow> None
                 | Some dep \<Rightarrow>
                     let multiplier = urgencyMultipliers (r_urgency classification');
                         slaHours = of_int (sla_hours dep) * multiplier
                     in Some (setHours now (of_int (getHours now) + slaHours)));
              db3 = logger_write log_info ''Complaint processed'' db2
          in (Inr \<lparr>classification = classification',
                   departmentId = map_option d_id department,
                   isCriticalArea = isCriticalArea',
                   isAutoApproved = isAutoApproved',
                   slaDeadline = slaDeadline'\<rparr>, db3))"

section \<open>Submission and background classification (services/complaintService.ts)\<close>

record CreateComplaintRequest =
  description :: string
  location_lat :: "real option"
  location_lng :: "real option"

definition classification_failed_note :: string where
  "classification_failed_note = ''Classification failed - requires manual review''"

definition classification_updateData ::
  "timestamp \<Rightarrow> ProcessedComplaint \<Rightarrow> number \<Rightarrow> Complaint \<Rightarrow> Complaint" where
  "classification_updateData now result priorityScore c =
     c\<lparr>department_id := departmentId result,
       urgency := r_urgency (classification result),
       ai_confidence := Some (r_confidence (classification result)),
       ai_reasoning := Some (r_reasoning (classification result)),
       ai_classified_at := Some now,
       ai_model_version := Some ''gemini-pro-1.0'',
       is_auto_approved := isAutoApproved result,
       status := (if isAutoApproved result then approved else pending_review),
       priority_score := priorityScore,
       is_critical_area := isCriticalArea result,
       sla_deadline := defined_or (slaDeadline result) (sla_deadline c),
       approved_at := (if isAutoApproved result then Some now else None)\<rparr>"

definition failure_updateData :: "Complaint \<Rightarrow> Complaint" where
  "failure_updateData c =
     c\<lparr>status := pending_review, ai_reasoning := Some classification_failed_note\<rparr>"

definition processComplaintClassification ::
  "timestamp \<Rightarrow> Config \<Rightarrow> uuid \<Rightarrow> CreateComplaintRequest \<Rightarrow> timestamp \<Rightarrow> GeminiCall
     \<Rightarrow> Database \<Rightarrow> Database" where
  "processComplaintClassification now config complaintId data' createdAt gemini db =
     (case classifyAndProcessComplaint now config complaintId
             (location_lat data') (location_lng data') gemini db of
        (Inl e, db1) \<Rightarrow>
          update_complaints complaintId failure_updateData
            (logger_write log_error ''Classification processing failed'' db1)
      | (Inr result, db1) \<Rightarrow>
          let priorityScore =
                calculatePriorityScore now (r_urgency (classification result)) createdAt
                  (isCriticalArea result) DEFAULT_WEIGHTS;
              db2 = update_complaints complaintId
                      (classification_updateData now result priorityScore) db1;
              db3 = logger_write log_info ''Complaint classification completed'' db2
          in (if isAutoApproved result then
                (case departmentId result of
                   None \<Rightarrow> db3
                 | Some dep \<Rightarrow> triggerComplaintRouting complaintId dep db3)
              else db3))"

text \<open>
  \<^verbatim>\<open>createComplaint\<close> inserts the row, starts the classification without awaiting it and
  returns the inserted row. The identifier is the one the database generates; an identifier
  already in use makes the insert fail. The second component is the database once the
  background task has finished.
\<close>

definition createComplaint ::
  "timestamp \<Rightarrow> Config \<Rightarrow> uuid \<Rightarrow> uuid \<Rightarrow> CreateComplaintRequest \<Rightarrow> GeminiCall \<Rightarrow> Database
     \<Rightarrow> (AppError + Complaint) \<times> Database" where
  "createComplaint now config newId userId data' gemini db =
     (if find_complaint newId db \<noteq> None then
        (Inl DatabaseError, logger_write log_error ''Failed to create complaint'' db)
      else
        let complaint =
              \<lparr>c_id = newId, user_id = userId, department_id = None, urgency = normal,
               ai_confidence = None, ai_reasoning = None, ai_classified_at = None,
               ai_model_version = None, is_auto_approved = False, reviewed_by = None,
               review_notes = None, reviewed_at = None, assigned_to = None,
               assigned_at = None, status = submitted, priority_score = Finite 0,
               is_critical_area = False, resolution_notes = None, resolution_type = None,
               sla_deadline = None, sla_breached = False, sla_breach_notified = False,
               created_at = now, approved_at = None, resolved_at = None, closed_at = None\<rparr>;
            db1 = db\<lparr>complaints := complaints db @ [complaint]\<rparr>;
            db2 = logger_write log_info ''Complaint created'' db1
        in (Inr complaint,
            processComplaintClassification now config newId data' (created_at complaint)
              gemini db2))"

section \<open>Escalation level of a complaint over a run of sweeps\<close>

text \<open>The escalation history of one complaint: its rows, in the order of insertion.\<close>

definition escalation_rows :: "uuid \<Rightarrow> Database \<Rightarrow> Escalation list" where
  "escalation_rows cid db = filter (\<lambda>e. esc_complaint_id e = cid) (escalations db)"

definition current_level :: "uuid \<Rightarrow> Database \<Rightarrow> EscalationLevel option" where
  "current_level cid db = map_option escalation_level (latestEscalation cid (escalations db))"

text \<open>The position in the order, counted from 1; 0 for a complaint without escalation row.\<close>

definition level_rank :: "EscalationLevel option \<Rightarrow> nat" where
  "level_rank l = (case l of None \<Rightarrow> 0 | Some x \<Rightarrow> nat (indexOf ESCALATION_ORDER x + 1))"

text \<open>
  What the schema and the service maintain between sweeps: \<open>id\<close> is the primary key of
  \<^verbatim>\<open>complaints\<close>, no escalation row is stamped later than the clock, and a complaint not
  yet flagged as breached has no escalation row above \<open>level_1\<close>. The state after any
  number of submissions, with no escalation row at all, is of this kind.
\<close>

definition sla_consistent :: "timestamp \<Rightarrow> Database \<Rightarrow> bool" where
  "sla_consistent now db \<longleftrightarrow>
     distinct (map c_id (complaints db))
     \<and> (\<forall>e \<in> set (escalations db). esc_created_at e \<le> now)
     \<and> (\<forall>c \<in> set (complaints db). \<not> sla_breached c \<longrightarrow>
           (\<forall>e \<in> set (escalations db).
              esc_complaint_id e = c_id c \<longrightarrow> escalation_level e = level_1))"

text \<open>The database before the first sweep and after each sweep made at the given times.\<close>

fun sweeps :: "Config \<Rightarrow> timestamp list \<Rightarrow> Database \<Rightarrow> Database list" where
  "sweeps config [] db = [db]"
| "sweeps config (t # ts) db = db # sweeps config ts (snd (checkSLABreaches t config db))"

section \<open>Sample data\<close>

definition sample_complaint :: Complaint where
  "sample_complaint =
     \<lparr>c_id = ''c1'', user_id = ''u1'', department_id = None, urgency = normal,
      ai_confidence = None, ai_reasoning = None, ai_classified_at = None,
      ai_model_version = None, is_auto_approved = False, reviewed_by = None,
      review_notes = None, reviewed_at = None, assigned_to = None,
      assigned_at = None, status = submitted, priority_score = Finite 0,
      is_critical_area = False, resolution_notes = None, resolution_type = None,
      sla_deadline = None, sla_breached = False, sla_breach_notified = False,
      created_at = 0, approved_at = None, resolved_at = None, closed_at = None\<rparr>"

definition sample_db :: "Complaint list \<Rightarrow> Escalation list \<Rightarrow> Database" where
  "sample_db cs es =
     \<lparr>complaints = cs,
      users = [''u1'', ''u2'', ''u7''],
      departments = [\<lparr>d_id = ''d1'', code = ''WATER'', sla_hours = 72, is_active = True\<rparr>],
      critical_areas = [],
      complaint_status_logs = [],
      escalations = es,
      webhooks_sent = [],
      logger = [],
      gemini_calls = 0\<rparr>"

definition sample_reply :: "string \<Rightarrow> real \<Rightarrow> GeminiCall" where
  "sample_reply department_code confidence =
     Responded (JSONObject \<lparr>p_department = None,
                            p_department_code = Some department_code,
                            p_urgency = Some ''critical'',
                            p_confidence = Some (Some confidence),
                            p_reasoning = Some ''burst pipe''\<rparr>)"

definition sample_request :: CreateComplaintRequest where
  "sample_request = \<lparr>description = ''water leak'', location_lat = None, location_lng = None\<rparr>"

definition sample_escalation :: "EscalationLevel \<Rightarrow> timestamp \<Rightarrow> Escalation" where
  "sample_escalation level t =
     \<lparr>esc_complaint_id = ''c1'', escalation_level = level, previous_level = None,
      reason = ''SLA deadline exceeded'', is_system_escalation = True, esc_created_at = t\<rparr>"

section \<open>Properties\<close>

subsection \<open>Arithmetic of dates\<close>

lemma timestamp_split:
  "t = (t div msPerDay) * msPerDay + getHours t * msPerHour + t mod msPerHour"
proof -
  have "t div msPerDay = (t div msPerHour) div 24"
    unfolding msPerDay_def msPerHour_def by (simp add: zdiv_zmult2_eq[symmetric])
  moreover have "t div msPerHour = ((t div msPerHour) div 24) * 24 + (t div msPerHour) mod 24"
    by simp
  moreover have "t = (t div msPerHour) * msPerHour + t mod msPerHour"
    by simp
  ultimately show ?thesis
    unfolding getHours_def msPerDay_def msPerHour_def
    by (smt (verit) mult.commute mult.assoc distrib_left)
qed

lemma ToIntegerOrInfinity_whole: "ToIntegerOrInfinity (of_int a + of_int k) = a + k"
  unfolding ToIntegerOrInfinity_def by (metis ceiling_of_int floor_of_int of_int_add)

lemma calculateSLADeadline_whole_hours:
  "baseSLAHours * urgencyMultipliers urg = of_int k \<Longrightarrow>
   calculateSLADeadline baseSLAHours urg createdAt = createdAt + k * msPerHour"
  unfolding calculateSLADeadline_def setHours_def Let_def
  using timestamp_split[of createdAt] by (simp add: ToIntegerOrInfinity_whole algebra_simps)

subsection \<open>Rounding to a double\<close>

lemma roundTiesToEven_of_int: "roundTiesToEven (of_int n) = n"
  by (simp add: roundTiesToEven_def)

lemma roundTiesToEven_bounds:
  "of_int (roundTiesToEven x) \<le> x + 1 / 2" "x - 1 / 2 \<le> of_int (roundTiesToEven x)"
  unfolding roundTiesToEven_def Let_def by (auto; linarith)+

lemma roundTiesToEven_between:
  "\<lfloor>x\<rfloor> \<le> roundTiesToEven x" "roundTiesToEven x \<le> \<lfloor>x\<rfloor> + 1"
  unfolding roundTiesToEven_def Let_def by auto

lemma roundTiesToEven_mono:
  assumes "x \<le> y"
  shows "roundTiesToEven x \<le> roundTiesToEven y"
proof (cases "\<lfloor>x\<rfloor> = \<lfloor>y\<rfloor>")
  case True
  have "x - of_int \<lfloor>x\<rfloor> \<le> y - of_int \<lfloor>y\<rfloor>"
    using assms True by simp
  then show ?thesis
    unfolding roundTiesToEven_def Let_def using True by auto
next
  case False
  then have "\<lfloor>x\<rfloor> + 1 \<le> \<lfloor>y\<rfloor>"
    using assms floor_mono[of x y] by linarith
  then show ?thesis
    using roundTiesToEven_between(2)[of x] roundTiesToEven_between(1)[of y] by linarith
qed

lemma exponent_ge: "- 1022 \<le> exponent x"
  by (simp add: exponent_def)

lemma exponent_upper: "\<bar>x\<bar> < 2 powi (exponent x + 1)"
proof -
  define n where "n = \<lfloor>\<bar>x\<bar> * 2 ^ 1074\<rfloor>"
  have n0: "0 \<le> n"
    unfolding n_def by simp
  have "n < 2 ^ nat (bitlen n) \<or> n = 0"
    using bitlen_bounds[of n] n0 by (cases "n = 0") auto
  then have "n + 1 \<le> 2 ^ nat (bitlen n)"
    by (cases "n = 0") auto
  moreover have "\<bar>x\<bar> * 2 ^ 1074 < of_int (n + 1)"
    unfolding n_def by linarith
  ultimately have "\<bar>x\<bar> * 2 ^ 1074 < of_int (2 ^ nat (bitlen n))"
    by (smt (verit) of_int_le_iff)
  then have "\<bar>x\<bar> * 2 ^ 1074 < 2 powi (bitlen n)"
    using bitlen_nonneg[of n] by (simp add: power_int_def)
  also have "\<dots> \<le> 2 powi ((exponent x + 1) + 1074)"
    by (rule power_int_increasing) (simp_all add: exponent_def n_def)
  also have "\<dots> = 2 powi (exponent x + 1) * 2 ^ 1074"
    by (subst power_int_add) simp_all
  finally show ?thesis
    by simp
qed

lemma exponent_lower:
  assumes "- 1022 < exponent x"
  shows "2 powi (exponent x) \<le> \<bar>x\<bar>"
proof -
  define n where "n = \<lfloor>\<bar>x\<bar> * 2 ^ 1074\<rfloor>"
  have e: "exponent x = bitlen n - 1075"
    using assms unfolding exponent_def n_def by simp
  then have b: "1 \<le> bitlen n"
    using assms by simp
  then have n0: "0 < n"
    using bitlen_eq_zero_iff[of n] by (cases "n \<le> 0") auto
  have "2 ^ nat (bitlen n - 1) \<le> n"
    using bitlen_bounds[OF n0] by simp
  then have "(2 :: real) ^ nat (bitlen n - 1) \<le> of_int n"
    by (metis of_int_le_iff of_int_numeral of_int_power)
  also have "\<dots> \<le> \<bar>x\<bar> * 2 ^ 1074"
    unfolding n_def by simp
  finally have "2 powi (bitlen n - 1) \<le> \<bar>x\<bar> * 2 ^ 1074"
    using b by (simp add: power_int_def)
  moreover have "(2 :: real) powi (bitlen n - 1) = 2 powi (exponent x + 1074)"
    unfolding e by simp
  moreover have "(2 :: real) powi (exponent x + 1074) = 2 powi (exponent x) * 2 ^ 1074"
    by (subst power_int_add) simp_all
  ultimately show ?thesis
    by simp
qed

lemma exponent_binade:
  assumes "- 1022 \<le> k" and "2 powi k \<le> \<bar>x\<bar>" and "\<bar>x\<bar> < 2 powi (k + 1)"
  shows "exponent x = k"
proof (rule antisym)
  show "exponent x \<le> k"
  proof (rule ccontr)
    assume "\<not> exponent x \<le> k"
    then have "k + 1 \<le> exponent x" by simp
    then have "(2 :: real) powi (k + 1) \<le> 2 powi (exponent x)"
      by (intro power_int_increasing) simp_all
    moreover have "2 powi (exponent x) \<le> \<bar>x\<bar>"
      using \<open>k + 1 \<le> exponent x\<close> assms(1) by (intro exponent_lower) simp
    ultimately show False
      using assms(3) by simp
  qed
  show "k \<le> exponent x"
  proof (rule ccontr)
    assume "\<not> k \<le> exponent x"
    then have "exponent x + 1 \<le> k" by simp
    then have "(2 :: real) powi (exponent x + 1) \<le> 2 powi k"
      by (intro power_int_increasing) simp_all
    then show False
      using exponent_upper[of x] assms(2) by simp
  qed
qed

lemma exponent_small:
  assumes "\<bar>x\<bar> < 2 powi (- 1021)"
  shows "exponent x = - 1022"
proof (rule ccontr)
  assume "exponent x \<noteq> - 1022"
  then have e: "- 1022 < exponent x"
    using exponent_ge[of x] by simp
  then have "(2 :: real) powi (- 1021) \<le> 2 powi (exponent x)"
    by (intro power_int_increasing) simp_all
  then show False
    using exponent_lower[OF e] assms by simp
qed

lemma exponent_mono:
  assumes "\<bar>x\<bar> \<le> \<bar>y\<bar>"
  shows "exponent x \<le> exponent y"
proof -
  have "\<lfloor>\<bar>x\<bar> * 2 ^ 1074\<rfloor> \<le> \<lfloor>\<bar>y\<bar> * 2 ^ 1074\<rfloor>"
    using assms by (intro floor_mono) simp
  then have "bitlen \<lfloor>\<bar>x\<bar> * 2 ^ 1074\<rfloor> \<le> bitlen \<lfloor>\<bar>y\<bar> * 2 ^ 1074\<rfloor>"
    unfolding bitlen_def by (intro zle_int[THEN iffD2] floorlog_mono) simp
  then show ?thesis
    unfolding exponent_def by simp
qed

lemma ulp_pos: "0 < ulp x"
  by (simp add: ulp_def)

lemma ulp_mono: "\<bar>x\<bar> \<le> \<bar>y\<bar> \<Longrightarrow> ulp x \<le> ulp y"
  unfolding ulp_def using exponent_mono[of x y] by (intro power_int_increasing) simp_all


lemma round64_error: "\<bar>round64 x - x\<bar> \<le> ulp x / 2"
proof -
  define u where "u = ulp x"
  have u: "0 < u"
    unfolding u_def by (rule ulp_pos)
  have "round64 x - x = (of_int (roundTiesToEven (x / u)) - x / u) * u"
    unfolding round64_def u_def[symmetric] using u by (simp add: algebra_simps)
  moreover have "\<bar>of_int (roundTiesToEven (x / u)) - x / u\<bar> \<le> 1 / 2"
    using roundTiesToEven_bounds[of "x / u"] by linarith
  ultimately have "\<bar>round64 x - x\<bar> \<le> 1 / 2 * u"
    using u by (simp add: abs_mult mult_right_mono)
  then show ?thesis
    unfolding u_def by simp
qed

lemma round64_le_multiple:
  assumes "x \<le> of_int m * ulp x"
  shows "round64 x \<le> of_int m * ulp x"
proof -
  have "x / ulp x \<le> of_int m"
    using assms ulp_pos[of x] by (simp add: pos_divide_le_eq)
  then have "roundTiesToEven (x / ulp x) \<le> m"
    using roundTiesToEven_mono[of "x / ulp x" "of_int m"] by (simp add: roundTiesToEven_of_int)
  then have "(of_int (roundTiesToEven (x / ulp x)) :: real) \<le> of_int m"
    by simp
  then show ?thesis
    unfolding round64_def using ulp_pos[of x] by (simp add: mult_right_mono)
qed

lemma round64_ge_multiple:
  assumes "of_int m * ulp x \<le> x"
  shows "of_int m * ulp x \<le> round64 x"
proof -
  have "of_int m \<le> x / ulp x"
    using assms ulp_pos[of x] by (simp add: pos_le_divide_eq)
  then have "m \<le> roundTiesToEven (x / ulp x)"
    using roundTiesToEven_mono[of "of_int m" "x / ulp x"] by (simp add: roundTiesToEven_of_int)
  then have "(of_int m :: real) \<le> of_int (roundTiesToEven (x / ulp x))"
    by simp
  then show ?thesis
    unfolding round64_def using ulp_pos[of x] by (simp add: mult_right_mono)
qed

lemma round64_nonneg: "0 \<le> x \<Longrightarrow> 0 \<le> round64 x"
  using round64_ge_multiple[of 0 x] by simp

lemma power_int_multiple:
  assumes "j \<le> k"
  shows "(2 :: real) powi k = of_int (2 ^ nat (k - j)) * 2 powi j"
proof -
  have "(2 :: real) powi k = 2 powi ((k - j) + j)"
    by simp
  also have "\<dots> = 2 powi (k - j) * 2 powi j"
    by (subst power_int_add) simp_all
  also have "(2 :: real) powi (k - j) = of_int (2 ^ nat (k - j))"
    using assms by (simp add: power_int_def)
  finally show ?thesis .
qed

lemma round64_mono:
  assumes "0 \<le> x" and "x \<le> y"
  shows "round64 x \<le> round64 y"
proof (cases "exponent x = exponent y")
  case True
  then have u: "ulp x = ulp y"
    by (simp add: ulp_def)
  have "x / ulp y \<le> y / ulp y"
    using assms ulp_pos[of y] by (simp add: divide_right_mono)
  then have "roundTiesToEven (x / ulp y) \<le> roundTiesToEven (y / ulp y)"
    by (rule roundTiesToEven_mono)
  then have "(of_int (roundTiesToEven (x / ulp y)) :: real) \<le> of_int (roundTiesToEven (y / ulp y))"
    by simp
  then show ?thesis
    unfolding round64_def u using ulp_pos[of y] by (simp add: mult_right_mono)
next
  case False
  have "exponent x \<le> exponent y"
    using assms by (intro exponent_mono) simp
  then have lt: "exponent x < exponent y"
    using False by simp
  define B :: real where "B = 2 powi (exponent y)"
  have "B \<le> \<bar>y\<bar>"
    unfolding B_def using lt exponent_ge[of x] by (intro exponent_lower) simp
  then have By: "B \<le> y"
    using assms by simp
  have "\<bar>x\<bar> < 2 powi (exponent x + 1)"
    by (rule exponent_upper)
  also have "\<dots> \<le> B"
    unfolding B_def using lt by (intro power_int_increasing) simp_all
  finally have xB: "x \<le> B"
    using assms by simp
  have Bx: "B = of_int (2 ^ nat (exponent y - (exponent x - 52))) * ulp x"
    unfolding B_def ulp_def using lt by (intro power_int_multiple) simp
  have Byy: "B = of_int (2 ^ nat (exponent y - (exponent y - 52))) * ulp y"
    unfolding B_def ulp_def by (intro power_int_multiple) simp
  have "round64 x \<le> B"
    using round64_le_multiple[of x "2 ^ nat (exponent y - (exponent x - 52))"] xB Bx by simp
  moreover have "B \<le> round64 y"
    using round64_ge_multiple[of "2 ^ nat (exponent y - (exponent y - 52))" y] By Byy by simp
  ultimately show ?thesis
    by simp
qed

lemma exponent_of_int_le:
  assumes "\<bar>n\<bar> < 2 ^ 53"
  shows "exponent (of_int n) \<le> 52"
proof (rule ccontr)
  assume "\<not> exponent (of_int n :: real) \<le> 52"
  then have e: "53 \<le> exponent (of_int n :: real)"
    by simp
  then have "(2 :: real) powi 53 \<le> 2 powi (exponent (of_int n :: real))"
    by (intro power_int_increasing) simp_all
  moreover have "2 powi (exponent (of_int n :: real)) \<le> \<bar>of_int n :: real\<bar>"
    using e by (intro exponent_lower) simp
  moreover have "\<bar>of_int n :: real\<bar> < 2 ^ 53"
    using assms by (metis of_int_abs of_int_less_iff of_int_numeral of_int_power)
  ultimately show False
    by simp
qed

lemma round64_of_int:
  assumes "\<bar>n\<bar> < 2 ^ 53"
  shows "round64 (of_int n) = of_int n"
proof -
  define e where "e = exponent (of_int n :: real)"
  have e: "e \<le> 52"
    unfolding e_def using assms by (rule exponent_of_int_le)
  have "(1 :: real) = 2 powi 0"
    by simp
  also have "\<dots> = of_int (2 ^ nat (0 - (e - 52))) * 2 powi (e - 52)"
    using e by (intro power_int_multiple) simp
  finally have "(of_int n :: real) = of_int (n * 2 ^ nat (0 - (e - 52))) * ulp (of_int n)"
    unfolding ulp_def e_def[symmetric] by simp
  then have "(of_int n :: real) / ulp (of_int n) = of_int (n * 2 ^ nat (0 - (e - 52)))"
    using ulp_pos[of "of_int n"] by (simp add: field_simps)
  then have "round64 (of_int n) = of_int (n * 2 ^ nat (0 - (e - 52))) * ulp (of_int n)"
    unfolding round64_def by (simp only: roundTiesToEven_of_int)
  also have "\<dots> = of_int n"
    using \<open>(of_int n :: real) = of_int (n * 2 ^ nat (0 - (e - 52))) * ulp (of_int n)\<close> by simp
  finally show ?thesis .
qed


lemma round64_binade:
  assumes "- 1022 \<le> k" and "2 powi k \<le> \<bar>x\<bar>" and "\<bar>x\<bar> < 2 powi (k + 1)"
  shows "round64 x = of_int (roundTiesToEven (x / 2 powi (k - 52))) * 2 powi (k - 52)"
  unfolding round64_def ulp_def exponent_binade[OF assms] ..

lemma round64_abs_le_binade:
  assumes "- 1022 \<le> k" and "\<bar>x\<bar> \<le> 2 powi (k + 1)"
  shows "\<bar>round64 x\<bar> \<le> 2 powi (k + 1)"
proof -
  have e: "exponent x \<le> k + 1"
  proof (rule ccontr)
    assume "\<not> exponent x \<le> k + 1"
    then have e: "k + 2 \<le> exponent x" by simp
    then have "(2 :: real) powi (k + 2) \<le> 2 powi (exponent x)"
      by (intro power_int_increasing) simp_all
    moreover have "2 powi (exponent x) \<le> \<bar>x\<bar>"
      using e assms(1) by (intro exponent_lower) simp
    moreover have "(2 :: real) powi (k + 1) < 2 powi (k + 2)"
      by (intro power_int_strict_increasing) simp_all
    ultimately show False
      using assms(2) by simp
  qed
  define m :: int where "m = 2 ^ nat (k + 1 - (exponent x - 52))"
  have B: "(2 :: real) powi (k + 1) = of_int m * ulp x"
    unfolding ulp_def m_def using e by (intro power_int_multiple) simp
  have "x \<le> of_int m * ulp x" "of_int (- m) * ulp x \<le> x"
    using assms(2) B by simp_all
  then have "round64 x \<le> of_int m * ulp x" "of_int (- m) * ulp x \<le> round64 x"
    using round64_le_multiple[of x m] round64_ge_multiple[of "- m" x] by simp_all
  then show ?thesis
    using B by simp
qed

lemma toNumber_Finite:
  assumes "\<bar>x\<bar> \<le> 2 ^ 1023"
  shows "toNumber x = Finite (round64 x)"
proof -
  have "\<bar>round64 x\<bar> \<le> 2 powi (1022 + 1)"
    using assms by (intro round64_abs_le_binade) simp_all
  then have "\<bar>round64 x\<bar> < 2 ^ 1024"
    by simp
  then show ?thesis
    by (simp add: toNumber_def Let_def)
qed

lemma toNumber_binade:
  assumes "- 1022 \<le> k" and "k \<le> 1022" and "2 powi k \<le> \<bar>x\<bar>" and "\<bar>x\<bar> < 2 powi (k + 1)"
  shows "toNumber x = Finite (of_int (roundTiesToEven (x / 2 powi (k - 52))) * 2 powi (k - 52))"
proof -
  have "(2 :: real) powi (k + 1) \<le> 2 powi 1023"
    using assms(2) by (intro power_int_increasing) simp_all
  then have "\<bar>x\<bar> \<le> 2 ^ 1023"
    using assms(4) by simp
  then show ?thesis
    using round64_binade[OF assms(1,3,4)] by (simp add: toNumber_Finite)
qed

lemma toNumber_integer:
  assumes "x \<in> \<int>" and "\<bar>x\<bar> < 2 ^ 53"
  shows "toNumber x = Finite x"
proof -
  obtain n where n: "x = of_int n"
    using assms(1) by (auto elim: Ints_cases)
  have b: "\<bar>n\<bar> < 2 ^ 53"
    using assms(2) unfolding n by (metis of_int_abs of_int_less_iff of_int_numeral of_int_power)
  have "(2 :: real) ^ 53 \<le> 2 ^ 1023"
    by (rule power_increasing) simp_all
  then have "\<bar>x\<bar> \<le> 2 ^ 1023"
    using assms(2) by linarith
  then show ?thesis
    unfolding n using round64_of_int[OF b] n by (simp add: toNumber_Finite)
qed

lemma toNumber_range:
  assumes "0 \<le> x" and "x \<le> M" and "M \<in> \<int>" and "\<bar>M\<bar> < 2 ^ 53"
  shows "\<exists>r. toNumber x = Finite r \<and> 0 \<le> r \<and> r \<le> M \<and> \<bar>r - x\<bar> \<le> ulp M / 2"
proof -
  obtain n where n: "M = of_int n"
    using assms(3) by (auto elim: Ints_cases)
  have b: "\<bar>n\<bar> < 2 ^ 53"
    using assms(4) unfolding n by (metis of_int_abs of_int_less_iff of_int_numeral of_int_power)
  have M: "round64 M = M"
    unfolding n using b by (rule round64_of_int)
  have "(2 :: real) ^ 53 \<le> 2 ^ 1023"
    by (rule power_increasing) simp_all
  then have "\<bar>x\<bar> \<le> 2 ^ 1023"
    using assms(1,2,4) by linarith
  then have "toNumber x = Finite (round64 x)"
    by (rule toNumber_Finite)
  moreover have "0 \<le> round64 x"
    using assms(1) by (rule round64_nonneg)
  moreover have "round64 x \<le> M"
    using round64_mono[OF assms(1,2)] M by simp
  moreover have "\<bar>round64 x - x\<bar> \<le> ulp M / 2"
    using round64_error[of x] ulp_mono[of x M] assms(1,2) by simp
  ultimately show ?thesis
    by blast
qed

lemma toNumber_at_least:
  assumes "0 \<le> M" and "M \<le> x" and "M \<in> \<int>" and "\<bar>M\<bar> < 2 ^ 53"
  shows "toNumber x = PosInfinity \<or> (\<exists>r. toNumber x = Finite r \<and> M \<le> r)"
proof -
  obtain n where n: "M = of_int n"
    using assms(3) by (auto elim: Ints_cases)
  have b: "\<bar>n\<bar> < 2 ^ 53"
    using assms(4) unfolding n by (metis of_int_abs of_int_less_iff of_int_numeral of_int_power)
  have M: "round64 M = M"
    unfolding n using b by (rule round64_of_int)
  have "M \<le> round64 x"
    using round64_mono[OF assms(1,2)] M by simp
  then show ?thesis
    using assms(1) by (auto simp: toNumber_def Let_def)
qed

lemma ulp_16384: "ulp 16384 = 2 powi (- 38)"
proof -
  have "exponent 16384 = 14"
    by (rule exponent_binade) simp_all
  then show ?thesis
    by (simp add: ulp_def)
qed

subsection \<open>Priority scorer\<close>

lemma URGENCY_VALUES_eval:
  "URGENCY_VALUES critical = Finite 1"
  "URGENCY_VALUES high = Finite (3152519739159347 / 4503599627370496)"
  "URGENCY_VALUES normal = Finite (5404319552844595 / 18014398509481984)"
proof -
  show "URGENCY_VALUES critical = Finite 1"
    by simp
  show "URGENCY_VALUES high = Finite (3152519739159347 / 4503599627370496)"
    unfolding URGENCY_VALUES.simps
    by (subst toNumber_binade[where k = "- 1"]) (simp_all add: roundTiesToEven_def)
  show "URGENCY_VALUES normal = Finite (5404319552844595 / 18014398509481984)"
    unfolding URGENCY_VALUES.simps
    by (subst toNumber_binade[where k = "- 2"]) (simp_all add: roundTiesToEven_def)
qed

lemma URGENCY_VALUES_approx:
  "\<exists>v. URGENCY_VALUES u = Finite v \<and> 0 \<le> v \<and> v \<le> 1
     \<and> \<bar>v - (case u of critical \<Rightarrow> 1 | high \<Rightarrow> 7 / 10 | normal \<Rightarrow> 3 / 10)\<bar> \<le> 1 / 18014398509481984"
proof (cases u)
  case normal
  show ?thesis
    unfolding normal URGENCY_VALUES_eval
    by (intro exI[of _ "5404319552844595 / 18014398509481984"]) simp
next
  case high
  show ?thesis
    unfolding high URGENCY_VALUES_eval
    by (intro exI[of _ "3152519739159347 / 4503599627370496"]) simp
next
  case critical
  show ?thesis
    unfolding critical URGENCY_VALUES_eval by simp
qed

lemma toNumber_small:
  assumes "0 \<le> x" and "x \<le> M" and "M \<in> \<int>" and "\<bar>M\<bar> \<le> 16384"
  shows "\<exists>r. toNumber x = Finite r \<and> 0 \<le> r \<and> r \<le> M \<and> \<bar>r - x\<bar> \<le> 1 / 549755813888"
proof -
  have "\<bar>M\<bar> < 2 ^ 53"
    using assms(4) by simp
  then obtain r where r: "toNumber x = Finite r" "0 \<le> r" "r \<le> M" "\<bar>r - x\<bar> \<le> ulp M / 2"
    using toNumber_range[OF assms(1,2,3)] by blast
  have "ulp M \<le> ulp 16384"
    using assms(4) by (intro ulp_mono) simp
  then have "ulp M / 2 \<le> 1 / 549755813888"
    by (simp add: ulp_16384)
  then show ?thesis
    using r by (intro exI[of _ r]) simp
qed

lemma timeValue_cap:
  assumes "604800000 \<le> clock - createdAt"
  shows "js_Math_min (js_divide (js_divide (js_minus (Finite (of_int clock))
             (Finite (of_int createdAt))) 3600000) 168) (Finite 1) = Finite 1"
proof -
  have m: "js_minus (Finite (of_int clock)) (Finite (of_int createdAt))
      = toNumber (of_int (clock - createdAt))"
    by (simp add: js_minus_def js_negate_def)
  have "(604800000 :: real) \<le> of_int (clock - createdAt)"
    using assms by linarith
  then consider "toNumber (of_int (clock - createdAt)) = PosInfinity"
    | r where "toNumber (of_int (clock - createdAt)) = Finite r" "604800000 \<le> r"
    using toNumber_at_least[of 604800000 "of_int (clock - createdAt)"] by auto
  then have "js_divide (toNumber (of_int (clock - createdAt))) 3600000 = PosInfinity
     \<or> (\<exists>h. js_divide (toNumber (of_int (clock - createdAt))) 3600000 = Finite h \<and> 168 \<le> h)"
  proof cases
    case 1
    then show ?thesis
      by (simp add: js_divide_def signed_infinity_def)
  next
    case 2
    then have "(168 :: real) \<le> r / 3600000"
      by simp
    then show ?thesis
      using toNumber_at_least[of 168 "r / 3600000"] 2(1) by (auto simp: js_divide_def)
  qed
  then have "js_divide (js_divide (toNumber (of_int (clock - createdAt))) 3600000) 168 = PosInfinity
     \<or> (\<exists>t. js_divide (js_divide (toNumber (of_int (clock - createdAt))) 3600000) 168 = Finite t
              \<and> 1 \<le> t)"
  proof
    assume "js_divide (toNumber (of_int (clock - createdAt))) 3600000 = PosInfinity"
    then show ?thesis
      by (simp add: js_divide_def signed_infinity_def)
  next
    assume "\<exists>h. js_divide (toNumber (of_int (clock - createdAt))) 3600000 = Finite h \<and> 168 \<le> h"
    then obtain h where h: "js_divide (toNumber (of_int (clock - createdAt))) 3600000 = Finite h"
      "168 \<le> h"
      by blast
    then have "(1 :: real) \<le> h / 168"
      by simp
    then show ?thesis
      using toNumber_at_least[of 1 "h / 168"] h(1) by (auto simp: js_divide_def)
  qed
  then show ?thesis
    unfolding m by auto
qed

lemma timeValue_approx:
  assumes "createdAt \<le> clock"
  shows "\<exists>t. js_Math_min (js_divide (js_divide (js_minus (Finite (of_int clock))
                 (Finite (of_int createdAt))) 3600000) 168) (Finite 1) = Finite t
           \<and> 0 \<le> t \<and> t \<le> 1
           \<and> \<bar>t - min (of_int (clock - createdAt) / 3600000 / 168) 1\<bar> \<le> 1 / 274877906944"
proof (cases "604800000 \<le> clock - createdAt")
  case True
  then have "(604800000 :: real) \<le> of_int (clock - createdAt)"
    by linarith
  then have "min (real_of_int (clock - createdAt) / 3600000 / 168) 1 = 1"
    by simp
  then show ?thesis
    using timeValue_cap[OF True] by simp
next
  case False
  define d where "d = clock - createdAt"
  have d: "0 \<le> d" "d < 604800000"
    using assms False unfolding d_def by simp_all
  have dr: "(0 :: real) \<le> of_int d" "(of_int d :: real) < 604800000"
    using d by linarith+
  have m: "js_minus (Finite (of_int clock)) (Finite (of_int createdAt)) = Finite (of_int d)"
    using dr by (simp add: js_minus_def js_negate_def d_def[symmetric] toNumber_integer
        flip: of_int_diff)
  obtain h where h: "toNumber (of_int d / 3600000) = Finite h" "0 \<le> h" "h \<le> 168"
    "\<bar>h - of_int d / 3600000\<bar> \<le> 1 / 549755813888"
    using toNumber_small[of "of_int d / 3600000" 168] dr by auto
  obtain t where t: "toNumber (h / 168) = Finite t" "0 \<le> t" "t \<le> 1"
    "\<bar>t - h / 168\<bar> \<le> 1 / 549755813888"
    using toNumber_small[of "h / 168" 1] h(2,3) by auto
  have "\<bar>h / 168 - of_int d / 3600000 / 168\<bar> \<le> 1 / 549755813888"
    using h(4) by (simp add: field_simps abs_le_iff)
  then have e: "\<bar>t - of_int d / 3600000 / 168\<bar> \<le> 1 / 274877906944"
    using t(4) by linarith
  have mn: "min (real_of_int d / 3600000 / 168) 1 = real_of_int d / 3600000 / 168"
    using dr by simp
  have res: "js_Math_min (js_divide (js_divide (Finite (of_int d)) 3600000) 168) (Finite 1)
      = Finite t"
    using h(1) t(1,3) by (simp add: js_divide_def min_def)
  show ?thesis
    unfolding m d_def[symmetric] mn using res t(2,3) e by blast
qed


lemma calculatePriorityScore_approx:
  fixes a b c :: real and urg :: UrgencyLevel and inArea :: bool
  assumes w: "w_urgency weights = Finite a" "w_time weights = Finite b"
      "w_location weights = Finite c"
    and nn: "0 \<le> a" "0 \<le> b" "0 \<le> c"
    and sum: "a + b + c \<le> 100"
    and age: "createdAt \<le> clock"
  defines "S \<equiv> spec_weighted_sum a b c urg createdAt clock inArea"
  shows "\<exists>n score. calculatePriorityScore clock urg createdAt inArea weights = Finite score
           \<and> toNumber (of_int n / 100) = Finite score
           \<and> \<bar>of_int n - 100 * S\<bar> \<le> 50001 / 100000
           \<and> 0 \<le> score \<and> score \<le> 100
           \<and> \<bar>score - S\<bar> \<le> 501 / 100000"
proof -
  define vx :: real where "vx = (case urg of critical \<Rightarrow> 1 | high \<Rightarrow> 7 / 10 | normal \<Rightarrow> 3 / 10)"
  define tx :: real where "tx = min (of_int (clock - createdAt) / 3600000 / 168) 1"
  define l :: real where "l = (if inArea then 1 else 0)"
  have S: "S = a * vx + b * tx + c * l"
    unfolding S_def spec_weighted_sum_def vx_def tx_def l_def ..
  have ub: "a \<le> 100" "b \<le> 100" "c \<le> 100"
    using nn sum by linarith+
  obtain v where v: "URGENCY_VALUES urg = Finite v" "0 \<le> v" "v \<le> 1"
    "\<bar>v - vx\<bar> \<le> 1 / 18014398509481984"
    using URGENCY_VALUES_approx[of urg] unfolding vx_def by blast
  obtain t where t: "js_Math_min (js_divide (js_divide (js_minus (Finite (of_int clock))
                 (Finite (of_int createdAt))) 3600000) 168) (Finite 1) = Finite t"
    "0 \<le> t" "t \<le> 1" "\<bar>t - tx\<bar> \<le> 1 / 274877906944"
    using timeValue_approx[OF age] unfolding tx_def by blast
  have l: "(if inArea then Finite 1 else Finite 0) = Finite l" "0 \<le> l" "l \<le> 1"
    unfolding l_def by simp_all
  have vx: "0 \<le> vx" "vx \<le> 1"
    unfolding vx_def by (cases urg; simp)+
  have tx: "tx \<le> 1"
    unfolding tx_def by simp
  have tx0: "0 \<le> tx"
    unfolding tx_def using age by simp
  have av: "0 \<le> a * v" "a * v \<le> 100"
    using nn(1) ub(1) v(2,3) mult_left_le[of v a] by simp_all
  have bt: "0 \<le> b * t" "b * t \<le> 100"
    using nn(2) ub(2) t(2,3) mult_left_le[of t b] by simp_all
  have cl: "0 \<le> c * l" "c * l \<le> 100"
    using nn(3) ub(3) l(2,3) mult_left_le[of l c] by simp_all
  obtain r1 where r1: "toNumber (a * v) = Finite r1" "0 \<le> r1" "r1 \<le> 100"
    "\<bar>r1 - a * v\<bar> \<le> 1 / 549755813888"
    using toNumber_small[of "a * v" 100] av by auto
  obtain r2 where r2: "toNumber (b * t) = Finite r2" "0 \<le> r2" "r2 \<le> 100"
    "\<bar>r2 - b * t\<bar> \<le> 1 / 549755813888"
    using toNumber_small[of "b * t" 100] bt by auto
  obtain r3 where r3: "toNumber (c * l) = Finite r3" "0 \<le> r3" "r3 \<le> 100"
    "\<bar>r3 - c * l\<bar> \<le> 1 / 549755813888"
    using toNumber_small[of "c * l" 100] cl by auto
  have "0 \<le> r1 + r2" "r1 + r2 \<le> 200"
    using r1(2,3) r2(2,3) by simp_all
  then obtain q where q: "toNumber (r1 + r2) = Finite q" "0 \<le> q" "q \<le> 200"
    "\<bar>q - (r1 + r2)\<bar> \<le> 1 / 549755813888"
    using toNumber_small[of "r1 + r2" 200] by auto
  have "0 \<le> q + r3" "q + r3 \<le> 300"
    using q(2,3) r3(2,3) by simp_all
  then obtain sr where sr: "toNumber (q + r3) = Finite sr" "0 \<le> sr" "sr \<le> 300"
    "\<bar>sr - (q + r3)\<bar> \<le> 1 / 549755813888"
    using toNumber_small[of "q + r3" 300] by auto
  have "\<bar>a * v - a * vx\<bar> = a * \<bar>v - vx\<bar>"
    using nn(1) by (simp add: abs_mult flip: right_diff_distrib)
  also have "\<dots> \<le> 100 * (1 / 18014398509481984)"
    using ub(1) v(4) by (intro mult_mono) simp_all
  finally have e1: "\<bar>a * v - a * vx\<bar> \<le> 100 / 18014398509481984"
    by simp
  have "\<bar>b * t - b * tx\<bar> = b * \<bar>t - tx\<bar>"
    using nn(2) by (simp add: abs_mult flip: right_diff_distrib)
  also have "\<dots> \<le> 100 * (1 / 274877906944)"
    using ub(2) t(4) by (intro mult_mono) simp_all
  finally have e2: "\<bar>b * t - b * tx\<bar> \<le> 100 / 274877906944"
    by simp
  have eS: "\<bar>sr - S\<bar> \<le> 1 / 2000000000"
    unfolding S using r1(4) r2(4) r3(4) q(4) sr(4) e1 e2 by linarith
  have "a * vx \<le> a" "b * tx \<le> b" "c * l \<le> c"
    using nn vx tx l(3) by (simp_all add: mult_left_le)
  then have S100: "S \<le> 100"
    unfolding S using sum by linarith
  have S0: "0 \<le> S"
    unfolding S using nn vx(1) tx0 l(2) by simp
  have "0 \<le> sr * 100" "sr * 100 \<le> 10001"
    using sr(2) eS S100 by linarith+
  then obtain mr where mr: "toNumber (sr * 100) = Finite mr" "0 \<le> mr" "mr \<le> 10001"
    "\<bar>mr - sr * 100\<bar> \<le> 1 / 549755813888"
    using toNumber_small[of "sr * 100" 10001] by auto
  define n where "n = \<lfloor>mr + 1 / 2\<rfloor>"
  have n1: "of_int n \<le> mr + 1 / 2" "mr + 1 / 2 < of_int n + 1"
    unfolding n_def by linarith+
  have en: "\<bar>of_int n - 100 * S\<bar> \<le> 50001 / 100000"
    using n1 mr(4) eS by linarith
  have "0 \<le> n"
    unfolding n_def using mr(2) by simp
  then have n0: "(0 :: real) \<le> of_int n"
    by simp
  have "of_int n < (10001 :: real)"
    using n1(1) mr(4) eS S100 by linarith
  then have "n < 10001"
    by linarith
  then have "n \<le> 10000"
    by simp
  then have n100: "(of_int n :: real) \<le> 10000"
    by linarith
  have "0 \<le> (of_int n :: real) / 100" "(of_int n :: real) / 100 \<le> 100"
    using n0 n100 by simp_all
  then obtain f where f: "toNumber (of_int n / 100) = Finite f" "0 \<le> f" "f \<le> 100"
    "\<bar>f - of_int n / 100\<bar> \<le> 1 / 549755813888"
    using toNumber_small[of "of_int n / 100" 100] by auto
  have ef: "\<bar>f - S\<bar> \<le> 501 / 100000"
    using f(4) en by linarith
  have "calculatePriorityScore clock urg createdAt inArea weights
      = js_divide (js_Math_round (Finite mr)) 100"
    by (simp add: calculatePriorityScore_def Let_def w v(1) t(1) l(1) r1(1) r2(1) r3(1) q(1)
        sr(1) mr(1))
  also have "\<dots> = Finite f"
    by (simp add: js_Math_round_def Math_round_def js_divide_def n_def[symmetric] f(1))
  finally have val: "calculatePriorityScore clock urg createdAt inArea weights = Finite f" .
  show ?thesis
    using val f(1,2,3) en ef by blast
qed

lemma score_critical_area_new:
  "calculatePriorityScore clock critical clock True DEFAULT_WEIGHTS = Finite 65"
proof -
  have s1: "js_minus (Finite (of_int clock)) (Finite (of_int clock)) = Finite 0"
    by (simp add: js_minus_def js_negate_def toNumber_integer)
  have s2: "js_divide (Finite 0) 3600000 = Finite 0"
    unfolding js_divide_def number.case
    by (simp add: toNumber_integer)
  have s3: "js_divide (Finite 0) 168 = Finite 0"
    unfolding js_divide_def number.case
    by (simp add: toNumber_integer)
  have s4: "js_times (Finite 40) (Finite 1) = Finite 40"
    unfolding js_times.simps
    by (subst toNumber_binade[where k = 5]) (simp_all add: roundTiesToEven_def)
  have s5: "js_times (Finite 35) (Finite 0) = Finite 0"
    unfolding js_times.simps
    by (simp add: toNumber_integer)
  have s6: "js_times (Finite 25) (Finite 1) = Finite 25"
    unfolding js_times.simps
    by (subst toNumber_binade[where k = 4]) (simp_all add: roundTiesToEven_def)
  have s7: "js_plus (Finite 40) (Finite 0) = Finite 40"
    unfolding js_plus.simps
    by (subst toNumber_binade[where k = 5]) (simp_all add: roundTiesToEven_def)
  have s8: "js_plus (Finite 40) (Finite 25) = Finite 65"
    unfolding js_plus.simps
    by (subst toNumber_binade[where k = 6]) (simp_all add: roundTiesToEven_def)
  have s9: "js_times (Finite 65) (Finite 100) = Finite 6500"
    unfolding js_times.simps
    by (subst toNumber_binade[where k = 12]) (simp_all add: roundTiesToEven_def)
  have s10: "js_divide (Finite 6500) 100 = Finite 65"
    unfolding js_divide_def number.case
    by (subst toNumber_binade[where k = 6]) (simp_all add: roundTiesToEven_def)
  show ?thesis
    by (simp del: js_times.simps js_plus.simps URGENCY_VALUES.simps
        add: calculatePriorityScore_def Let_def DEFAULT_WEIGHTS_def URGENCY_VALUES_eval
        js_Math_round_def Math_round_def s1 s2 s3 s4 s5 s6 s7 s8 s9 s10)
qed

lemma score_normal_new:
  "calculatePriorityScore 0 normal 0 False DEFAULT_WEIGHTS = Finite 12"
proof -
  have s1: "js_minus (Finite 0) (Finite 0) = Finite 0"
    unfolding js_minus_def js_negate_def number.case js_plus.simps
    by (simp add: toNumber_integer)
  have s2: "js_divide (Finite 0) 3600000 = Finite 0"
    unfolding js_divide_def number.case
    by (simp add: toNumber_integer)
  have s3: "js_divide (Finite 0) 168 = Finite 0"
    unfolding js_divide_def number.case
    by (simp add: toNumber_integer)
  have s4: "js_times (Finite 40) (Finite (5404319552844595 / 18014398509481984)) = Finite 12"
    unfolding js_times.simps
    by (subst toNumber_binade[where k = 3]) (simp_all add: roundTiesToEven_def)
  have s5: "js_times (Finite 35) (Finite 0) = Finite 0"
    unfolding js_times.simps
    by (simp add: toNumber_integer)
  have s6: "js_times (Finite 25) (Finite 0) = Finite 0"
    unfolding js_times.simps
    by (simp add: toNumber_integer)
  have s7: "js_plus (Finite 12) (Finite 0) = Finite 12"
    unfolding js_plus.simps
    by (subst toNumber_binade[where k = 3]) (simp_all add: roundTiesToEven_def)
  have s8: "js_plus (Finite 12) (Finite 0) = Finite 12"
    unfolding js_plus.simps
    by (subst toNumber_binade[where k = 3]) (simp_all add: roundTiesToEven_def)
  have s9: "js_times (Finite 12) (Finite 100) = Finite 1200"
    unfolding js_times.simps
    by (subst toNumber_binade[where k = 10]) (simp_all add: roundTiesToEven_def)
  have s10: "js_divide (Finite 1200) 100 = Finite 12"
    unfolding js_divide_def number.case
    by (subst toNumber_binade[where k = 3]) (simp_all add: roundTiesToEven_def)
  show ?thesis
    by (simp del: js_times.simps js_plus.simps URGENCY_VALUES.simps
        add: calculatePriorityScore_def Let_def DEFAULT_WEIGHTS_def URGENCY_VALUES_eval
        js_Math_round_def Math_round_def s1 s2 s3 s4 s5 s6 s7 s8 s9 s10)
qed

lemma score_normal_84_hours:
  "calculatePriorityScore 302400000 normal 0 False DEFAULT_WEIGHTS = Finite (59 / 2)"
proof -
  have s1: "js_minus (Finite 302400000) (Finite 0) = Finite 302400000"
    unfolding js_minus_def js_negate_def number.case js_plus.simps
    by (subst toNumber_binade[where k = 28]) (simp_all add: roundTiesToEven_def)
  have s2: "js_divide (Finite 302400000) 3600000 = Finite 84"
    unfolding js_divide_def number.case
    by (subst toNumber_binade[where k = 6]) (simp_all add: roundTiesToEven_def)
  have s3: "js_divide (Finite 84) 168 = Finite (1 / 2)"
    unfolding js_divide_def number.case
    by (subst toNumber_binade[where k = "- 1"]) (simp_all add: roundTiesToEven_def)
  have s4: "js_times (Finite 40) (Finite (5404319552844595 / 18014398509481984)) = Finite 12"
    unfolding js_times.simps
    by (subst toNumber_binade[where k = 3]) (simp_all add: roundTiesToEven_def)
  have s5: "js_times (Finite 35) (Finite (1 / 2)) = Finite (35 / 2)"
    unfolding js_times.simps
    by (subst toNumber_binade[where k = 4]) (simp_all add: roundTiesToEven_def)
  have s6: "js_times (Finite 25) (Finite 0) = Finite 0"
    unfolding js_times.simps
    by (simp add: toNumber_integer)
  have s7: "js_plus (Finite 12) (Finite (35 / 2)) = Finite (59 / 2)"
    unfolding js_plus.simps
    by (subst toNumber_binade[where k = 4]) (simp_all add: roundTiesToEven_def)
  have s8: "js_plus (Finite (59 / 2)) (Finite 0) = Finite (59 / 2)"
    unfolding js_plus.simps
    by (subst toNumber_binade[where k = 4]) (simp_all add: roundTiesToEven_def)
  have s9: "js_times (Finite (59 / 2)) (Finite 100) = Finite 2950"
    unfolding js_times.simps
    by (subst toNumber_binade[where k = 11]) (simp_all add: roundTiesToEven_def)
  have s10: "js_divide (Finite 2950) 100 = Finite (59 / 2)"
    unfolding js_divide_def number.case
    by (subst toNumber_binade[where k = 4]) (simp_all add: roundTiesToEven_def)
  show ?thesis
    by (simp del: js_times.simps js_plus.simps URGENCY_VALUES.simps
        add: calculatePriorityScore_def Let_def DEFAULT_WEIGHTS_def URGENCY_VALUES_eval
        js_Math_round_def Math_round_def s1 s2 s3 s4 s5 s6 s7 s8 s9 s10)
qed

lemma score_weights_100:
  "calculatePriorityScore 0 critical 0 True \<lparr>w_urgency
     = Finite 100, w_time = Finite 100, w_location = Finite 100\<rparr> = Finite 200"
proof -
  have s1: "js_minus (Finite 0) (Finite 0) = Finite 0"
    unfolding js_minus_def js_negate_def number.case js_plus.simps
    by (simp add: toNumber_integer)
  have s2: "js_divide (Finite 0) 3600000 = Finite 0"
    unfolding js_divide_def number.case
    by (simp add: toNumber_integer)
  have s3: "js_divide (Finite 0) 168 = Finite 0"
    unfolding js_divide_def number.case
    by (simp add: toNumber_integer)
  have s4: "js_times (Finite 100) (Finite 1) = Finite 100"
    unfolding js_times.simps
    by (subst toNumber_binade[where k = 6]) (simp_all add: roundTiesToEven_def)
  have s5: "js_times (Finite 100) (Finite 0) = Finite 0"
    unfolding js_times.simps
    by (simp add: toNumber_integer)
  have s6: "js_times (Finite 100) (Finite 1) = Finite 100"
    unfolding js_times.simps
    by (subst toNumber_binade[where k = 6]) (simp_all add: roundTiesToEven_def)
  have s7: "js_plus (Finite 100) (Finite 0) = Finite 100"
    unfolding js_plus.simps
    by (subst toNumber_binade[where k = 6]) (simp_all add: roundTiesToEven_def)
  have s8: "js_plus (Finite 100) (Finite 100) = Finite 200"
    unfolding js_plus.simps
    by (subst toNumber_binade[where k = 7]) (simp_all add: roundTiesToEven_def)
  have s9: "js_times (Finite 200) (Finite 100) = Finite 20000"
    unfolding js_times.simps
    by (subst toNumber_binade[where k = 14]) (simp_all add: roundTiesToEven_def)
  have s10: "js_divide (Finite 20000) 100 = Finite 200"
    unfolding js_divide_def number.case
    by (subst toNumber_binade[where k = 7]) (simp_all add: roundTiesToEven_def)
  show ?thesis
    by (simp del: js_times.simps js_plus.simps URGENCY_VALUES.simps
        add: calculatePriorityScore_def Let_def DEFAULT_WEIGHTS_def URGENCY_VALUES_eval
        js_Math_round_def Math_round_def s1 s2 s3 s4 s5 s6 s7 s8 s9 s10)
qed

lemma score_future_week:
  "calculatePriorityScore 0 normal 604800000 False DEFAULT_WEIGHTS = Finite (- 23)"
proof -
  have s1: "js_minus (Finite 0) (Finite 604800000) = Finite (- 604800000)"
    unfolding js_minus_def js_negate_def number.case js_plus.simps
    by (subst toNumber_binade[where k = 29]) (simp_all add: roundTiesToEven_def)
  have s2: "js_divide (Finite (- 604800000)) 3600000 = Finite (- 168)"
    unfolding js_divide_def number.case
    by (subst toNumber_binade[where k = 7]) (simp_all add: roundTiesToEven_def)
  have s3: "js_divide (Finite (- 168)) 168 = Finite (- 1)"
    unfolding js_divide_def number.case
    by (subst toNumber_binade[where k = 0]) (simp_all add: roundTiesToEven_def)
  have s4: "js_times (Finite 40) (Finite (5404319552844595 / 18014398509481984)) = Finite 12"
    unfolding js_times.simps
    by (subst toNumber_binade[where k = 3]) (simp_all add: roundTiesToEven_def)
  have s5: "js_times (Finite 35) (Finite (- 1)) = Finite (- 35)"
    unfolding js_times.simps
    by (subst toNumber_binade[where k = 5]) (simp_all add: roundTiesToEven_def)
  have s6: "js_times (Finite 25) (Finite 0) = Finite 0"
    unfolding js_times.simps
    by (simp add: toNumber_integer)
  have s7: "js_plus (Finite 12) (Finite (- 35)) = Finite (- 23)"
    unfolding js_plus.simps
    by (subst toNumber_binade[where k = 4]) (simp_all add: roundTiesToEven_def)
  have s8: "js_plus (Finite (- 23)) (Finite 0) = Finite (- 23)"
    unfolding js_plus.simps
    by (subst toNumber_binade[where k = 4]) (simp_all add: roundTiesToEven_def)
  have s9: "js_times (Finite (- 23)) (Finite 100) = Finite (- 2300)"
    unfolding js_times.simps
    by (subst toNumber_binade[where k = 11]) (simp_all add: roundTiesToEven_def)
  have s10: "js_divide (Finite (- 2300)) 100 = Finite (- 23)"
    unfolding js_divide_def number.case
    by (subst toNumber_binade[where k = 4]) (simp_all add: roundTiesToEven_def)
  show ?thesis
    by (simp del: js_times.simps js_plus.simps URGENCY_VALUES.simps
        add: calculatePriorityScore_def Let_def DEFAULT_WEIGHTS_def URGENCY_VALUES_eval
        js_Math_round_def Math_round_def s1 s2 s3 s4 s5 s6 s7 s8 s9 s10)
qed

lemma score_tie:
  "calculatePriorityScore 37756800 normal 0 False DEFAULT_WEIGHTS
     = Finite (1995657584878551 / 140737488355328)"
proof -
  have s1: "js_minus (Finite 37756800) (Finite 0) = Finite 37756800"
    unfolding js_minus_def js_negate_def number.case js_plus.simps
    by (subst toNumber_binade[where k = 25]) (simp_all add: roundTiesToEven_def)
  have s2: "js_divide (Finite 37756800) 3600000 = Finite (184506847233835 / 17592186044416)"
    unfolding js_divide_def number.case
    by (subst toNumber_binade[where k = 3]) (simp_all add: roundTiesToEven_def)
  have s3: "js_divide (Finite (184506847233835 / 17592186044416)) 168
      = Finite (8996905312735573 / 144115188075855872)"
    unfolding js_divide_def number.case
    by (subst toNumber_binade[where k = "- 5"]) (simp_all add: roundTiesToEven_def)
  have s4: "js_times (Finite 40) (Finite (5404319552844595 / 18014398509481984)) = Finite 12"
    unfolding js_times.simps
    by (subst toNumber_binade[where k = 3]) (simp_all add: roundTiesToEven_def)
  have s5: "js_times (Finite 35) (Finite (8996905312735573 / 144115188075855872))
      = Finite (2460091296451133 / 1125899906842624)"
    unfolding js_times.simps
    by (subst toNumber_binade[where k = 1]) (simp_all add: roundTiesToEven_def)
  have s6: "js_times (Finite 25) (Finite 0) = Finite 0"
    unfolding js_times.simps
    by (simp add: toNumber_integer)
  have s7: "js_plus (Finite 12) (Finite (2460091296451133 / 1125899906842624))
      = Finite (3992722544640655 / 281474976710656)"
    unfolding js_plus.simps
    by (subst toNumber_binade[where k = 3]) (simp_all add: roundTiesToEven_def)
  have s8: "js_plus (Finite (3992722544640655 / 281474976710656)) (Finite 0)
      = Finite (3992722544640655 / 281474976710656)"
    unfolding js_plus.simps
    by (subst toNumber_binade[where k = 3]) (simp_all add: roundTiesToEven_def)
  have s9: "js_times (Finite (3992722544640655 / 281474976710656)) (Finite 100)
      = Finite (6238628976001023 / 4398046511104)"
    unfolding js_times.simps
    by (subst toNumber_binade[where k = 10]) (simp_all add: roundTiesToEven_def)
  have s10: "js_divide (Finite 1418) 100 = Finite (1995657584878551 / 140737488355328)"
    unfolding js_divide_def number.case
    by (subst toNumber_binade[where k = 3]) (simp_all add: roundTiesToEven_def)
  show ?thesis
    by (simp del: js_times.simps js_plus.simps URGENCY_VALUES.simps
        add: calculatePriorityScore_def Let_def DEFAULT_WEIGHTS_def URGENCY_VALUES_eval
        js_Math_round_def Math_round_def s1 s2 s3 s4 s5 s6 s7 s8 s9 s10)
qed

lemma toNumber_two_decimals:
  "toNumber (709 / 50) = Finite (1995657584878551 / 140737488355328)"
  "toNumber (1419 / 100) = Finite (7988259839048417 / 562949953421312)"
  by (subst toNumber_binade[where k = 3], simp_all add: roundTiesToEven_def)+

lemma js_minus_timestamps:
  "js_minus (Finite (of_int a)) (Finite (of_int b)) = toNumber (of_int (a - b))"
  by (simp add: js_minus_def js_negate_def)

lemma nearest_integer_off_tie:
  fixes x :: real and n :: int
  assumes near: "\<bar>of_int n - x\<bar> \<le> 50001 / 100000"
    and off: "1 / 100000 < \<bar>x - of_int \<lfloor>x\<rfloor> - 1 / 2\<bar>"
  shows "n = \<lfloor>x + 1 / 2\<rfloor>"
proof -
  define f where "f = \<lfloor>x\<rfloor>"
  have f: "of_int f \<le> x" "x < of_int f + 1"
    unfolding f_def by linarith+
  show ?thesis
  proof (cases "x - of_int f < 1 / 2")
    case True
    then have lo: "x - of_int f < 1 / 2 - 1 / 100000"
      using off unfolding f_def by linarith
    have "(of_int n :: real) < of_int f + 1" "(of_int f :: real) - 1 < of_int n"
      using near lo f by linarith+
    then have "n < f + 1" "f - 1 < n"
      by linarith+
    then have "n = f"
      by simp
    moreover have "\<lfloor>x + 1 / 2\<rfloor> = f"
      using lo f by (intro floor_unique) linarith+
    ultimately show ?thesis
      by simp
  next
    case False
    then have hi: "1 / 2 + 1 / 100000 < x - of_int f"
      using off unfolding f_def by linarith
    have "(of_int n :: real) < of_int f + 2" "(of_int f :: real) < of_int n"
      using near hi f by linarith+
    then have "n < f + 2" "f < n"
      by linarith+
    then have "n = f + 1"
      by simp
    moreover have "\<lfloor>x + 1 / 2\<rfloor> = f + 1"
      using hi f by (intro floor_unique) (simp, linarith)+
    ultimately show ?thesis
      by simp
  qed
qed

text \<open>
  C9 (as amended). For finite weights that are not negative and sum to at most 100, and a
  complaint not created after the clock reading, the score is a finite number between 0 and
  100. It is the double of \<open>n / 100\<close> for an integer \<open>n\<close> within 0.50001 of a hundred
  times the weighted sum of the urgency value (critical 1.0, high 0.7, normal 0.3), of the
  age in hours over 168 capped at 1.0, and of the critical area flag. So the score is within
  0.00501 of that sum, and \<open>n / 100\<close> is the sum rounded to two decimals whenever a
  hundred times the sum is more than 0.00001 away from a tie of that rounding. Critical
  urgency, no age and a critical area give exactly 65 under the default weights 40, 35 and
  25.
\<close>

theorem calculatePriorityScore_weighted_sum:
  "(w_urgency weights = Finite a \<and> w_time weights = Finite b \<and> w_location weights = Finite c
      \<and> 0 \<le> a \<and> 0 \<le> b \<and> 0 \<le> c \<and> a + b + c \<le> 100 \<and> createdAt \<le> clock \<longrightarrow>
      (\<exists>n score. calculatePriorityScore clock urg createdAt inArea weights = Finite score
          \<and> toNumber (of_int n / 100) = Finite score
          \<and> \<bar>of_int n - spec_weighted_sum a b c urg createdAt clock inArea * 100\<bar>
              \<le> 50001 / 100000
          \<and> (1 / 100000
                < \<bar>spec_weighted_sum a b c urg createdAt clock inArea * 100
                   - of_int \<lfloor>spec_weighted_sum a b c urg createdAt clock inArea * 100\<rfloor>
                   - 1 / 2\<bar>
              \<longrightarrow> n = Math_round (spec_weighted_sum a b c urg createdAt clock inArea * 100))
          \<and> \<bar>score - spec_weighted_sum a b c urg createdAt clock inArea\<bar> \<le> 501 / 100000
          \<and> 0 \<le> score \<and> score \<le> 100))
   \<and> calculatePriorityScore clock critical clock True DEFAULT_WEIGHTS = Finite 65"
proof (intro conjI impI)
  assume h: "w_urgency weights = Finite a \<and> w_time weights = Finite b
      \<and> w_location weights = Finite c
      \<and> 0 \<le> a \<and> 0 \<le> b \<and> 0 \<le> c \<and> a + b + c \<le> 100 \<and> createdAt \<le> clock"
  define S where "S = spec_weighted_sum a b c urg createdAt clock inArea"
  have "\<exists>n score. calculatePriorityScore clock urg createdAt inArea weights = Finite score
           \<and> toNumber (of_int n / 100) = Finite score
           \<and> \<bar>of_int n - 100 * S\<bar> \<le> 50001 / 100000
           \<and> 0 \<le> score \<and> score \<le> 100
           \<and> \<bar>score - S\<bar> \<le> 501 / 100000"
    unfolding S_def using h by (intro calculatePriorityScore_approx) simp_all
  then obtain n score where r:
    "calculatePriorityScore clock urg createdAt inArea weights = Finite score"
    "toNumber (of_int n / 100) = Finite score"
    "\<bar>of_int n - S * 100\<bar> \<le> 50001 / 100000"
    "0 \<le> score" "score \<le> 100" "\<bar>score - S\<bar> \<le> 501 / 100000"
    by (auto simp: mult.commute)
  have "1 / 100000 < \<bar>S * 100 - of_int \<lfloor>S * 100\<rfloor> - 1 / 2\<bar> \<longrightarrow> n = Math_round (S * 100)"
    unfolding Math_round_def using nearest_integer_off_tie[OF r(3)] by blast
  then show "\<exists>n score. calculatePriorityScore clock urg createdAt inArea weights = Finite score
          \<and> toNumber (of_int n / 100) = Finite score
          \<and> \<bar>of_int n - spec_weighted_sum a b c urg createdAt clock inArea * 100\<bar>
              \<le> 50001 / 100000
          \<and> (1 / 100000
                < \<bar>spec_weighted_sum a b c urg createdAt clock inArea * 100
                   - of_int \<lfloor>spec_weighted_sum a b c urg createdAt clock inArea * 100\<rfloor>
                   - 1 / 2\<bar>
              \<longrightarrow> n = Math_round (spec_weighted_sum a b c urg createdAt clock inArea * 100))
          \<and> \<bar>score - spec_weighted_sum a b c urg createdAt clock inArea\<bar> \<le> 501 / 100000
          \<and> 0 \<le> score \<and> score \<le> 100"
    using r unfolding S_def by blast
next
  show "calculatePriorityScore clock critical clock True DEFAULT_WEIGHTS = Finite 65"
    by (rule score_critical_area_new)
qed

theorem calculatePriorityScore_weighted_sum_witness:
  "\<exists>score. calculatePriorityScore 302400000 high 0 False DEFAULT_WEIGHTS = Finite score
      \<and> \<bar>score - 91 / 2\<bar> \<le> 501 / 100000 \<and> 0 \<le> score \<and> score \<le> 100"
  using calculatePriorityScore_weighted_sum[where weights = DEFAULT_WEIGHTS and a = 40
      and b = 35 and c = 25 and createdAt = 0 and clock = 302400000 and urg = high
      and inArea = False]
  by (auto simp: DEFAULT_WEIGHTS_def spec_weighted_sum_def)

text \<open>
  C9 as stated fails. Nothing validates the weights, and the time value has no lower bound:
  with every weight at 100 the score is 200, and with the default weights a complaint dated
  one week after the clock reading scores -23. Nor is the score always the weighted sum
  rounded to two decimals: for a normal complaint of 37756800 milliseconds outside a
  critical area the weighted sum is 14.185, which rounds to 14.19, and the score is 14.18,
  the sum computed in doubles lying just below the tie.
\<close>

theorem calculatePriorityScore_weighted_sum_counterexample:
  "calculatePriorityScore 0 critical 0 True
     \<lparr>w_urgency = Finite 100, w_time = Finite 100, w_location = Finite 100\<rparr> = Finite 200
   \<and> calculatePriorityScore 0 normal (168 * 3600000) False DEFAULT_WEIGHTS = Finite (- 23)
   \<and> calculatePriorityScore 37756800 normal 0 False DEFAULT_WEIGHTS = toNumber (1418 / 100)
   \<and> spec_weighted_sum 40 35 25 normal 0 37756800 False = 14185 / 1000
   \<and> of_int (Math_round (spec_weighted_sum 40 35 25 normal 0 37756800 False * 100)) / 100
       = (1419 / 100 :: real)
   \<and> toNumber (1418 / 100) \<noteq> toNumber (1419 / 100)"
  using score_weights_100 score_future_week score_tie
  by (simp add: toNumber_two_decimals spec_weighted_sum_def Math_round_def)

text \<open>
  C10 (as amended). The scorer has no time parameter: it reads the wall clock. Its result
  depends on that reading only through the age of the complaint, so two evaluations agree
  when the ages agree, and also whenever both ages are at least one week.
\<close>

theorem calculatePriorityScore_clock_dependence:
  "(clock1 - createdAt1 = clock2 - createdAt2 \<longrightarrow>
      calculatePriorityScore clock1 urg createdAt1 inArea weights
      = calculatePriorityScore clock2 urg createdAt2 inArea weights)
   \<and> (168 * msPerHour \<le> clock1 - createdAt \<and> 168 * msPerHour \<le> clock2 - createdAt \<longrightarrow>
      calculatePriorityScore clock1 urg createdAt inArea weights
      = calculatePriorityScore clock2 urg createdAt inArea weights)"
proof (intro conjI impI)
  assume "clock1 - createdAt1 = clock2 - createdAt2"
  then show "calculatePriorityScore clock1 urg createdAt1 inArea weights
      = calculatePriorityScore clock2 urg createdAt2 inArea weights"
    by (simp add: calculatePriorityScore_def js_minus_timestamps)
next
  assume h: "168 * msPerHour \<le> clock1 - createdAt \<and> 168 * msPerHour \<le> clock2 - createdAt"
  then have "604800000 \<le> clock1 - createdAt" "604800000 \<le> clock2 - createdAt"
    by (simp_all add: msPerHour_def)
  then have cap:
    "js_Math_min (js_divide (js_divide (js_minus (Finite (of_int clock1))
             (Finite (of_int createdAt))) 3600000) 168) (Finite 1) = Finite 1"
    "js_Math_min (js_divide (js_divide (js_minus (Finite (of_int clock2))
             (Finite (of_int createdAt))) 3600000) 168) (Finite 1) = Finite 1"
    by (simp_all only: timeValue_cap)
  show "calculatePriorityScore clock1 urg createdAt inArea weights
      = calculatePriorityScore clock2 urg createdAt inArea weights"
    by (simp add: calculatePriorityScore_def Let_def cap)
qed

theorem calculatePriorityScore_clock_dependence_witness:
  "calculatePriorityScore 1000 normal 400 False DEFAULT_WEIGHTS
     = calculatePriorityScore 5000 normal 4400 False DEFAULT_WEIGHTS
   \<and> calculatePriorityScore 700000000 high 0 True DEFAULT_WEIGHTS
     = calculatePriorityScore 900000000 high 0 True DEFAULT_WEIGHTS"
  using calculatePriorityScore_clock_dependence[where ?clock1.0 = 1000 and ?createdAt1.0 = 400
      and ?clock2.0 = 5000 and ?createdAt2.0 = 4400 and urg = normal
      and inArea = False and weights = DEFAULT_WEIGHTS and createdAt = 0]
    calculatePriorityScore_clock_dependence[where ?clock1.0 = 700000000 and ?createdAt1.0 = 0
      and ?clock2.0 = 900000000 and ?createdAt2.0 = 0 and urg = high
      and inArea = True and weights = DEFAULT_WEIGHTS and createdAt = 0]
  by (simp add: msPerHour_def)

text \<open>
  C10 as stated fails: with identical arguments the score of a normal complaint read at its
  creation is 12, and read 84 hours later it is 29.5.
\<close>

theorem calculatePriorityScore_hidden_clock_counterexample:
  "calculatePriorityScore 0 normal 0 False DEFAULT_WEIGHTS = Finite 12
   \<and> calculatePriorityScore (84 * 3600000) normal 0 False DEFAULT_WEIGHTS = Finite (59 / 2)"
  using score_normal_new score_normal_84_hours by simp

subsection \<open>Rows, queries and what the helpers leave alone\<close>

lemma find_map_preserving:
  assumes "\<And>x. P (g x) = P x"
  shows "find P (map g xs) = map_option g (find P xs)"
  using assms by (induction xs) simp_all

lemma find_complaint_update_complaints:
  assumes "\<And>c. c_id (f c) = c_id c"
  shows "find_complaint cid' (update_complaints cid f db) =
         map_option (\<lambda>c. if c_id c = cid then f c else c) (find_complaint cid' db)"
  unfolding find_complaint_def update_complaints_def
  using assms by (simp add: find_map_preserving)

lemma find_complaint_c_id: "find_complaint cid db = Some c \<Longrightarrow> c_id c = cid"
  unfolding find_complaint_def
  by (induction "complaints db" arbitrary: db) (auto simp: find_Some_iff)

lemma no_trigger_rows:
  "\<forall>x \<in> set cs. c_id x \<noteq> cid \<Longrightarrow>
   concat (map (\<lambda>x. if c_id x = cid then g x else []) cs) = []"
  by (induction cs) simp_all

lemma trigger_rows_primary_key:
  "distinct (map c_id cs) \<Longrightarrow> find (\<lambda>c. c_id c = cid) cs = Some c \<Longrightarrow>
   concat (map (\<lambda>x. if c_id x = cid then g x else []) cs) = g c"
proof (induction cs)
  case Nil
  then show ?case by simp
next
  case (Cons a cs)
  show ?case
  proof (cases "c_id a = cid")
    case True
    then have "a = c"
      using Cons.prems(2) by simp
    have "\<forall>x \<in> set cs. c_id x \<noteq> cid"
      using Cons.prems(1) True by (auto simp: image_iff)
    then show ?thesis
      using True \<open>a = c\<close> by (simp add: no_trigger_rows)
  next
    case False
    then show ?thesis
      using Cons by simp
  qed
qed

lemma find_complaint_logger_write [simp]:
  "find_complaint cid (logger_write l m db) = find_complaint cid db"
  by (simp add: find_complaint_def logger_write_def)

lemma find_complaint_sendWebhook [simp]:
  "find_complaint cid (sendWebhook e db) = find_complaint cid db"
  by (simp add: find_complaint_def sendWebhook_def)

lemma find_complaint_insert_status_log [simp]:
  "find_complaint cid (insert_status_log r db) = find_complaint cid db"
  by (simp add: find_complaint_def insert_status_log_def)

lemma find_complaint_triggerNotification [simp]:
  "find_complaint cid (triggerNotification u c t db) = find_complaint cid db"
  by (simp add: triggerNotification_def split: option.splits)

lemma logs_logger_write [simp]:
  "complaint_status_logs (logger_write l m db) = complaint_status_logs db"
  by (simp add: logger_write_def)

lemma logs_sendWebhook [simp]:
  "complaint_status_logs (sendWebhook e db) = complaint_status_logs db"
  by (simp add: sendWebhook_def)

lemma logs_triggerNotification [simp]:
  "complaint_status_logs (triggerNotification u c t db) = complaint_status_logs db"
  by (simp add: triggerNotification_def split: option.splits)

lemma logs_update_complaints_primary_key:
  "distinct (map c_id (complaints db)) \<Longrightarrow> find_complaint cid db = Some c \<Longrightarrow>
   complaint_status_logs (update_complaints cid f db)
     = complaint_status_logs db @ log_status_change c (f c)"
  unfolding update_complaints_def find_complaint_def
  by (simp add: trigger_rows_primary_key)

subsection \<open>State machine\<close>

lemma not_edge_self: "s \<notin> set (validTransitions s)"
  by (cases s) simp_all

lemma c_id_status_updateData [simp]: "c_id (status_updateData now s n r c) = c_id c"
  by (simp add: status_updateData_def Let_def)

lemma status_updateData_fields:
  "status (status_updateData now s n r c) = s"
  "priority_score (status_updateData now s n r c) = priority_score c"
  "s = resolved \<Longrightarrow> resolved_at (status_updateData now s n r c) = Some now"
  "s = resolved \<Longrightarrow>
     resolution_notes (status_updateData now s n r c) = defined_or n (resolution_notes c)"
  "s = resolved \<Longrightarrow>
     resolution_type (status_updateData now s n r c) = defined_or r (resolution_type c)"
  "s = closed \<Longrightarrow> closed_at (status_updateData now s n r c) = Some now"
  by (simp_all add: status_updateData_def Let_def)

lemma updateComplaintStatus_edge:
  assumes found: "find_complaint complaintId db = Some c"
    and edge: "newStatus \<in> set (validTransitions (status c))"
  shows "updateComplaintStatus now complaintId updaterId newStatus notes resolutionType db
      = (Inr (status_updateData now newStatus notes resolutionType c),
         triggerNotification (user_id c) complaintId ''status_updated''
            (logger_write log_info ''Complaint status updated''
              (insert_status_log
                 \<lparr>log_complaint_id = complaintId, old_status = Some (status c),
                  new_status = newStatus, changed_by = Some updaterId,
                  change_reason = notes, metadata_priority_score = None\<rparr>
                 (update_complaints complaintId
                    (status_updateData now newStatus notes resolutionType) db))))"
proof -
  have cid: "c_id c = complaintId"
    using found by (rule find_complaint_c_id)
  have f1: "find_complaint complaintId
              (update_complaints complaintId
                 (status_updateData now newStatus notes resolutionType) db)
      = Some (status_updateData now newStatus notes resolutionType c)"
    using found cid by (simp add: find_complaint_update_complaints)
  show ?thesis
    unfolding updateComplaintStatus_def getComplaintById_def
    using found edge f1 by (simp add: Let_def)
qed

lemma updateComplaintStatus_not_edge:
  assumes found: "find_complaint complaintId db = Some c"
    and "newStatus \<notin> set (validTransitions (status c))"
  shows "updateComplaintStatus now complaintId updaterId newStatus notes resolutionType db
      = (Inl (ValidationError (''Cannot transition from '' @ status_name (status c)
                                @ '' to '' @ status_name newStatus)), db)"
  unfolding updateComplaintStatus_def getComplaintById_def using assms by simp

lemma updateComplaintStatus_log_rows:
  assumes pk: "distinct (map c_id (complaints db))"
    and found: "find_complaint complaintId db = Some c"
    and edge: "newStatus \<in> set (validTransitions (status c))"
  shows "complaint_status_logs
           (snd (updateComplaintStatus now complaintId updaterId newStatus notes
                   resolutionType db))
         = complaint_status_logs db
           @ \<lparr>log_complaint_id = complaintId, old_status = Some (status c),
               new_status = newStatus, changed_by = None, change_reason = None,
               metadata_priority_score = Some (priority_score c)\<rparr>
           # (if updaterId \<in> set (users db) then
                [\<lparr>log_complaint_id = complaintId, old_status = Some (status c),
                   new_status = newStatus, changed_by = Some updaterId,
                   change_reason = notes, metadata_priority_score = None\<rparr>]
              else [])"
proof -
  have ne: "status c \<noteq> newStatus"
    using edge not_edge_self by metis
  have cid: "c_id c = complaintId"
    using found by (rule find_complaint_c_id)
  let ?upd = "status_updateData now newStatus notes resolutionType"
  have f1: "find_complaint complaintId (update_complaints complaintId ?upd db) = Some (?upd c)"
    using found cid by (simp add: find_complaint_update_complaints)
  have u1: "users (update_complaints complaintId ?upd db) = users db"
    by (simp add: update_complaints_def)
  have l1: "complaint_status_logs (update_complaints complaintId ?upd db)
      = complaint_status_logs db @ log_status_change c (?upd c)"
    using logs_update_complaints_primary_key[OF pk found] .
  show ?thesis
    unfolding updateComplaintStatus_edge[OF found edge] using f1 l1 u1 ne cid
    by (simp add: insert_status_log_def dangling_user_def log_status_change_def
        status_updateData_fields)
qed

text \<open>
  What \<^verbatim>\<open>updateComplaintStatus\<close> does to a complaint of the table. On an edge of the
  transition table it succeeds and returns the stored row, which has the new status, the
  resolution fields when it enters \<open>resolved\<close> (notes and type only when they are given)
  and \<open>closed_at\<close> when it enters \<open>closed\<close>. The status log then grows by the row the
  trigger \<^verbatim>\<open>log_status_change\<close> writes (old status, new status, no actor, no reason) and,
  when the updater is a user, by the row the function inserts (old status, new status,
  actor, reason); for an updater that is no user the insert is refused and the error is
  dropped. Off the table the call fails with the validation error that names both statuses,
  and the database is unchanged.
\<close>

theorem updateComplaintStatus_transition:
  assumes pk: "distinct (map c_id (complaints db))"
    and found: "find_complaint complaintId db = Some c"
  shows "(newStatus \<in> set (validTransitions (status c)) \<longrightarrow>
           (\<exists>data. fst (updateComplaintStatus now complaintId updaterId newStatus notes
                          resolutionType db) = Inr data
              \<and> find_complaint complaintId
                   (snd (updateComplaintStatus now complaintId updaterId newStatus notes
                           resolutionType db)) = Some data
              \<and> status data = newStatus
              \<and> (newStatus = resolved \<longrightarrow> resolved_at data = Some now
                    \<and> resolution_notes data = defined_or notes (resolution_notes c)
                    \<and> resolution_type data = defined_or resolutionType (resolution_type c))
              \<and> (newStatus = closed \<longrightarrow> closed_at data = Some now))
           \<and> complaint_status_logs
                (snd (updateComplaintStatus now complaintId updaterId newStatus notes
                        resolutionType db))
               = complaint_status_logs db
                 @ \<lparr>log_complaint_id = complaintId, old_status = Some (status c),
                     new_status = newStatus, changed_by = None, change_reason = None,
                     metadata_priority_score = Some (priority_score c)\<rparr>
                 # (if updaterId \<in> set (users db) then
                      [\<lparr>log_complaint_id = complaintId, old_status = Some (status c),
                         new_status = newStatus, changed_by = Some updaterId,
                         change_reason = notes, metadata_priority_score = None\<rparr>]
                    else []))
       \<and> (newStatus \<notin> set (validTransitions (status c)) \<longrightarrow>
            updateComplaintStatus now complaintId updaterId newStatus notes resolutionType db
              = (Inl (ValidationError (''Cannot transition from '' @ status_name (status c)
                                        @ '' to '' @ status_name newStatus)), db))"
proof (intro conjI impI)
  assume edge: "newStatus \<in> set (validTransitions (status c))"
  have cid: "c_id c = complaintId"
    using found by (rule find_complaint_c_id)
  let ?upd = "status_updateData now newStatus notes resolutionType"
  have f1: "find_complaint complaintId (update_complaints complaintId ?upd db) = Some (?upd c)"
    using found cid by (simp add: find_complaint_update_complaints)
  note r = updateComplaintStatus_edge[OF found edge]
  show "\<exists>data. fst (updateComplaintStatus now complaintId updaterId newStatus notes
                          resolutionType db) = Inr data
              \<and> find_complaint complaintId
                   (snd (updateComplaintStatus now complaintId updaterId newStatus notes
                           resolutionType db)) = Some data
              \<and> status data = newStatus
              \<and> (newStatus = resolved \<longrightarrow> resolved_at data = Some now
                    \<and> resolution_notes data = defined_or notes (resolution_notes c)
                    \<and> resolution_type data = defined_or resolutionType (resolution_type c))
              \<and> (newStatus = closed \<longrightarrow> closed_at data = Some now)"
    unfolding r using f1 by (simp add: status_updateData_fields)
  show "complaint_status_logs
                (snd (updateComplaintStatus now complaintId updaterId newStatus notes
                        resolutionType db))
               = complaint_status_logs db
                 @ \<lparr>log_complaint_id = complaintId, old_status = Some (status c),
                     new_status = newStatus, changed_by = None, change_reason = None,
                     metadata_priority_score = Some (priority_score c)\<rparr>
                 # (if updaterId \<in> set (users db) then
                      [\<lparr>log_complaint_id = complaintId, old_status = Some (status c),
                         new_status = newStatus, changed_by = Some updaterId,
                         change_reason = notes, metadata_priority_score = None\<rparr>]
                    else [])"
    using updateComplaintStatus_log_rows[OF pk found edge] .
next
  assume "newStatus \<notin> set (validTransitions (status c))"
  then show "updateComplaintStatus now complaintId updaterId newStatus notes resolutionType db
              = (Inl (ValidationError (''Cannot transition from '' @ status_name (status c)
                                        @ '' to '' @ status_name newStatus)), db)"
    using updateComplaintStatus_not_edge[OF found] by simp
qed

theorem updateComplaintStatus_transition_witness:
  "complaint_status_logs
     (snd (updateComplaintStatus 1000 ''c1'' ''u2'' closed None None
             (sample_db [sample_complaint\<lparr>status := resolved\<rparr>] [])))
     = [\<lparr>log_complaint_id = ''c1'', old_status = Some resolved, new_status = closed,
          changed_by = None, change_reason = None, metadata_priority_score = Some (Finite 0)\<rparr>,
        \<lparr>log_complaint_id = ''c1'', old_status = Some resolved, new_status = closed,
          changed_by = Some ''u2'', change_reason = None, metadata_priority_score = None\<rparr>]
   \<and> updateComplaintStatus 1000 ''c1'' ''u2'' closed None None
         (sample_db [sample_complaint\<lparr>status := in_progress\<rparr>] [])
       = (Inl (ValidationError ''Cannot transition from in_progress to closed''),
          sample_db [sample_complaint\<lparr>status := in_progress\<rparr>] [])"
  using updateComplaintStatus_transition
          [of "sample_db [sample_complaint\<lparr>status := resolved\<rparr>] []" "''c1''"
              "sample_complaint\<lparr>status := resolved\<rparr>" closed 1000 "''u2''" None None]
        updateComplaintStatus_transition
          [of "sample_db [sample_complaint\<lparr>status := in_progress\<rparr>] []" "''c1''"
              "sample_complaint\<lparr>status := in_progress\<rparr>" closed 1000 "''u2''" None None]
  by (simp add: sample_db_def sample_complaint_def find_complaint_def)

text \<open>
  C1. The code departs from the claim on the log rows. A complaint in progress, with an
  empty status log, is resolved by the user \<open>u2\<close> with the note "fixed": the call succeeds and
  stores the new status, the resolution time and the note, and the log then holds two rows
  for the one transition, the trigger's and the function's. The same call made for an
  updater that is no user (the string a webhook passes on) leaves the trigger's row alone,
  which names neither actor nor reason. A transition off the table fails as claimed.
\<close>

theorem updateComplaintStatus_duplicate_log_row:
  "complaint_status_logs (sample_db [sample_complaint\<lparr>status := in_progress\<rparr>] []) = []
   \<and> fst (updateComplaintStatus 1000 ''c1'' ''u2'' resolved (Some ''fixed'') None
            (sample_db [sample_complaint\<lparr>status := in_progress\<rparr>] []))
       = Inr (sample_complaint\<lparr>status := resolved, resolved_at := Some 1000,
                               resolution_notes := Some ''fixed''\<rparr>)
   \<and> complaint_status_logs
        (snd (updateComplaintStatus 1000 ''c1'' ''u2'' resolved (Some ''fixed'') None
                (sample_db [sample_complaint\<lparr>status := in_progress\<rparr>] [])))
       = [\<lparr>log_complaint_id = ''c1'', old_status = Some in_progress, new_status = resolved,
            changed_by = None, change_reason = None, metadata_priority_score = Some (Finite 0)\<rparr>,
          \<lparr>log_complaint_id = ''c1'', old_status = Some in_progress, new_status = resolved,
            changed_by = Some ''u2'', change_reason = Some ''fixed'',
            metadata_priority_score = None\<rparr>]
   \<and> complaint_status_logs
        (snd (updateComplaintStatus 1000 ''c1'' ''n8n'' resolved (Some ''fixed'') None
                (sample_db [sample_complaint\<lparr>status := in_progress\<rparr>] [])))
       = [\<lparr>log_complaint_id = ''c1'', old_status = Some in_progress, new_status = resolved,
            changed_by = None, change_reason = None, metadata_priority_score = Some (Finite 0)\<rparr>]
   \<and> updateComplaintStatus 1000 ''c1'' ''u2'' closed None None
         (sample_db [sample_complaint\<lparr>status := in_progress\<rparr>] [])
       = (Inl (ValidationError ''Cannot transition from in_progress to closed''),
          sample_db [sample_complaint\<lparr>status := in_progress\<rparr>] [])"
  by (simp add: updateComplaintStatus_def getComplaintById_def find_complaint_def
      update_complaints_def status_updateData_def log_status_change_def insert_status_log_def
      dangling_user_def logger_write_def triggerNotification_def sendWebhook_def defined_or_def
      sample_db_def sample_complaint_def Let_def)

subsection \<open>Writers of the status\<close>

lemma find_complaint_insert_escalation [simp]:
  "find_complaint cid (insert_escalation r db) = find_complaint cid db"
  by (simp add: find_complaint_def insert_escalation_def)

lemma find_complaint_triggerComplaintRouting [simp]:
  "find_complaint cid (triggerComplaintRouting c d db) = find_complaint cid db"
  by (simp add: triggerComplaintRouting_def split: option.splits)

lemma find_complaint_triggerSLAWarning [simp]:
  "find_complaint cid (triggerSLAWarning c db) = find_complaint cid db"
  by (simp add: triggerSLAWarning_def split: option.splits)

lemma find_complaint_triggerSLABreach [simp]:
  "find_complaint cid (triggerSLABreach c l db) = find_complaint cid db"
  by (simp add: triggerSLABreach_def split: option.splits)

lemma find_complaint_gemini_calls [simp]:
  "find_complaint cid (db\<lparr>gemini_calls := n\<rparr>) = find_complaint cid db"
  by (simp add: find_complaint_def)

lemma c_id_updateData [simp]:
  "c_id (review_updateData now rv ok n d u c) = c_id c"
  "c_id (assign_updateData now a c) = c_id c"
  "c_id (webhook_updateData now s c) = c_id c"
  "c_id (breach_updateData c) = c_id c"
  "c_id (classification_updateData now res p c) = c_id c"
  "c_id (failure_updateData c) = c_id c"
  by (simp_all add: review_updateData_def assign_updateData_def webhook_updateData_def
      breach_updateData_def classification_updateData_def failure_updateData_def Let_def)


lemma find_complaint_classifyComplaint [simp]:
  "find_complaint cid (snd (classifyComplaint g db)) = find_complaint cid db"
  by (simp add: classifyComplaint_def Let_def split: GeminiCall.splits sum.splits)

lemma find_complaint_getDepartmentByCode [simp]:
  "find_complaint cid (snd (getDepartmentByCode k db)) = find_complaint cid db"
  by (simp add: getDepartmentByCode_def split: list.splits)

lemma find_complaint_classifyAndProcessComplaint [simp]:
  "find_complaint cid (snd (classifyAndProcessComplaint now cfg c lat lng g db)) = find_complaint cid db"
proof (cases "classifyComplaint g db")
  case (Pair r db1)
  then have "find_complaint cid db1 = find_complaint cid db"
    using find_complaint_classifyComplaint[of cid g db] by simp
  then show ?thesis
    using Pair by (cases r) (simp_all add: classifyAndProcessComplaint_def Let_def)
qed


lemma update_refused_no_references:
  assumes "\<And>c. reviewed_by (f c) = reviewed_by c"
    and "\<And>c. assigned_to (f c) = assigned_to c"
    and "\<And>c. department_id (f c) = department_id c"
  shows "\<not> update_refused cid f db"
  using assms by (simp add: update_refused_def list_ex_iff)










subsection \<open>Failure of the classifier\<close>

lemma parseAIResponse_fails_iff:
  "(\<exists>e. parseAIResponse t = Inl e) \<longleftrightarrow> classifier_failed (Responded t)"
  by (cases t) (auto simp: parseAIResponse_def classifier_failed_def parse_failure_def Let_def
      split: option.splits prod.splits)

lemma classifyComplaint_fails_iff:
  "(\<exists>e. fst (classifyComplaint g db) = Inl e) \<longleftrightarrow> classifier_failed g"
proof (cases g)
  case (Threw m)
  then show ?thesis by (simp add: classifyComplaint_def classifier_failed_def Let_def)
next
  case (Responded t)
  show ?thesis
  proof (cases "t = EmptyText")
    case True
    then show ?thesis using Responded by (simp add: classifyComplaint_def classifier_failed_def Let_def)
  next
    case False
    then show ?thesis
      using Responded parseAIResponse_fails_iff[of t]
      by (auto simp: classifyComplaint_def Let_def split: sum.splits)
  qed
qed

lemma classifyComplaint_failed_effect:
  assumes "classifier_failed g"
  shows "\<exists>e db1. classifyComplaint g db = (Inl e, db1)
     \<and> complaints db1 = complaints db \<and> webhooks_sent db1 = webhooks_sent db
     \<and> complaint_status_logs db1 = complaint_status_logs db
     \<and> escalations db1 = escalations db
     \<and> gemini_calls db1 = gemini_calls db + 1
     \<and> (log_error, ''AI classification failed'') \<in> set (logger db1)"
proof -
  obtain e where e: "fst (classifyComplaint g db) = Inl e"
    using assms classifyComplaint_fails_iff by blast
  show ?thesis
  proof (cases g)
    case (Threw m)
    then show ?thesis by (simp add: classifyComplaint_def Let_def logger_write_def)
  next
    case (Responded t)
    then show ?thesis using e
      by (auto simp: classifyComplaint_def Let_def logger_write_def split: sum.splits if_splits)
  qed
qed

lemma classifyAndProcessComplaint_failed:
  assumes "classifyComplaint g db = (Inl e, db1)"
  shows "classifyAndProcessComplaint now cfg cid lat lng g db = (Inl e, db1)"
  using assms by (simp add: classifyAndProcessComplaint_def)


lemma find_append_fresh:
  "find P xs = None \<Longrightarrow> P x \<Longrightarrow> find P (xs @ [x]) = Some x"
  by (induction xs) (auto split: if_splits)

lemma update_complaints_other_fields [simp]:
  "webhooks_sent (update_complaints cid f db) = webhooks_sent db"
  "logger (update_complaints cid f db) = logger db"
  "gemini_calls (update_complaints cid f db) = gemini_calls db"
  "escalations (update_complaints cid f db) = escalations db"
  "departments (update_complaints cid f db) = departments db"
  by (simp_all add: update_complaints_def)

lemma processComplaintClassification_failed:
  assumes "classifyComplaint g db = (Inl e, db1)"
  shows "processComplaintClassification now cfg cid req t g db
     = update_complaints cid failure_updateData
         (logger_write log_error ''Classification processing failed'' db1)"
  using classifyAndProcessComplaint_failed[OF assms]
  by (simp add: processComplaintClassification_def)

text \<open>
  C7. A submission with a fresh identifier whose classifier request fails (the call throws,
  or the answer is empty, no JSON object, or lacks a required property) returns the submitted
  complaint and no error. Once the background task has run, the complaint is in
  \<open>pending_review\<close> with the note "Classification failed - requires manual review" as its
  AI reasoning, not auto-approved and without deadline; the failure is in the error log;
  the classifier was asked exactly once, and no workflow was triggered.
\<close>

theorem classification_failure_falls_back_to_review:
  assumes fresh: "find_complaint newId db = None"
    and failed: "classifier_failed gemini"
  shows "(\<exists>c. fst (createComplaint now cfg newId userId req gemini db) = Inr c
            \<and> c_id c = newId \<and> status c = submitted)
       \<and> (\<exists>c'. find_complaint newId (snd (createComplaint now cfg newId userId req gemini db)) = Some c'
            \<and> status c' = pending_review
            \<and> ai_reasoning c' = Some ''Classification failed - requires manual review''
            \<and> \<not> is_auto_approved c' \<and> approved_at c' = None \<and> sla_deadline c' = None)
       \<and> (log_error, ''Classification processing failed'')
            \<in> set (logger (snd (createComplaint now cfg newId userId req gemini db)))
       \<and> gemini_calls (snd (createComplaint now cfg newId userId req gemini db)) = gemini_calls db + 1
       \<and> webhooks_sent (snd (createComplaint now cfg newId userId req gemini db)) = webhooks_sent db"
proof -
  define complaint :: Complaint where "complaint =
              \<lparr>c_id = newId, user_id = userId, department_id = None, urgency = normal,
               ai_confidence = None, ai_reasoning = None, ai_classified_at = None,
               ai_model_version = None, is_auto_approved = False, reviewed_by = None,
               review_notes = None, reviewed_at = None, assigned_to = None,
               assigned_at = None, status = submitted, priority_score = Finite 0,
               is_critical_area = False, resolution_notes = None, resolution_type = None,
               sla_deadline = None, sla_breached = False, sla_breach_notified = False,
               created_at = now, approved_at = None, resolved_at = None, closed_at = None\<rparr>"
  define db2 where "db2 = logger_write log_info ''Complaint created'' (db\<lparr>complaints := complaints db @ [complaint]\<rparr>)"
  have r: "createComplaint now cfg newId userId req gemini db
      = (Inr complaint, processComplaintClassification now cfg newId req (created_at complaint) gemini db2)"
    using fresh unfolding createComplaint_def complaint_def db2_def by (simp add: Let_def)
  obtain e db3 where c: "classifyComplaint gemini db2 = (Inl e, db3)"
    and f3: "complaints db3 = complaints db2" "webhooks_sent db3 = webhooks_sent db2"
      "gemini_calls db3 = gemini_calls db2 + 1"
    using classifyComplaint_failed_effect[OF failed, of db2] by blast
  have p: "processComplaintClassification now cfg newId req (created_at complaint) gemini db2
     = update_complaints newId failure_updateData
         (logger_write log_error ''Classification processing failed'' db3)"
    using processComplaintClassification_failed[OF c] .
  have f2: "find_complaint newId db2 = Some complaint"
    using fresh unfolding db2_def find_complaint_def logger_write_def
    by (simp add: find_append_fresh complaint_def)
  have f4: "find_complaint newId (logger_write log_error ''Classification processing failed'' db3) = Some complaint"
    using f2 f3(1) by (simp add: find_complaint_def logger_write_def)
  have f5: "find_complaint newId (snd (createComplaint now cfg newId userId req gemini db))
      = Some (failure_updateData complaint)"
    unfolding r p using f4 by (simp add: find_complaint_update_complaints failure_updateData_def complaint_def)
  show ?thesis
  proof (intro conjI)
    show "\<exists>c. fst (createComplaint now cfg newId userId req gemini db) = Inr c
            \<and> c_id c = newId \<and> status c = submitted"
      unfolding r by (simp add: complaint_def)
    show "\<exists>c'. find_complaint newId (snd (createComplaint now cfg newId userId req gemini db)) = Some c'
            \<and> status c' = pending_review
            \<and> ai_reasoning c' = Some ''Classification failed - requires manual review''
            \<and> \<not> is_auto_approved c' \<and> approved_at c' = None \<and> sla_deadline c' = None"
      unfolding f5 by (simp add: failure_updateData_def classification_failed_note_def complaint_def)
    show "(log_error, ''Classification processing failed'')
            \<in> set (logger (snd (createComplaint now cfg newId userId req gemini db)))"
      unfolding r p by (simp add: logger_write_def)
    show "gemini_calls (snd (createComplaint now cfg newId userId req gemini db)) = gemini_calls db + 1"
      unfolding r p using f3(3) by (simp add: logger_write_def db2_def)
    show "webhooks_sent (snd (createComplaint now cfg newId userId req gemini db)) = webhooks_sent db"
      unfolding r p using f3(2) by (simp add: logger_write_def db2_def)
  qed
qed

theorem classification_failure_falls_back_to_review_witness:
  "find_complaint ''c2'' (snd (createComplaint 1000 default_config ''c2'' ''u1'' sample_request
       (Responded NotJSON) (sample_db [sample_complaint] []))) \<noteq> None
   \<and> map_option status (find_complaint ''c2'' (snd (createComplaint 1000 default_config ''c2'' ''u1'' sample_request
       (Responded NotJSON) (sample_db [sample_complaint] [])))) = Some pending_review
   \<and> gemini_calls (snd (createComplaint 1000 default_config ''c2'' ''u1'' sample_request
       (Responded NotJSON) (sample_db [sample_complaint] []))) = 1"
  using classification_failure_falls_back_to_review[of "''c2''" "sample_db [sample_complaint] []" "Responded NotJSON" 1000 default_config "''u1''" sample_request]
  by (auto simp: sample_db_def sample_complaint_def find_complaint_def classifier_failed_def)

subsection \<open>Auto-approval gate and SLA deadline\<close>

lemma departments_classifyComplaint [simp]:
  "departments (snd (classifyComplaint g db)) = departments db"
  by (simp add: classifyComplaint_def Let_def logger_write_def split: GeminiCall.splits sum.splits)

lemma classifyAndProcessComplaint_result:
  assumes "fst (classifyAndProcessComplaint now cfg cid lat lng g db) = Inr res"
  shows "isAutoApproved res = (confidenceThreshold cfg \<le> r_confidence (classification res))"
    and "slaDeadline res =
           (case filter (\<lambda>d. code d = r_department_code (classification res) \<and> is_active d)
                        (departments db) of
              [dep] \<Rightarrow> Some (setHours now (of_int (getHours now)
                          + of_int (sla_hours dep) * urgencyMultipliers (r_urgency (classification res))))
            | _ \<Rightarrow> None)"
    and "departmentId res =
           (case filter (\<lambda>d. code d = r_department_code (classification res) \<and> is_active d)
                        (departments db) of
              [dep] \<Rightarrow> Some (d_id dep)
            | _ \<Rightarrow> None)"
proof -
  obtain r db1 where c: "classifyComplaint g db = (r, db1)"
    by (cases "classifyComplaint g db")
  have d: "departments db1 = departments db"
    using departments_classifyComplaint[of g db] c by simp
  obtain cl where r: "r = Inr cl"
    using assms c by (cases r) (simp_all add: classifyAndProcessComplaint_def)
  have res: "res = \<lparr>classification = cl,
        departmentId = map_option d_id (fst (getDepartmentByCode (r_department_code cl) db1)),
        isCriticalArea = isCriticalArea res,
        isAutoApproved = (r_confidence cl \<ge> confidenceThreshold cfg),
        slaDeadline = (case fst (getDepartmentByCode (r_department_code cl) db1) of
                   None \<Rightarrow> None
                 | Some dep \<Rightarrow> Some (setHours now (of_int (getHours now) + of_int (sla_hours dep) * urgencyMultipliers (r_urgency cl))))\<rparr>"
    using assms c r by (auto simp: classifyAndProcessComplaint_def Let_def split: option.splits)
  have cl: "classification res = cl"
    and aa: "isAutoApproved res = (r_confidence cl \<ge> confidenceThreshold cfg)"
    and dd: "departmentId res = map_option d_id (fst (getDepartmentByCode (r_department_code cl) db1))"
    and ss: "slaDeadline res = (case fst (getDepartmentByCode (r_department_code cl) db1) of
                   None \<Rightarrow> None
                 | Some dep \<Rightarrow> Some (setHours now (of_int (getHours now) + of_int (sla_hours dep) * urgencyMultipliers (r_urgency cl))))"
    by (subst res, simp)+
  show "isAutoApproved res = (confidenceThreshold cfg \<le> r_confidence (classification res))"
    unfolding cl aa by simp
  show "slaDeadline res =
           (case filter (\<lambda>d. code d = r_department_code (classification res) \<and> is_active d)
                        (departments db) of
              [dep] \<Rightarrow> Some (setHours now (of_int (getHours now)
                          + of_int (sla_hours dep) * urgencyMultipliers (r_urgency (classification res))))
            | _ \<Rightarrow> None)"
    unfolding cl ss using d by (simp add: getDepartmentByCode_def split: list.splits)
  show "departmentId res =
           (case filter (\<lambda>d. code d = r_department_code (classification res) \<and> is_active d)
                        (departments db) of
              [dep] \<Rightarrow> Some (d_id dep)
            | _ \<Rightarrow> None)"
    unfolding cl dd using d by (simp add: getDepartmentByCode_def split: list.splits)
qed

lemma classification_updateData_fields:
  "status (classification_updateData now res p c) = (if isAutoApproved res then approved else pending_review)"
  "is_auto_approved (classification_updateData now res p c) = isAutoApproved res"
  "approved_at (classification_updateData now res p c) = (if isAutoApproved res then Some now else None)"
  "priority_score (classification_updateData now res p c) = p"
  "sla_deadline (classification_updateData now res p c) = defined_or (slaDeadline res) (sla_deadline c)"
  by (simp_all add: classification_updateData_def)

lemma processComplaintClassification_success:
  assumes found: "find_complaint cid db = Some c"
    and cls: "fst (classifyAndProcessComplaint now cfg cid (location_lat req) (location_lng req) g db) = Inr res"
  shows "find_complaint cid (processComplaintClassification now cfg cid req createdAt g db)
      = Some (classification_updateData now res
                (calculatePriorityScore now (r_urgency (classification res)) createdAt
                   (isCriticalArea res) DEFAULT_WEIGHTS) c)"
proof -
  obtain db1 where p: "classifyAndProcessComplaint now cfg cid (location_lat req) (location_lng req) g db = (Inr res, db1)"
    using cls by (cases "classifyAndProcessComplaint now cfg cid (location_lat req) (location_lng req) g db") simp
  have f: "find_complaint cid db1 = Some c"
    using find_complaint_classifyAndProcessComplaint[of cid now cfg cid "location_lat req" "location_lng req" g db] p found
    by simp
  have cid: "c_id c = cid" using found by (rule find_complaint_c_id)
  show ?thesis
    using p f cid
    by (simp add: processComplaintClassification_def Let_def find_complaint_update_complaints
        split: option.splits)
qed

text \<open>
  C3 (as amended). When the classifier returns a result, the background task stores the
  priority score computed from it and, if the department code of the result matches one
  active department, the SLA deadline; without such a department the deadline is left as it
  was. With a confidence at or above the threshold the complaint becomes \<open>approved\<close>,
  auto-approved, with the approval time set; with a confidence below it the complaint
  becomes \<open>pending_review\<close>, not auto-approved, with no approval time.
\<close>

theorem auto_approval_gate:
  assumes found: "find_complaint cid db = Some c"
    and cls: "fst (classifyAndProcessComplaint now cfg cid (location_lat req) (location_lng req) g db) = Inr res"
  shows "\<exists>c'. find_complaint cid (processComplaintClassification now cfg cid req createdAt g db) = Some c'
      \<and> priority_score c' = calculatePriorityScore now (r_urgency (classification res)) createdAt
                               (isCriticalArea res) DEFAULT_WEIGHTS
      \<and> sla_deadline c' = defined_or (slaDeadline res) (sla_deadline c)
      \<and> (slaDeadline res = None \<longleftrightarrow> departmentId res = None)
      \<and> (confidenceThreshold cfg \<le> r_confidence (classification res) \<longrightarrow>
            status c' = approved \<and> is_auto_approved c' \<and> approved_at c' = Some now)
      \<and> (r_confidence (classification res) < confidenceThreshold cfg \<longrightarrow>
            status c' = pending_review \<and> \<not> is_auto_approved c' \<and> approved_at c' = None)"
proof -
  note f = processComplaintClassification_success[OF found cls, of createdAt]
  note r = classifyAndProcessComplaint_result[OF cls]
  have n: "slaDeadline res = None \<longleftrightarrow> departmentId res = None"
    unfolding r(2) r(3) by (simp split: list.splits)
  show ?thesis
    unfolding f using n r(1) by (simp add: classification_updateData_fields)
qed

theorem auto_approval_gate_witness:
  "map_option status (find_complaint ''c1''
      (processComplaintClassification 1000 default_config ''c1'' sample_request 0
         (sample_reply ''water'' (80 / 100)) (sample_db [sample_complaint] []))) = Some approved
   \<and> map_option sla_deadline (find_complaint ''c1''
      (processComplaintClassification 1000 default_config ''c1'' sample_request 0
         (sample_reply ''water'' (80 / 100)) (sample_db [sample_complaint] []))) = Some (Some 64801000)
   \<and> map_option status (find_complaint ''c1''
      (processComplaintClassification 1000 default_config ''c1'' sample_request 0
         (sample_reply ''water'' (60 / 100)) (sample_db [sample_complaint] []))) = Some pending_review"
proof -
  have a: "fst (classifyAndProcessComplaint 1000 default_config ''c1'' (location_lat sample_request)
       (location_lng sample_request) (sample_reply ''water'' (80 / 100)) (sample_db [sample_complaint] []))
   = Inr \<lparr>classification = \<lparr>r_department = ''WATER'', r_department_code = ''WATER'', r_urgency = critical,
          r_confidence = 80 / 100, r_reasoning = ''burst pipe''\<rparr>,
          departmentId = Some ''d1'', isCriticalArea = False, isAutoApproved = True,
          slaDeadline = Some 64801000\<rparr>"
    by (simp add: classifyAndProcessComplaint_def classifyComplaint_def sample_reply_def sample_db_def
      sample_request_def
      parseAIResponse_def toUpperCase_def toLowerCase_def lower_upper_def parse_urgency_def or_else_def
      Math_round_def Let_def logger_write_def getDepartmentByCode_def default_config_def
      setHours_def getHours_def ToIntegerOrInfinity_def msPerHour_def msPerDay_def)
  have b: "fst (classifyAndProcessComplaint 1000 default_config ''c1'' (location_lat sample_request)
       (location_lng sample_request) (sample_reply ''water'' (60 / 100)) (sample_db [sample_complaint] []))
   = Inr \<lparr>classification = \<lparr>r_department = ''WATER'', r_department_code = ''WATER'', r_urgency = critical,
          r_confidence = 60 / 100, r_reasoning = ''burst pipe''\<rparr>,
          departmentId = Some ''d1'', isCriticalArea = False, isAutoApproved = False,
          slaDeadline = Some 64801000\<rparr>"
    by (simp add: classifyAndProcessComplaint_def classifyComplaint_def sample_reply_def sample_db_def
      sample_request_def
      parseAIResponse_def toUpperCase_def toLowerCase_def lower_upper_def parse_urgency_def or_else_def
      Math_round_def Let_def logger_write_def getDepartmentByCode_def default_config_def
      setHours_def getHours_def ToIntegerOrInfinity_def msPerHour_def msPerDay_def)
  have f: "find_complaint ''c1'' (sample_db [sample_complaint] []) = Some sample_complaint"
    by (simp add: find_complaint_def sample_db_def sample_complaint_def)
  show ?thesis
    using auto_approval_gate[OF f a, of 0] auto_approval_gate[OF f b, of 0]
    by (auto simp: default_config_def defined_or_def)
qed

text \<open>
  C3 as stated fails on the deadline: a result with confidence 0.80 whose department code
  matches no active department is approved, and the complaint has no SLA deadline.
\<close>

theorem auto_approval_without_deadline_counterexample:
  "map_option status (find_complaint ''c1''
      (processComplaintClassification 1000 default_config ''c1'' sample_request 0
         (sample_reply ''other'' (80 / 100)) (sample_db [sample_complaint] []))) = Some approved
   \<and> map_option sla_deadline (find_complaint ''c1''
      (processComplaintClassification 1000 default_config ''c1'' sample_request 0
         (sample_reply ''other'' (80 / 100)) (sample_db [sample_complaint] []))) = Some None"
  by (simp add: processComplaintClassification_def classification_updateData_def update_complaints_def
      find_complaint_def defined_or_def triggerComplaintRouting_def
      classifyAndProcessComplaint_def classifyComplaint_def sample_reply_def sample_db_def
      sample_request_def sample_complaint_def
      parseAIResponse_def toUpperCase_def toLowerCase_def lower_upper_def parse_urgency_def or_else_def
      Math_round_def Let_def logger_write_def getDepartmentByCode_def default_config_def)


text \<open>
  C8 (as amended). \<^verbatim>\<open>calculateSLADeadline\<close> returns the creation time plus base hours times
  the urgency multiplier (critical 0.25, high 0.5, normal 1.0) whenever that product is a
  whole number of hours; 72 base hours at critical urgency give 18 hours. The base hours are
  an argument. The classification pipeline applies the same computation to the hours of the
  department it found, counted from the time of classification, and computes no deadline
  when there is no such department.
\<close>

theorem sla_deadline_calculation:
  "(baseSLAHours * urgencyMultipliers u = of_int k \<longrightarrow>
      calculateSLADeadline baseSLAHours u createdAt = createdAt + k * msPerHour)
   \<and> calculateSLADeadline 72 critical createdAt = createdAt + 18 * msPerHour
   \<and> (fst (classifyAndProcessComplaint now cfg cid lat lng g db) = Inr res \<longrightarrow>
        slaDeadline res =
          (case filter (\<lambda>d. code d = r_department_code (classification res) \<and> is_active d)
                       (departments db) of
             [dep] \<Rightarrow> Some (calculateSLADeadline (of_int (sla_hours dep))
                               (r_urgency (classification res)) now)
           | _ \<Rightarrow> None))"
proof (intro conjI impI)
  assume "baseSLAHours * urgencyMultipliers u = of_int k"
  then show "calculateSLADeadline baseSLAHours u createdAt = createdAt + k * msPerHour"
    by (rule calculateSLADeadline_whole_hours)
next
  show "calculateSLADeadline 72 critical createdAt = createdAt + 18 * msPerHour"
    using calculateSLADeadline_whole_hours[of 72 critical 18 createdAt] by simp
next
  assume "fst (classifyAndProcessComplaint now cfg cid lat lng g db) = Inr res"
  then show "slaDeadline res =
          (case filter (\<lambda>d. code d = r_department_code (classification res) \<and> is_active d)
                       (departments db) of
             [dep] \<Rightarrow> Some (calculateSLADeadline (of_int (sla_hours dep))
                               (r_urgency (classification res)) now)
           | _ \<Rightarrow> None)"
    using classifyAndProcessComplaint_result(2)[of now cfg cid lat lng g db res]
    by (simp add: calculateSLADeadline_def Let_def split: list.splits)
qed

theorem sla_deadline_calculation_witness:
  "calculateSLADeadline 24 high 5000 = 5000 + 12 * msPerHour
   \<and> (case fst (classifyAndProcessComplaint 1000 default_config ''c1'' None None
                  (sample_reply ''water'' (80 / 100)) (sample_db [sample_complaint] [])) of
         Inl e \<Rightarrow> None
       | Inr res \<Rightarrow> slaDeadline res) = Some (1000 + 18 * msPerHour)"
proof -
  have a: "fst (classifyAndProcessComplaint 1000 default_config ''c1'' None None
                  (sample_reply ''water'' (80 / 100)) (sample_db [sample_complaint] []))
   = Inr \<lparr>classification = \<lparr>r_department = ''WATER'', r_department_code = ''WATER'', r_urgency = critical,
          r_confidence = 80 / 100, r_reasoning = ''burst pipe''\<rparr>,
          departmentId = Some ''d1'', isCriticalArea = False, isAutoApproved = True,
          slaDeadline = Some 64801000\<rparr>"
    by (simp add: classifyAndProcessComplaint_def classifyComplaint_def sample_reply_def sample_db_def
      parseAIResponse_def toUpperCase_def toLowerCase_def lower_upper_def parse_urgency_def or_else_def
      Math_round_def Let_def logger_write_def getDepartmentByCode_def default_config_def
      setHours_def getHours_def ToIntegerOrInfinity_def msPerHour_def msPerDay_def)
  show ?thesis
    using sla_deadline_calculation[of 24 high 12 5000 1000 default_config "''c1''" None None
               "sample_reply ''water'' (80 / 100)" "sample_db [sample_complaint] []"
               "\<lparr>classification = \<lparr>r_department = ''WATER'', r_department_code = ''WATER'', r_urgency = critical,
          r_confidence = 80 / 100, r_reasoning = ''burst pipe''\<rparr>,
          departmentId = Some ''d1'', isCriticalArea = False, isAutoApproved = True,
          slaDeadline = Some 64801000\<rparr>"] a
    by (simp add: msPerHour_def)
qed

text \<open>
  C8 as stated fails twice. \<^verbatim>\<open>setHours\<close> drops the fraction of an hour: 10 base hours at
  critical urgency give 2 hours, not 2.5. And the application has no default of 72 hours: for
  a department code that matches no active department the pipeline computes no deadline.
\<close>

theorem sla_deadline_counterexample:
  "calculateSLADeadline 10 critical 0 = 2 * msPerHour
   \<and> (case fst (classifyAndProcessComplaint 1000 default_config ''c1'' None None
                  (sample_reply ''other'' (80 / 100)) (sample_db [sample_complaint] [])) of
         Inl e \<Rightarrow> Some 0
       | Inr res \<Rightarrow> slaDeadline res) = None"
  by (simp add: calculateSLADeadline_def
      classifyAndProcessComplaint_def classifyComplaint_def sample_reply_def sample_db_def
      parseAIResponse_def toUpperCase_def toLowerCase_def lower_upper_def parse_urgency_def or_else_def
      Math_round_def Let_def logger_write_def getDepartmentByCode_def default_config_def
      setHours_def getHours_def ToIntegerOrInfinity_def msPerHour_def msPerDay_def)

subsection \<open>Escalation ladder\<close>

lemma escalations_helpers [simp]:
  "escalations (logger_write l m db) = escalations db"
  "escalations (sendWebhook e db) = escalations db"
  "escalations (triggerNotification u c t db) = escalations db"
  "escalations (triggerSLAWarning c db) = escalations db"
  "escalations (triggerSLABreach c lv db) = escalations db"
  by (simp_all add: logger_write_def sendWebhook_def triggerNotification_def triggerSLAWarning_def
      triggerSLABreach_def split: option.splits)

lemma complaints_helpers [simp]:
  "complaints (logger_write l m db) = complaints db"
  "complaints (sendWebhook e db) = complaints db"
  "complaints (triggerNotification u c t db) = complaints db"
  "complaints (triggerSLAWarning c db) = complaints db"
  "complaints (triggerSLABreach c lv db) = complaints db"
  "complaints (insert_escalation r db) = complaints db"
  by (simp_all add: logger_write_def sendWebhook_def triggerNotification_def triggerSLAWarning_def
      triggerSLABreach_def insert_escalation_def split: option.splits)

lemma escalations_escalateComplaint:
  "escalations (escalateComplaint now cid prev new db) =
     (if find_complaint cid db = None then escalations db
      else escalations db @
        [\<lparr>esc_complaint_id = cid, escalation_level = new, previous_level = Some prev,
          reason = ''Automatic escalation due to continued SLA breach (''
                   @ level_name prev @ '' -> '' @ level_name new @ '')'',
          is_system_escalation = True, esc_created_at = now\<rparr>])"
  by (simp add: escalateComplaint_def insert_escalation_def Let_def)

lemma complaints_escalateComplaint [simp]:
  "complaints (escalateComplaint now cid prev new db) = complaints db"
  by (simp add: escalateComplaint_def Let_def)

lemma hours_since_lt_12:
  "(real_of_int a - real_of_int b < 43200000) \<longleftrightarrow> a - b < 12 * msPerHour"
proof -
  have "(real_of_int (a - b) < real_of_int 43200000) \<longleftrightarrow> a - b < 43200000"
    by (rule of_int_less_iff)
  then show ?thesis
    unfolding msPerHour_def by simp
qed

lemma checkEscalation_cases:
  assumes latest: "latestEscalation cid (escalations db) = Some latest"
  shows "checkEscalation now cid h db =
     (case escalation_level latest of
        executive \<Rightarrow> (False, db)
      | lv \<Rightarrow>
          if h < (case lv of level_1 \<Rightarrow> 24 | level_2 \<Rightarrow> 48 | _ \<Rightarrow> 72)
             \<or> now - esc_created_at latest < 12 * msPerHour then (False, db)
          else (True, escalateComplaint now cid lv
                        (case lv of level_1 \<Rightarrow> level_2 | level_2 \<Rightarrow> level_3 | _ \<Rightarrow> executive) db))"
  using latest
  by (cases "escalation_level latest")
     (simp_all add: checkEscalation_def ESCALATION_ORDER_def Let_def hours_since_lt_12)

text \<open>
  C4 (as amended). For a stored complaint whose most recent escalation row is at
  \<open>level_1\<close>, \<open>level_2\<close> or \<open>level_3\<close>, \<^verbatim>\<open>checkEscalation\<close> advances it if and only if
  the hours overdue are at least 24, 48 or 72 and at least 12 hours have passed since that
  row; at \<open>executive\<close> it never advances. An advance appends one row for the next level,
  stamped with the time of the check; otherwise the database is unchanged. A complaint
  escalated to \<open>level_1\<close> nine hours ago and 30 hours overdue does not advance; 13 hours
  later it does.
\<close>

theorem checkEscalation_advance:
  assumes latest: "latestEscalation cid (escalations db) = Some latest"
    and stored: "find_complaint cid db \<noteq> None"
  shows "(escalation_level latest = level_1 \<longrightarrow>
            (fst (checkEscalation now cid hoursOverdue db)
               \<longleftrightarrow> 24 \<le> hoursOverdue \<and> 12 * msPerHour \<le> now - esc_created_at latest))
       \<and> (escalation_level latest = level_2 \<longrightarrow>
            (fst (checkEscalation now cid hoursOverdue db)
               \<longleftrightarrow> 48 \<le> hoursOverdue \<and> 12 * msPerHour \<le> now - esc_created_at latest))
       \<and> (escalation_level latest = level_3 \<longrightarrow>
            (fst (checkEscalation now cid hoursOverdue db)
               \<longleftrightarrow> 72 \<le> hoursOverdue \<and> 12 * msPerHour \<le> now - esc_created_at latest))
       \<and> (escalation_level latest = executive \<longrightarrow> \<not> fst (checkEscalation now cid hoursOverdue db))
       \<and> (fst (checkEscalation now cid hoursOverdue db) \<longrightarrow>
            (\<exists>row. escalations (snd (checkEscalation now cid hoursOverdue db)) = escalations db @ [row]
               \<and> esc_complaint_id row = cid
               \<and> previous_level row = Some (escalation_level latest)
               \<and> escalation_level row =
                   (case escalation_level latest of level_1 \<Rightarrow> level_2 | level_2 \<Rightarrow> level_3
                    | _ \<Rightarrow> executive)
               \<and> is_system_escalation row \<and> esc_created_at row = now))
       \<and> (\<not> fst (checkEscalation now cid hoursOverdue db) \<longrightarrow>
            snd (checkEscalation now cid hoursOverdue db) = db)"
  using stored unfolding checkEscalation_cases[OF latest]
  by (cases "escalation_level latest") (auto simp: escalations_escalateComplaint)

theorem checkEscalation_advance_witness:
  "\<not> fst (checkEscalation (9 * msPerHour) ''c1'' 30
          (sample_db [sample_complaint] [sample_escalation level_1 0]))
   \<and> fst (checkEscalation (22 * msPerHour) ''c1'' 43
          (sample_db [sample_complaint] [sample_escalation level_1 0]))"
  using checkEscalation_advance[of "''c1''" "sample_db [sample_complaint] [sample_escalation level_1 0]" "sample_escalation level_1 0" "9 * msPerHour" 30]
        checkEscalation_advance[of "''c1''" "sample_db [sample_complaint] [sample_escalation level_1 0]" "sample_escalation level_1 0" "22 * msPerHour" 43]
  by (simp add: sample_db_def sample_complaint_def sample_escalation_def find_complaint_def msPerHour_def)

text \<open>
  C4 as stated fails at the threshold itself: a complaint at \<open>level_1\<close> for 12 hours that
  is exactly 24 hours overdue advances, although 24 does not exceed 24.
\<close>

theorem checkEscalation_threshold_counterexample:
  "\<not> (24 < (24 :: real))
   \<and> fst (checkEscalation (12 * msPerHour) ''c1'' 24
          (sample_db [sample_complaint] [sample_escalation level_1 0]))"
  by (simp add: checkEscalation_def ESCALATION_ORDER_def sample_db_def sample_escalation_def msPerHour_def Let_def)

subsection \<open>Sweep: what one item touches\<close>

lemma latestEscalation_filter:
  "latestEscalation cid (filter (\<lambda>e. esc_complaint_id e = cid) es) = latestEscalation cid es"
  by (induction es) simp_all

lemma latestEscalation_rows:
  "latestEscalation cid (escalations db) = latestEscalation cid (escalation_rows cid db)"
  by (simp add: escalation_rows_def latestEscalation_filter)

lemma latestEscalation_None_iff:
  "latestEscalation cid es = None \<longleftrightarrow> (\<forall>e \<in> set es. esc_complaint_id e \<noteq> cid)"
  by (induction es) (auto split: option.splits)

lemma latestEscalation_mem:
  "latestEscalation cid es = Some e \<Longrightarrow> e \<in> set es \<and> esc_complaint_id e = cid"
  by (induction es arbitrary: e) (auto split: option.splits if_splits)

lemma latestEscalation_append_newest:
  assumes "\<forall>e \<in> set es. esc_created_at e \<le> esc_created_at x" and "esc_complaint_id x = cid"
  shows "latestEscalation cid (es @ [x]) = Some x"
  using assms
proof (induction es)
  case Nil
  then show ?case by simp
next
  case (Cons a es)
  then have ih: "latestEscalation cid (es @ [x]) = Some x" by simp
  show ?case using Cons.prems ih by simp
qed

lemma latestEscalation_append_other:
  "esc_complaint_id x \<noteq> cid \<Longrightarrow> latestEscalation cid (es @ [x]) = latestEscalation cid es"
  by (induction es) simp_all

lemma rows_helpers [simp]:
  "escalation_rows i (logger_write l m db) = escalation_rows i db"
  "escalation_rows i (sendWebhook e db) = escalation_rows i db"
  "escalation_rows i (triggerNotification u c t db) = escalation_rows i db"
  "escalation_rows i (triggerSLAWarning c db) = escalation_rows i db"
  "escalation_rows i (triggerSLABreach c lv db) = escalation_rows i db"
  "escalation_rows i (update_complaints c f db) = escalation_rows i db"
  by (simp_all add: escalation_rows_def update_complaints_def)

lemma rows_insert_escalation:
  "escalation_rows i (insert_escalation r db) =
     escalation_rows i db @ (if find_complaint (esc_complaint_id r) db \<noteq> None \<and> esc_complaint_id r = i then [r] else [])"
  by (auto simp: escalation_rows_def insert_escalation_def)

lemma rows_handleSLAWarning [simp]:
  "escalation_rows i (handleSLAWarning c db) = escalation_rows i db"
  by (simp add: handleSLAWarning_def Let_def)

lemma find_complaint_update_other:
  assumes "\<And>x. c_id (f x) = c_id x" and "c \<noteq> i"
  shows "find_complaint i (update_complaints c f db) = find_complaint i db"
proof (cases "find_complaint i db")
  case None
  then show ?thesis using assms(1) by (simp add: find_complaint_update_complaints)
next
  case (Some x)
  then have "c_id x = i" by (rule find_complaint_c_id)
  then show ?thesis using Some assms by (simp add: find_complaint_update_complaints)
qed

lemma rows_handleSLABreach:
  "escalation_rows i (handleSLABreach now c db) =
     escalation_rows i db @ (if find_complaint c db \<noteq> None \<and> c = i then [\<lparr>esc_complaint_id = c, escalation_level = level_1, previous_level = None,
           reason = ''SLA deadline exceeded'', is_system_escalation = True,
           esc_created_at = now\<rparr>] else [])"
  by (auto simp: handleSLABreach_def Let_def rows_insert_escalation find_complaint_update_complaints)

lemma find_handleSLABreach:
  "find_complaint i (handleSLABreach now c db) =
     map_option (\<lambda>x. if c_id x = c then breach_updateData x else x) (find_complaint i db)"
  by (simp add: handleSLABreach_def Let_def find_complaint_update_complaints)

lemma find_handleSLAWarning:
  "find_complaint i (handleSLAWarning c db) =
     map_option (\<lambda>x. if c_id x = c then x\<lparr>sla_breach_notified := True\<rparr> else x) (find_complaint i db)"
  by (simp add: handleSLAWarning_def Let_def find_complaint_update_complaints)

lemma find_escalateComplaint [simp]:
  "find_complaint i (escalateComplaint now c p n db) = find_complaint i db"
  by (simp add: escalateComplaint_def Let_def)

lemma find_checkEscalation [simp]:
  "find_complaint i (snd (checkEscalation now c h db)) = find_complaint i db"
  by (simp add: checkEscalation_def Let_def split: option.splits)

lemma rows_escalateComplaint:
  "escalation_rows i (escalateComplaint now c p n db) =
     escalation_rows i db @
       (if find_complaint c db \<noteq> None \<and> c = i then
         [\<lparr>esc_complaint_id = c, escalation_level = n, previous_level = Some p,
          reason = ''Automatic escalation due to continued SLA breach (''
                   @ level_name p @ '' -> '' @ level_name n @ '')'',
          is_system_escalation = True, esc_created_at = now\<rparr>] else [])"
  by (auto simp: escalateComplaint_def Let_def rows_insert_escalation)

lemma rows_checkEscalation_other:
  "c \<noteq> i \<Longrightarrow> escalation_rows i (snd (checkEscalation now c h db)) = escalation_rows i db"
  by (simp add: checkEscalation_def Let_def rows_escalateComplaint split: option.splits)


lemma checkEscalation_no_rows:
  "latestEscalation i (escalations db) = None \<Longrightarrow> checkEscalation now i h db = (False, db)"
  by (simp add: checkEscalation_def)

lemma next_level_rank:
  "lv \<noteq> executive \<Longrightarrow>
   level_rank (Some (case lv of level_1 \<Rightarrow> level_2 | level_2 \<Rightarrow> level_3 | _ \<Rightarrow> executive))
     = level_rank (Some lv) + 1"
  by (cases lv) (simp_all add: level_rank_def ESCALATION_ORDER_def)

lemma checkEscalation_view:
  "checkEscalation now i h db = (False, db)
   \<or> (\<exists>l e. latestEscalation i (escalations db) = Some l
         \<and> fst (checkEscalation now i h db)
         \<and> escalation_rows i (snd (checkEscalation now i h db))
              = escalation_rows i db @ (if find_complaint i db \<noteq> None then [e] else [])
         \<and> esc_complaint_id e = i \<and> esc_created_at e = now
         \<and> level_rank (Some (escalation_level e)) = level_rank (Some (escalation_level l)) + 1)"
proof (cases "latestEscalation i (escalations db)")
  case None
  then show ?thesis by (simp add: checkEscalation_no_rows)
next
  case (Some l)
  show ?thesis
  proof (cases "fst (checkEscalation now i h db)")
    case False
    then have "checkEscalation now i h db = (False, db)"
      unfolding checkEscalation_cases[OF Some]
      by (cases "escalation_level l") (auto split: if_splits)
    then show ?thesis by simp
  next
    case True
    then have ne: "escalation_level l \<noteq> executive"
      unfolding checkEscalation_cases[OF Some] by (cases "escalation_level l") auto
    have s: "snd (checkEscalation now i h db) = escalateComplaint now i (escalation_level l)
        (case escalation_level l of level_1 \<Rightarrow> level_2 | level_2 \<Rightarrow> level_3 | _ \<Rightarrow> executive) db"
      using True unfolding checkEscalation_cases[OF Some]
      by (cases "escalation_level l") (auto split: if_splits)
    let ?n = "case escalation_level l of level_1 \<Rightarrow> level_2 | level_2 \<Rightarrow> level_3
              | _ \<Rightarrow> executive"
    let ?e = "\<lparr>esc_complaint_id = i, escalation_level = ?n,
          previous_level = Some (escalation_level l),
          reason = ''Automatic escalation due to continued SLA breach (''
                   @ level_name (escalation_level l) @ '' -> '' @ level_name ?n @ '')'',
          is_system_escalation = True, esc_created_at = now\<rparr>"
    have "latestEscalation i (escalations db) = Some l
         \<and> fst (checkEscalation now i h db)
         \<and> escalation_rows i (snd (checkEscalation now i h db))
              = escalation_rows i db @ (if find_complaint i db \<noteq> None then [?e] else [])
         \<and> esc_complaint_id ?e = i \<and> esc_created_at ?e = now
         \<and> level_rank (Some (escalation_level ?e)) = level_rank (Some (escalation_level l)) + 1"
      using Some True next_level_rank[OF ne] by (simp add: s rows_escalateComplaint)
    then show ?thesis
      by blast
  qed
qed

lemma checkEscalation_cong:
  assumes r: "escalation_rows i db = escalation_rows i db'"
    and f: "find_complaint i db = None \<longleftrightarrow> find_complaint i db' = None"
  shows "fst (checkEscalation now i h db) = fst (checkEscalation now i h db')"
    and "escalation_rows i (snd (checkEscalation now i h db))
         = escalation_rows i (snd (checkEscalation now i h db'))"
proof -
  have l: "latestEscalation i (escalations db) = latestEscalation i (escalations db')"
    using r by (simp add: latestEscalation_rows)
  show "fst (checkEscalation now i h db) = fst (checkEscalation now i h db')"
  proof (cases "latestEscalation i (escalations db)")
    case None
    then show ?thesis using l by (simp add: checkEscalation_no_rows)
  next
    case (Some a)
    then have "latestEscalation i (escalations db') = Some a" using l by simp
    then show ?thesis
      unfolding checkEscalation_cases[OF Some] checkEscalation_cases[OF \<open>latestEscalation i (escalations db') = Some a\<close>]
      by (cases "escalation_level a") auto
  qed
  show "escalation_rows i (snd (checkEscalation now i h db))
         = escalation_rows i (snd (checkEscalation now i h db'))"
  proof (cases "latestEscalation i (escalations db)")
    case None
    then show ?thesis using l r by (simp add: checkEscalation_no_rows)
  next
    case (Some a)
    then have "latestEscalation i (escalations db') = Some a" using l by simp
    then show ?thesis
      unfolding checkEscalation_cases[OF Some] checkEscalation_cases[OF \<open>latestEscalation i (escalations db') = Some a\<close>]
      using r f by (cases "escalation_level a") (auto simp: rows_escalateComplaint)
  qed
qed


lemma sla_check_item_db:
  "snd (sla_check_item now wt c st) =
     (let d = (case sla_deadline c of None \<Rightarrow> 0 | Some x \<Rightarrow> x) - now;
          db1 = (if d < 0 \<and> \<not> sla_breached c then handleSLABreach now (c_id c) (snd st)
                 else if d > 0 \<and> of_int d < wt \<and> \<not> sla_breach_notified c
                   then handleSLAWarning (c_id c) (snd st)
                 else snd st)
      in if sla_breached c \<and> status c \<noteq> escalated
         then snd (checkEscalation now (c_id c) (\<bar>of_int d\<bar> / (1000 * 60 * 60)) db1)
         else db1)"
  by (simp add: sla_check_item_def Let_def)

lemma ids_update_complaints:
  "(\<And>x. c_id (f x) = c_id x) \<Longrightarrow>
   map c_id (complaints (update_complaints c f db)) = map c_id (complaints db)"
  by (simp add: update_complaints_def o_def)

lemma complaints_checkEscalation [simp]:
  "complaints (snd (checkEscalation now c h db)) = complaints db"
  by (simp add: checkEscalation_def Let_def split: option.splits)

lemma ids_handlers [simp]:
  "map c_id (complaints (handleSLABreach now c db)) = map c_id (complaints db)"
  "map c_id (complaints (handleSLAWarning c db)) = map c_id (complaints db)"
  by (simp_all add: handleSLABreach_def handleSLAWarning_def Let_def ids_update_complaints)

lemma sla_check_item_ids:
  "map c_id (complaints (snd (sla_check_item now wt c st))) = map c_id (complaints (snd st))"
  by (simp add: sla_check_item_db Let_def)

lemma find_handlers_other:
  "c \<noteq> i \<Longrightarrow> find_complaint i (handleSLABreach now c db) = find_complaint i db"
  "c \<noteq> i \<Longrightarrow> find_complaint i (handleSLAWarning c db) = find_complaint i db"
  by (simp_all add: handleSLABreach_def handleSLAWarning_def Let_def find_complaint_update_other)

lemma sla_check_item_other:
  assumes "c_id c \<noteq> i"
  shows "escalation_rows i (snd (sla_check_item now wt c st)) = escalation_rows i (snd st)"
    and "find_complaint i (snd (sla_check_item now wt c st)) = find_complaint i (snd st)"
  using assms
  by (simp_all add: sla_check_item_db Let_def rows_handleSLABreach rows_checkEscalation_other
      find_handlers_other)

lemma sla_check_item_cong:
  assumes r: "escalation_rows (c_id c) (snd st) = escalation_rows (c_id c) (snd st')"
    and f: "find_complaint (c_id c) (snd st) = find_complaint (c_id c) (snd st')"
  shows "escalation_rows (c_id c) (snd (sla_check_item now wt c st))
         = escalation_rows (c_id c) (snd (sla_check_item now wt c st'))"
    and "find_complaint (c_id c) (snd (sla_check_item now wt c st))
         = find_complaint (c_id c) (snd (sla_check_item now wt c st'))"
proof -
  define i where "i = c_id c"
  define d where "d = (case sla_deadline c of None \<Rightarrow> 0 | Some x \<Rightarrow> x) - now"
  define h :: real where "h = \<bar>of_int d\<bar> / (1000 * 60 * 60)"
  define B where "B \<longleftrightarrow> sla_breached c \<and> status c \<noteq> escalated"
  define db1 where "db1 = (\<lambda>s :: SweepCounts \<times> Database.
                 if d < 0 \<and> \<not> sla_breached c then handleSLABreach now i (snd s)
                 else if d > 0 \<and> of_int d < wt \<and> \<not> sla_breach_notified c
                   then handleSLAWarning i (snd s)
                 else snd s)"
  have e: "snd (sla_check_item now wt c s) =
      (if B then snd (checkEscalation now i h (db1 s)) else db1 s)" for s
    unfolding B_def db1_def h_def d_def i_def by (simp add: sla_check_item_db Let_def)
  have r1: "escalation_rows i (db1 st) = escalation_rows i (db1 st')"
    using r f unfolding db1_def i_def by (simp add: rows_handleSLABreach)
  have f1: "find_complaint i (db1 st) = find_complaint i (db1 st')"
    using f unfolding db1_def i_def by (simp add: find_handleSLABreach find_handleSLAWarning)
  have f1': "find_complaint i (db1 st) = None \<longleftrightarrow> find_complaint i (db1 st') = None"
    using f1 by simp
  show "escalation_rows (c_id c) (snd (sla_check_item now wt c st))
         = escalation_rows (c_id c) (snd (sla_check_item now wt c st'))"
    unfolding i_def[symmetric] e
    using r1 checkEscalation_cong(2)[OF r1 f1'] by (cases B) simp_all
  show "find_complaint (c_id c) (snd (sla_check_item now wt c st))
         = find_complaint (c_id c) (snd (sla_check_item now wt c st'))"
    unfolding i_def[symmetric] e
    using f1 by (cases B) simp_all
qed


lemma sweep_ids:
  "map c_id (complaints (snd (fold (sla_check_item now wt) cs st))) = map c_id (complaints (snd st))"
  by (induction cs arbitrary: st) (simp_all add: sla_check_item_ids)

lemma sweep_other:
  assumes "\<forall>c \<in> set cs. c_id c \<noteq> i"
  shows "escalation_rows i (snd (fold (sla_check_item now wt) cs st)) = escalation_rows i (snd st)
       \<and> find_complaint i (snd (fold (sla_check_item now wt) cs st)) = find_complaint i (snd st)"
  using assms
proof (induction cs arbitrary: st)
  case Nil
  then show ?case by simp
next
  case (Cons a cs)
  then have "c_id a \<noteq> i" by simp
  then show ?case
    using Cons by (simp add: sla_check_item_other)
qed

lemma sweep_own:
  assumes "distinct (map c_id cs)" and "c \<in> set cs"
  shows "escalation_rows (c_id c) (snd (fold (sla_check_item now wt) cs st))
           = escalation_rows (c_id c) (snd (sla_check_item now wt c st))
       \<and> find_complaint (c_id c) (snd (fold (sla_check_item now wt) cs st))
           = find_complaint (c_id c) (snd (sla_check_item now wt c st))"
  using assms
proof (induction cs arbitrary: st)
  case Nil
  then show ?case by simp
next
  case (Cons a cs)
  show ?case
  proof (cases "a = c")
    case True
    have "\<forall>x \<in> set cs. c_id x \<noteq> c_id c"
      using Cons.prems(1) True by (auto simp: image_iff)
    then show ?thesis
      using sweep_other[of cs "c_id c" now wt "sla_check_item now wt c st"] True by simp
  next
    case False
    then have mem: "c \<in> set cs" using Cons.prems(2) by simp
    have ne: "c_id a \<noteq> c_id c"
      using Cons.prems(1) mem by (auto simp: image_iff)
    have d: "distinct (map c_id cs)" using Cons.prems(1) by simp
    have ih: "escalation_rows (c_id c) (snd (fold (sla_check_item now wt) cs (sla_check_item now wt a st)))
           = escalation_rows (c_id c) (snd (sla_check_item now wt c (sla_check_item now wt a st)))
       \<and> find_complaint (c_id c) (snd (fold (sla_check_item now wt) cs (sla_check_item now wt a st)))
           = find_complaint (c_id c) (snd (sla_check_item now wt c (sla_check_item now wt a st)))"
      using Cons.IH[OF d mem] .
    have v: "escalation_rows (c_id c) (snd (sla_check_item now wt a st)) = escalation_rows (c_id c) (snd st)"
      "find_complaint (c_id c) (snd (sla_check_item now wt a st)) = find_complaint (c_id c) (snd st)"
      using sla_check_item_other[OF ne] by simp_all
    show ?thesis
      using ih sla_check_item_cong[OF v] by simp
  qed
qed


lemma candidates_distinct:
  "distinct (map c_id (complaints db)) \<Longrightarrow> distinct (map c_id (sla_candidates db))"
  by (simp add: sla_candidates_def distinct_map_filter)

lemma rows_checkSLABreaches:
  "escalation_rows i (snd (checkSLABreaches now cfg db)) =
     escalation_rows i (snd (fold (sla_check_item now (warningHoursBefore cfg * 60 * 60 * 1000))
        (sla_candidates db) (\<lparr>n_warnings = 0, n_breaches = 0, n_escalations = 0\<rparr>, db)))"
  by (simp add: checkSLABreaches_def Let_def)

lemma sla_check_item_breached_rows:
  assumes "sla_breached c" and "sla_deadline c = Some deadline"
  shows "escalation_rows (c_id c) (snd (sla_check_item now wt c (z, db))) =
     (if status c \<noteq> escalated
      then escalation_rows (c_id c)
             (snd (checkEscalation now (c_id c) (\<bar>of_int (deadline - now)\<bar> / (1000 * 60 * 60)) db))
      else escalation_rows (c_id c) db)"
proof -
  define i where "i = c_id c"
  define h :: real where "h = \<bar>of_int (deadline - now)\<bar> / (1000 * 60 * 60)"
  define db1 where "db1 = (if deadline - now > 0 \<and> of_int (deadline - now) < wt \<and> \<not> sla_breach_notified c
                   then handleSLAWarning i db else db)"
  have e: "snd (sla_check_item now wt c (z, db)) =
      (if status c \<noteq> escalated then snd (checkEscalation now i h db1) else db1)"
    using assms unfolding db1_def h_def i_def by (simp add: sla_check_item_db Let_def)
  have r1: "escalation_rows i db1 = escalation_rows i db"
    unfolding db1_def by simp
  have f1: "find_complaint i db1 = None \<longleftrightarrow> find_complaint i db = None"
    unfolding db1_def by (simp add: find_handleSLAWarning)
  show ?thesis
    unfolding i_def[symmetric] h_def[symmetric] e
    using r1 checkEscalation_cong(2)[OF r1 f1] by simp
qed

text \<open>
  C5 (as amended). In a sweep over a table with unique identifiers, for every complaint that
  is already breached, has a deadline and is not resolved, closed or rejected: when its
  status is not \<open>escalated\<close>, its escalation history after the sweep is the one the ladder
  (\<^verbatim>\<open>checkEscalation\<close>, with the hours between deadline and sweep) makes of it; when its
  status is \<open>escalated\<close>, the ladder is not consulted and its history is unchanged.
\<close>

theorem sweep_delegation:
  assumes pk: "distinct (map c_id (complaints db))"
    and mem: "c \<in> set (complaints db)"
    and open_status: "status c \<notin> {resolved, closed, rejected}"
    and deadline: "sla_deadline c = Some deadline"
    and breached: "sla_breached c"
  shows "(status c \<noteq> escalated \<longrightarrow>
           escalation_rows (c_id c) (snd (checkSLABreaches now cfg db))
           = escalation_rows (c_id c)
               (snd (checkEscalation now (c_id c)
                       (\<bar>of_int (deadline - now)\<bar> / (1000 * 60 * 60)) db)))
       \<and> (status c = escalated \<longrightarrow>
           escalation_rows (c_id c) (snd (checkSLABreaches now cfg db))
           = escalation_rows (c_id c) db)"
proof -
  have cand: "c \<in> set (sla_candidates db)"
    using mem open_status deadline by (simp add: sla_candidates_def)
  note own = sweep_own[OF candidates_distinct[OF pk] cand, THEN conjunct1]
  show ?thesis
    unfolding rows_checkSLABreaches own sla_check_item_breached_rows[OF breached deadline]
    by simp
qed

theorem sweep_delegation_witness:
  "escalation_rows ''c1''
     (snd (checkSLABreaches (52 * msPerHour) default_config
        (sample_db [sample_complaint\<lparr>status := in_progress, sla_deadline := Some 0, sla_breached := True\<rparr>]
                   [sample_escalation level_1 (22 * msPerHour)])))
   = escalation_rows ''c1''
      (snd (checkEscalation (52 * msPerHour) ''c1'' 52
        (sample_db [sample_complaint\<lparr>status := in_progress, sla_deadline := Some 0, sla_breached := True\<rparr>]
                   [sample_escalation level_1 (22 * msPerHour)])))
   \<and> escalation_rows ''c1''
     (snd (checkSLABreaches (52 * msPerHour) default_config
        (sample_db [sample_complaint\<lparr>status := escalated, sla_deadline := Some 0, sla_breached := True\<rparr>]
                   [sample_escalation level_1 (22 * msPerHour)])))
   = [sample_escalation level_1 (22 * msPerHour)]"
  using sweep_delegation[of "sample_db [sample_complaint\<lparr>status := in_progress, sla_deadline := Some 0, sla_breached := True\<rparr>]
                   [sample_escalation level_1 (22 * msPerHour)]"
              "sample_complaint\<lparr>status := in_progress, sla_deadline := Some 0, sla_breached := True\<rparr>"
              0 "52 * msPerHour" default_config]
        sweep_delegation[of "sample_db [sample_complaint\<lparr>status := escalated, sla_deadline := Some 0, sla_breached := True\<rparr>]
                   [sample_escalation level_1 (22 * msPerHour)]"
              "sample_complaint\<lparr>status := escalated, sla_deadline := Some 0, sla_breached := True\<rparr>"
              0 "52 * msPerHour" default_config]
  by (simp add: sample_db_def sample_complaint_def sample_escalation_def escalation_rows_def msPerHour_def)

text \<open>
  C5 as stated fails for the status \<open>escalated\<close>, which is not terminal and is the status
  a breach itself sets: a breached complaint in that status, 52 hours overdue and at
  \<open>level_1\<close> for 30 hours, would be advanced by the ladder, but the sweep counts no
  escalation and leaves the escalation table as it was.
\<close>

theorem sweep_skips_escalated_counterexample:
  "fst (checkEscalation (52 * msPerHour) ''c1'' 52
        (sample_db [sample_complaint\<lparr>status := escalated, sla_deadline := Some 0, sla_breached := True\<rparr>]
                   [sample_escalation level_1 (22 * msPerHour)]))
   \<and> escalations_made (fst (checkSLABreaches (52 * msPerHour) default_config
        (sample_db [sample_complaint\<lparr>status := escalated, sla_deadline := Some 0, sla_breached := True\<rparr>]
                   [sample_escalation level_1 (22 * msPerHour)]))) = 0
   \<and> escalations (snd (checkSLABreaches (52 * msPerHour) default_config
        (sample_db [sample_complaint\<lparr>status := escalated, sla_deadline := Some 0, sla_breached := True\<rparr>]
                   [sample_escalation level_1 (22 * msPerHour)])))
     = [sample_escalation level_1 (22 * msPerHour)]"
  by (simp add: checkSLABreaches_def sla_candidates_def sla_check_item_def checkEscalation_def
      ESCALATION_ORDER_def logger_write_def default_config_def
      sample_db_def sample_complaint_def sample_escalation_def msPerHour_def Let_def)

subsection \<open>Escalation level over sweeps\<close>

lemma find_distinct_mem:
  "distinct (map c_id cs) \<Longrightarrow> x \<in> set cs \<Longrightarrow> find (\<lambda>c. c_id c = c_id x) cs = Some x"
proof (induction cs)
  case Nil
  then show ?case by simp
next
  case (Cons a cs)
  show ?case
  proof (cases "a = x")
    case True
    then show ?thesis by simp
  next
    case False
    then have "x \<in> set cs" using Cons.prems(2) by simp
    then have "c_id a \<noteq> c_id x" using Cons.prems(1) by (auto simp: image_iff)
    then show ?thesis using Cons \<open>x \<in> set cs\<close> by simp
  qed
qed

lemma find_complaint_mem:
  "distinct (map c_id (complaints db)) \<Longrightarrow> x \<in> set (complaints db) \<Longrightarrow>
   find_complaint (c_id x) db = Some x"
  by (simp add: find_complaint_def find_distinct_mem)

lemma find_complaint_in_set:
  "find_complaint i db = Some x \<Longrightarrow> x \<in> set (complaints db)"
  unfolding find_complaint_def by (auto simp: find_Some_iff)

lemma sla_check_item_shape:
  assumes found: "find_complaint (c_id c) db = Some c"
  shows "\<exists>x. find_complaint (c_id c) (snd (sla_check_item now wt c (z, db))) = Some x \<and>
    ((escalation_rows (c_id c) (snd (sla_check_item now wt c (z, db))) = escalation_rows (c_id c) db
        \<and> (sla_breached x \<longleftrightarrow> sla_breached c))
     \<or> (\<not> sla_breached c \<and> sla_breached x
          \<and> (\<exists>e. escalation_rows (c_id c) (snd (sla_check_item now wt c (z, db)))
                    = escalation_rows (c_id c) db @ [e]
                \<and> esc_complaint_id e = c_id c \<and> esc_created_at e = now
                \<and> escalation_level e = level_1))
     \<or> (sla_breached c \<and> sla_breached x
          \<and> (\<exists>l e. latestEscalation (c_id c) (escalations db) = Some l
                \<and> escalation_rows (c_id c) (snd (sla_check_item now wt c (z, db)))
                    = escalation_rows (c_id c) db @ [e]
                \<and> esc_complaint_id e = c_id c \<and> esc_created_at e = now
                \<and> level_rank (Some (escalation_level e))
                    = level_rank (Some (escalation_level l)) + 1)))"
proof -
  define i where "i = c_id c"
  define d where "d = (case sla_deadline c of None \<Rightarrow> 0 | Some x \<Rightarrow> x) - now"
  define h :: real where "h = \<bar>of_int d\<bar> / (1000 * 60 * 60)"
  define W where "W \<longleftrightarrow> d > 0 \<and> of_int d < wt \<and> \<not> sla_breach_notified c"
  define db1 where "db1 = (if W then handleSLAWarning i db else db)"
  define c1 where "c1 = (if W then c\<lparr>sla_breach_notified := True\<rparr> else c)"
  have fi: "find_complaint i db = Some c" using found i_def by simp
  show ?thesis
  proof (cases "d < 0 \<and> \<not> sla_breached c")
    case True
    have e: "snd (sla_check_item now wt c (z, db)) = handleSLABreach now i db"
      using True unfolding d_def i_def by (simp add: sla_check_item_db Let_def)
    have "find_complaint i (handleSLABreach now i db) = Some (breach_updateData c)"
      using fi found i_def by (simp add: find_handleSLABreach)
    moreover have "sla_breached (breach_updateData c)"
      by (simp add: breach_updateData_def)
    moreover have "escalation_rows i (handleSLABreach now i db) = escalation_rows i db @
         [\<lparr>esc_complaint_id = i, escalation_level = level_1, previous_level = None,
           reason = ''SLA deadline exceeded'', is_system_escalation = True,
           esc_created_at = now\<rparr>]"
      using fi by (simp add: rows_handleSLABreach)
    ultimately show ?thesis
      using True unfolding i_def[symmetric] e by auto
  next
    case False
    have f1: "find_complaint i db1 = Some c1"
      using fi found unfolding db1_def c1_def i_def by (simp add: find_handleSLAWarning)
    have b1: "sla_breached c1 \<longleftrightarrow> sla_breached c"
      unfolding c1_def by simp
    have r1: "escalation_rows i db1 = escalation_rows i db"
      unfolding db1_def by simp
    have l1: "latestEscalation i (escalations db1) = latestEscalation i (escalations db)"
      using r1 by (simp add: latestEscalation_rows)
    have e: "snd (sla_check_item now wt c (z, db)) =
        (if sla_breached c \<and> status c \<noteq> escalated then snd (checkEscalation now i h db1) else db1)"
      using False unfolding db1_def W_def h_def d_def i_def
      by (auto simp: sla_check_item_db Let_def)
    show ?thesis
    proof (cases "sla_breached c \<and> status c \<noteq> escalated")
      case B: False
      have e': "snd (sla_check_item now wt c (z, db)) = db1"
        using B e by auto
      show ?thesis
        unfolding i_def[symmetric] e' using f1 b1 r1 by simp
    next
      case B: True
      have e': "snd (sla_check_item now wt c (z, db)) = snd (checkEscalation now i h db1)"
        using B e by simp
      from checkEscalation_view[of now i h db1]
      show ?thesis
      proof
        assume "checkEscalation now i h db1 = (False, db1)"
        then show ?thesis
          unfolding i_def[symmetric] e' using f1 b1 r1 by simp
      next
        assume "\<exists>l e. latestEscalation i (escalations db1) = Some l
           \<and> fst (checkEscalation now i h db1)
           \<and> escalation_rows i (snd (checkEscalation now i h db1))
                = escalation_rows i db1 @ (if find_complaint i db1 \<noteq> None then [e] else [])
           \<and> esc_complaint_id e = i \<and> esc_created_at e = now
           \<and> level_rank (Some (escalation_level e)) = level_rank (Some (escalation_level l)) + 1"
        then obtain l e where le: "latestEscalation i (escalations db1) = Some l"
           "escalation_rows i (snd (checkEscalation now i h db1))
                = escalation_rows i db1 @ (if find_complaint i db1 \<noteq> None then [e] else [])"
           "esc_complaint_id e = i" "esc_created_at e = now"
           "level_rank (Some (escalation_level e)) = level_rank (Some (escalation_level l)) + 1"
          by blast
        have "find_complaint i (snd (checkEscalation now i h db1)) = Some c1"
          using f1 by simp
        moreover have "escalation_rows i (snd (checkEscalation now i h db1)) = escalation_rows i db @ [e]"
          using le(2) f1 r1 by simp
        moreover have "latestEscalation i (escalations db) = Some l"
          using le(1) l1 by simp
        ultimately show ?thesis
          unfolding i_def[symmetric] e' using B b1 le(3,4,5) by auto
      qed
    qed
  qed
qed


lemma find_checkSLABreaches:
  "find_complaint i (snd (checkSLABreaches now cfg db)) =
     find_complaint i (snd (fold (sla_check_item now (warningHoursBefore cfg * 60 * 60 * 1000))
        (sla_candidates db) (\<lparr>n_warnings = 0, n_breaches = 0, n_escalations = 0\<rparr>, db)))"
  by (simp add: checkSLABreaches_def Let_def)

lemma ids_checkSLABreaches:
  "map c_id (complaints (snd (checkSLABreaches now cfg db))) = map c_id (complaints db)"
  by (simp add: checkSLABreaches_def Let_def sweep_ids)

lemma sweep_shape:
  assumes pk: "distinct (map c_id (complaints db))"
  shows "(escalation_rows i (snd (checkSLABreaches now cfg db)) = escalation_rows i db
          \<and> (\<forall>x. find_complaint i (snd (checkSLABreaches now cfg db)) = Some x \<longrightarrow>
                (\<exists>x0. find_complaint i db = Some x0 \<and> (sla_breached x \<longleftrightarrow> sla_breached x0))))
       \<or> (\<exists>c x e. find_complaint i db = Some c \<and> \<not> sla_breached c
              \<and> find_complaint i (snd (checkSLABreaches now cfg db)) = Some x \<and> sla_breached x
              \<and> escalation_rows i (snd (checkSLABreaches now cfg db)) = escalation_rows i db @ [e]
              \<and> esc_complaint_id e = i \<and> esc_created_at e = now \<and> escalation_level e = level_1)
       \<or> (\<exists>c x l e. find_complaint i db = Some c \<and> sla_breached c
              \<and> find_complaint i (snd (checkSLABreaches now cfg db)) = Some x \<and> sla_breached x
              \<and> latestEscalation i (escalations db) = Some l
              \<and> escalation_rows i (snd (checkSLABreaches now cfg db)) = escalation_rows i db @ [e]
              \<and> esc_complaint_id e = i \<and> esc_created_at e = now
              \<and> level_rank (Some (escalation_level e)) = level_rank (Some (escalation_level l)) + 1)"
proof (cases "\<exists>c \<in> set (sla_candidates db). c_id c = i")
  case False
  then have "\<forall>c \<in> set (sla_candidates db). c_id c \<noteq> i" by blast
  from sweep_other[OF this]
  have "escalation_rows i (snd (checkSLABreaches now cfg db)) = escalation_rows i db"
    and "find_complaint i (snd (checkSLABreaches now cfg db)) = find_complaint i db"
    unfolding rows_checkSLABreaches find_checkSLABreaches by simp_all
  then show ?thesis by simp
next
  case True
  then obtain c where c: "c \<in> set (sla_candidates db)" and ci: "c_id c = i" by blast
  have mem: "c \<in> set (complaints db)"
    using c by (simp add: sla_candidates_def)
  have f: "find_complaint (c_id c) db = Some c"
    using find_complaint_mem[OF pk mem] .
  let ?z = "\<lparr>n_warnings = 0, n_breaches = 0, n_escalations = 0\<rparr>"
  let ?wt = "warningHoursBefore cfg * 60 * 60 * 1000"
  from sweep_own[OF candidates_distinct[OF pk] c, of now ?wt "(?z, db)"]
  have r: "escalation_rows i (snd (checkSLABreaches now cfg db))
             = escalation_rows i (snd (sla_check_item now ?wt c (?z, db)))"
    and g: "find_complaint i (snd (checkSLABreaches now cfg db))
             = find_complaint i (snd (sla_check_item now ?wt c (?z, db)))"
    unfolding rows_checkSLABreaches find_checkSLABreaches ci by simp_all
  from sla_check_item_shape[OF f, of now ?wt ?z]
  show ?thesis
    unfolding r g using f unfolding ci by (elim exE conjE disjE) auto
qed


lemma current_level_rows:
  "current_level i db = map_option escalation_level (latestEscalation i (escalation_rows i db))"
  by (simp add: current_level_def latestEscalation_rows)

lemma rows_mem:
  "e \<in> set (escalation_rows i db) \<longleftrightarrow> e \<in> set (escalations db) \<and> esc_complaint_id e = i"
  by (simp add: escalation_rows_def)

lemma level_rank_le_4: "level_rank l \<le> 4"
proof (cases l)
  case None
  then show ?thesis by (simp add: level_rank_def)
next
  case (Some x)
  then show ?thesis by (cases x) (simp_all add: level_rank_def ESCALATION_ORDER_def)
qed

lemma level_rank_executive: "level_rank (Some executive) = 4"
  by (simp add: level_rank_def ESCALATION_ORDER_def)

lemma level_rank_level_1: "level_rank (Some level_1) = 1"
  by (simp add: level_rank_def ESCALATION_ORDER_def)

lemma sweep_rank_mono:
  assumes inv: "sla_consistent t0 db" and le: "t0 \<le> now"
  shows "level_rank (current_level i db)
         \<le> level_rank (current_level i (snd (checkSLABreaches now cfg db)))"
proof -
  have pk: "distinct (map c_id (complaints db))"
    using inv by (simp add: sla_consistent_def)
  have "\<forall>e \<in> set (escalations db). esc_created_at e \<le> now"
    using inv le by (fastforce simp: sla_consistent_def)
  then have old: "\<forall>e \<in> set (escalation_rows i db). esc_created_at e \<le> now"
    by (simp add: rows_mem)
  from sweep_shape[OF pk, of i now cfg]
  show ?thesis
  proof (elim disjE exE conjE)
    assume "escalation_rows i (snd (checkSLABreaches now cfg db)) = escalation_rows i db"
    then show ?thesis by (simp add: current_level_rows)
  next
    fix c x e
    assume c: "find_complaint i db = Some c" "\<not> sla_breached c"
      and r: "escalation_rows i (snd (checkSLABreaches now cfg db)) = escalation_rows i db @ [e]"
      and e: "esc_complaint_id e = i" "esc_created_at e = now" "escalation_level e = level_1"
    have new: "latestEscalation i (escalation_rows i db @ [e]) = Some e"
      using old e by (intro latestEscalation_append_newest) simp_all
    have "c \<in> set (complaints db)" "c_id c = i"
      using c(1) find_complaint_in_set find_complaint_c_id by blast+
    then have l1: "\<forall>a \<in> set (escalation_rows i db). escalation_level a = level_1"
      using inv c(2) by (auto simp: sla_consistent_def rows_mem)
    have "level_rank (current_level i db) \<le> 1"
    proof (cases "latestEscalation i (escalation_rows i db)")
      case None
      then show ?thesis by (simp add: current_level_rows level_rank_def)
    next
      case (Some a)
      then have "a \<in> set (escalation_rows i db)"
        using latestEscalation_mem by blast
      then have "escalation_level a = level_1" using l1 by blast
      then show ?thesis using Some by (simp add: current_level_rows level_rank_level_1)
    qed
    then show ?thesis
      using new r e(3) by (simp add: current_level_rows level_rank_level_1)
  next
    fix c x l e
    assume l: "latestEscalation i (escalations db) = Some l"
      and r: "escalation_rows i (snd (checkSLABreaches now cfg db)) = escalation_rows i db @ [e]"
      and e: "esc_complaint_id e = i" "esc_created_at e = now"
        "level_rank (Some (escalation_level e)) = level_rank (Some (escalation_level l)) + 1"
    have new: "latestEscalation i (escalation_rows i db @ [e]) = Some e"
      using old e by (intro latestEscalation_append_newest) simp_all
    have o: "level_rank (current_level i db) = level_rank (Some (escalation_level l))"
      using l by (simp add: current_level_def)
    have n: "current_level i (snd (checkSLABreaches now cfg db)) = Some (escalation_level e)"
      using new r by (simp add: current_level_rows)
    show ?thesis
      unfolding o n using e(3) by simp
  qed
qed

lemma sweep_executive_fixed:
  assumes inv: "sla_consistent t0 db" and le: "t0 \<le> now"
    and ex: "current_level i db = Some executive"
  shows "escalation_rows i (snd (checkSLABreaches now cfg db)) = escalation_rows i db"
proof -
  have pk: "distinct (map c_id (complaints db))"
    using inv by (simp add: sla_consistent_def)
  obtain a where a: "latestEscalation i (escalations db) = Some a" "escalation_level a = executive"
    using ex by (auto simp: current_level_def)
  have am: "a \<in> set (escalations db)" "esc_complaint_id a = i"
    using latestEscalation_mem[OF a(1)] by simp_all
  from sweep_shape[OF pk, of i now cfg]
  show ?thesis
  proof (elim disjE exE conjE)
    assume "escalation_rows i (snd (checkSLABreaches now cfg db)) = escalation_rows i db"
    then show ?thesis .
  next
    fix c x e
    assume c: "find_complaint i db = Some c" "\<not> sla_breached c"
    have "c \<in> set (complaints db)" "c_id c = i"
      using c(1) find_complaint_in_set find_complaint_c_id by blast+
    then have "escalation_level a = level_1"
      using inv c(2) am by (auto simp: sla_consistent_def)
    then show ?thesis using a(2) by simp
  next
    fix c x l e
    assume l: "latestEscalation i (escalations db) = Some l"
      and e: "level_rank (Some (escalation_level e)) = level_rank (Some (escalation_level l)) + 1"
    have "l = a" using l a(1) by simp
    then have "level_rank (Some (escalation_level e)) = 5"
      using e a(2) by (simp add: level_rank_executive)
    then show ?thesis using level_rank_le_4[of "Some (escalation_level e)"] by simp
  qed
qed

lemma sweep_consistent:
  assumes inv: "sla_consistent t0 db" and le: "t0 \<le> now"
  shows "sla_consistent now (snd (checkSLABreaches now cfg db))"
proof -
  let ?db' = "snd (checkSLABreaches now cfg db)"
  have pk: "distinct (map c_id (complaints db))"
    using inv by (simp add: sla_consistent_def)
  have pk': "distinct (map c_id (complaints ?db'))"
    using pk by (simp add: ids_checkSLABreaches)
  have stamps: "\<forall>e \<in> set (escalations ?db'). esc_created_at e \<le> now"
  proof
    fix e assume "e \<in> set (escalations ?db')"
    then have m: "e \<in> set (escalation_rows (esc_complaint_id e) ?db')"
      by (simp add: rows_mem)
    have "\<forall>a \<in> set (escalations db). esc_created_at a \<le> now"
      using inv le by (fastforce simp: sla_consistent_def)
    then have old: "\<forall>a \<in> set (escalation_rows (esc_complaint_id e) db). esc_created_at a \<le> now"
      by (simp add: rows_mem)
    from sweep_shape[OF pk, of "esc_complaint_id e" now cfg]
    show "esc_created_at e \<le> now"
      using m old by (elim disjE exE conjE) auto
  qed
  have third: "\<forall>x \<in> set (complaints ?db'). \<not> sla_breached x \<longrightarrow>
           (\<forall>e \<in> set (escalations ?db').
              esc_complaint_id e = c_id x \<longrightarrow> escalation_level e = level_1)"
  proof (intro ballI impI)
    fix x e
    assume x: "x \<in> set (complaints ?db')" and nb: "\<not> sla_breached x"
      and e: "e \<in> set (escalations ?db')" and ei: "esc_complaint_id e = c_id x"
    have fx: "find_complaint (c_id x) ?db' = Some x"
      using find_complaint_mem[OF pk' x] .
    have m: "e \<in> set (escalation_rows (c_id x) ?db')"
      using e ei by (simp add: rows_mem)
    from sweep_shape[OF pk, of "c_id x" now cfg]
    show "escalation_level e = level_1"
    proof (elim disjE exE conjE)
      assume r: "escalation_rows (c_id x) ?db' = escalation_rows (c_id x) db"
        and b: "\<forall>y. find_complaint (c_id x) ?db' = Some y \<longrightarrow>
                (\<exists>x0. find_complaint (c_id x) db = Some x0 \<and> (sla_breached y \<longleftrightarrow> sla_breached x0))"
      then obtain x0 where x0: "find_complaint (c_id x) db = Some x0" "\<not> sla_breached x0"
        using fx nb by blast
      have "x0 \<in> set (complaints db)" "c_id x0 = c_id x"
        using x0(1) find_complaint_in_set find_complaint_c_id by blast+
      moreover have "e \<in> set (escalations db)"
        using m r by (simp add: rows_mem)
      ultimately show ?thesis
        using inv x0(2) ei by (auto simp: sla_consistent_def)
    next
      fix c y a
      assume "find_complaint (c_id x) ?db' = Some y" "sla_breached y"
      then show ?thesis using fx nb by simp
    next
      fix c y l a
      assume "find_complaint (c_id x) ?db' = Some y" "sla_breached y"
      then show ?thesis using fx nb by simp
    qed
  qed
  show ?thesis
    unfolding sla_consistent_def using pk' stamps third by blast
qed

lemma sla_consistent_without_escalations:
  "distinct (map c_id (complaints db)) \<Longrightarrow> escalations db = [] \<Longrightarrow> sla_consistent t db"
  by (simp add: sla_consistent_def)

lemma sla_consistent_later: "sla_consistent t0 db \<Longrightarrow> t0 \<le> t \<Longrightarrow> sla_consistent t db"
  by (fastforce simp: sla_consistent_def)

lemma sweeps_hd: "\<exists>rest. sweeps cfg ts db = db # rest"
  by (cases ts) simp_all

text \<open>
  C6. From a consistent database, over any run of sweeps made at non-decreasing times, the
  escalation level of every complaint (the level of its most recent escalation row, none
  counting as 0) never decreases from one state to the next and never exceeds that of
  \<open>executive\<close>; a complaint that starts the run at \<open>executive\<close> gets no further row.
\<close>

theorem escalation_level_monotone:
  assumes "sla_consistent t0 db" and "sorted (t0 # ts)"
  shows "sorted (map (\<lambda>d. level_rank (current_level cid d)) (sweeps cfg ts db))
       \<and> (\<forall>d \<in> set (sweeps cfg ts db).
             level_rank (current_level cid d) \<le> level_rank (Some executive)
             \<and> (current_level cid db = Some executive \<longrightarrow>
                  escalation_rows cid d = escalation_rows cid db))"
  using assms
proof (induction ts arbitrary: t0 db)
  case Nil
  then show ?case by (simp add: level_rank_le_4 level_rank_executive)
next
  case (Cons t ts)
  let ?db' = "snd (checkSLABreaches t cfg db)"
  have le: "t0 \<le> t" and srt: "sorted (t # ts)"
    using Cons.prems(2) by simp_all
  have inv': "sla_consistent t ?db'"
    using sweep_consistent[OF Cons.prems(1) le] .
  note ih = Cons.IH[OF inv' srt]
  obtain rest where rest: "sweeps cfg ts ?db' = ?db' # rest"
    using sweeps_hd by blast
  have step: "level_rank (current_level cid db) \<le> level_rank (current_level cid ?db')"
    using sweep_rank_mono[OF Cons.prems(1) le] .
  have s: "sorted (map (\<lambda>d. level_rank (current_level cid d)) (sweeps cfg ts ?db'))"
    using ih by simp
  have all_ge: "\<forall>y \<in> set (map (\<lambda>d. level_rank (current_level cid d)) (sweeps cfg ts ?db')).
      level_rank (current_level cid ?db') \<le> y"
    using s unfolding rest by auto
  have p1: "sorted (map (\<lambda>d. level_rank (current_level cid d)) (sweeps cfg (t # ts) db))"
    using s all_ge step by (auto intro: order_trans)
  have p2: "\<forall>d \<in> set (sweeps cfg (t # ts) db).
             level_rank (current_level cid d) \<le> level_rank (Some executive)"
    by (simp add: level_rank_le_4 level_rank_executive)
  have p3: "\<forall>d \<in> set (sweeps cfg (t # ts) db).
      current_level cid db = Some executive \<longrightarrow> escalation_rows cid d = escalation_rows cid db"
  proof (intro ballI impI)
    fix d assume d: "d \<in> set (sweeps cfg (t # ts) db)" and ex: "current_level cid db = Some executive"
    have fixed: "escalation_rows cid ?db' = escalation_rows cid db"
      using sweep_executive_fixed[OF Cons.prems(1) le ex] .
    then have ex': "current_level cid ?db' = Some executive"
      using ex by (simp add: current_level_rows)
    from d have "d = db \<or> d \<in> set (sweeps cfg ts ?db')" by simp
    then show "escalation_rows cid d = escalation_rows cid db"
    proof
      assume "d = db" then show ?thesis by simp
    next
      assume "d \<in> set (sweeps cfg ts ?db')"
      then have "escalation_rows cid d = escalation_rows cid ?db'"
        using ih ex' by blast
      then show ?thesis using fixed by simp
    qed
  qed
  show ?case using p1 p2 p3 by blast
qed


theorem escalation_level_monotone_witness:
  "sorted (map (\<lambda>d. level_rank (current_level ''c1'' d))
     (sweeps default_config [msPerHour, 30 * msPerHour]
        (sample_db [sample_complaint\<lparr>status := in_progress, sla_deadline := Some 0\<rparr>] [])))
   \<and> sla_consistent 0 (sample_db [sample_complaint\<lparr>status := in_progress, sla_deadline := Some 0\<rparr>] [])"
  using escalation_level_monotone[of 0 "sample_db [sample_complaint\<lparr>status := in_progress, sla_deadline := Some 0\<rparr>] []"
             "[msPerHour, 30 * msPerHour]" "''c1''" default_config]
  by (simp add: sla_consistent_def sample_db_def sample_complaint_def msPerHour_def)

lemma sweeps_sample_levels:
  "map (\<lambda>d. level_rank (current_level ''c1'' d))
     (sweeps default_config [msPerHour, 30 * msPerHour]
        (sample_db [sample_complaint\<lparr>status := in_progress, sla_deadline := Some 0\<rparr>] [])) = [0, 1, 1]"
  by (simp add: checkSLABreaches_def sla_candidates_def sla_check_item_def checkEscalation_def
      handleSLABreach_def breach_updateData_def update_complaints_def insert_escalation_def
      find_complaint_def triggerSLABreach_def triggerNotification_def sendWebhook_def
      log_status_change_def current_level_def level_rank_def
      ESCALATION_ORDER_def logger_write_def default_config_def
      sample_db_def sample_complaint_def msPerHour_def Let_def)

end
